theory Spec2Isabelle
  imports Complex_Main "HOL-Library.Word" "HOL-Library.AList" "HOL-Library.Log_Nat"
begin

unbundle bit_operations_syntax

section \<open>Machine types and byte output\<close>

text \<open>
  The converter is built for x64 (\<^verbatim>\<open>build.bat\<close>: Release, x64): \<^verbatim>\<open>size_t\<close> is a
  64-bit word, \<^verbatim>\<open>uint32_t\<close> a 32-bit word, a byte an 8-bit word. A file is the list of
  the bytes written to it, in order.
\<close>

type_synonym byte = "8 word"
type_synonym u32 = "32 word"
type_synonym size_t = "64 word"

text \<open>
  \<^verbatim>\<open>file.write(reinterpret_cast<const char*>(&x), 4)\<close> for a \<^verbatim>\<open>uint32_t x\<close>: the four bytes
  of \<open>x\<close> as x64 stores them, least significant first.
\<close>

definition write_u32 :: "u32 \<Rightarrow> byte list" where
  "write_u32 x = [ucast x, ucast (drop_bit 8 x), ucast (drop_bit 16 x), ucast (drop_bit 24 x)]"

text \<open>
  \<^verbatim>\<open>static_cast<uint32_t>((n + 3) & ~3)\<close> for a \<^verbatim>\<open>size_t n\<close>: the sum and the mask are
  computed on 64 bits (\<^verbatim>\<open>~3\<close> is the \<^verbatim>\<open>int\<close> -4, converted to \<^verbatim>\<open>size_t\<close>), the cast
  keeps the low 32 bits.
\<close>

definition align4 :: "nat \<Rightarrow> u32" where
  "align4 n = ucast (((of_nat n :: size_t) + 3) AND NOT 3)"

text \<open>
  The padding loops \<^verbatim>\<open>for (size_t i = n; i < len; ++i) file.put(c)\<close> of
  \<^verbatim>\<open>WriteGlbJsonChunk\<close> and \<^verbatim>\<open>WriteGlbBinaryChunk\<close>.
\<close>

function put_padding :: "nat \<Rightarrow> nat \<Rightarrow> byte \<Rightarrow> byte list" where
  "put_padding i len c = (if i < len then c # put_padding (Suc i) len c else [])"
  by pat_completeness auto
termination
  by (relation "measure (\<lambda>(i, len, c). len - i)") auto

declare put_padding.simps [simp del]

section \<open>The GLB container\<close>

text \<open>\<^verbatim>\<open>WriteGlbHeader\<close>: magic, version and total length.\<close>

definition glb_totalLength :: "string \<Rightarrow> byte list \<Rightarrow> u32" where
  "glb_totalLength jsonString binaryData =
     (let jsonLength = align4 (length jsonString);
          binaryLength = align4 (length binaryData)
      in 12 + 8 + jsonLength + (if binaryData = [] then 0 else 8 + binaryLength))"

definition WriteGlbHeader :: "string \<Rightarrow> byte list \<Rightarrow> byte list" where
  "WriteGlbHeader jsonString binaryData =
     (let magic = 0x46546C67;
          version = 2;
          totalLength = glb_totalLength jsonString binaryData
      in write_u32 magic @ write_u32 version @ write_u32 totalLength)"

text \<open>\<^verbatim>\<open>WriteGlbJsonChunk\<close>: length, type, the text, then spaces up to the length.\<close>

definition WriteGlbJsonChunk :: "string \<Rightarrow> byte list" where
  "WriteGlbJsonChunk jsonString =
     (let jsonLength = align4 (length jsonString);
          jsonType = 0x4E4F534A
      in write_u32 jsonLength @ write_u32 jsonType @ map of_char jsonString @
         put_padding (length jsonString) (unat jsonLength) (of_char CHR '' ''))"

text \<open>\<^verbatim>\<open>WriteGlbBinaryChunk\<close>: length, type, the blob, then zero bytes up to the length.\<close>

definition WriteGlbBinaryChunk :: "byte list \<Rightarrow> byte list" where
  "WriteGlbBinaryChunk binaryData =
     (let binaryLength = align4 (length binaryData);
          binaryType = 0x004E4942
      in write_u32 binaryLength @ write_u32 binaryType @ binaryData @
         put_padding (length binaryData) (unat binaryLength) 0)"

text \<open>
  The bytes \<^verbatim>\<open>WriteGlbFile\<close> writes once the file is open, from the JSON text and the
  collected blob: header, JSON chunk, and the binary chunk only for a non-empty blob.
\<close>

definition glb_bytes :: "string \<Rightarrow> byte list \<Rightarrow> byte list" where
  "glb_bytes jsonString binaryData =
     WriteGlbHeader jsonString binaryData @ WriteGlbJsonChunk jsonString @
     (if binaryData \<noteq> [] then WriteGlbBinaryChunk binaryData else [])"

text \<open>Rounding up to the next multiple of 4, on the natural numbers.\<close>

definition round_up4 :: "nat \<Rightarrow> nat" where
  "round_up4 n = ((n + 3) div 4) * 4"

text \<open>
  The total length as the specification words it, on the natural numbers: header,
  JSON chunk header, aligned JSON length, and the binary chunk only for a non-empty blob.
\<close>

definition spec_totalLength :: "string \<Rightarrow> byte list \<Rightarrow> nat" where
  "spec_totalLength jsonString binaryData =
     12 + 8 + round_up4 (length jsonString) +
     (if binaryData = [] then 0 else 8 + round_up4 (length binaryData))"

section \<open>Numbers as text\<close>

text \<open>\<^verbatim>\<open>std::to_string\<close> and \<^verbatim>\<open>operator<<\<close> on an unsigned integer: its decimal digits.\<close>

definition digit_char :: "nat \<Rightarrow> char" where
  "digit_char d = ''0123456789'' ! d"

function to_string :: "nat \<Rightarrow> string" where
  "to_string n = (if n < 10 then [digit_char n] else to_string (n div 10) @ [digit_char (n mod 10)])"
  by pat_completeness auto
termination
  by (relation "measure (\<lambda>n. n)") auto

declare to_string.simps [simp del]

section \<open>Single precision numbers\<close>

text \<open>
  The values of a \<^verbatim>\<open>float\<close>, IEEE 754 binary32: not a number, the two infinities, and
  the finite values, each kept as the rational number it is. The two zeros are one
  value, as \<^verbatim>\<open>==\<close> has them, and all NaNs are one. The values that arithmetic and the
  rounding below yield are binary32 numbers; the type has room for the other rationals
  too, and nothing here depends on their absence.
\<close>

datatype binary32 = NaN | MInf | Fin rat | PInf

text \<open>
  Rounding to nearest, ties to even. The binary exponent of a positive rational \<open>q\<close> is
  the \<open>e\<close> with \<open>2 powi e \<le> q < 2 powi (e + 1)\<close>. A binary32 number has 24 significant
  bits, and the exponent of its last bit is not below \<open>-149\<close>: so \<open>q\<close> is rounded to a
  multiple of 2 to the power \<open>exponent32 q\<close>, and a result of magnitude \<open>2 ^ 128\<close> or
  more is an infinity.
\<close>

definition round_half_even :: "rat \<Rightarrow> int" where
  "round_half_even x =
     (let f = \<lfloor>x\<rfloor>; d = x - of_int f
      in if d < 1 / 2 then f else if 1 / 2 < d then f + 1 else if even f then f else f + 1)"

definition ilog2 :: "rat \<Rightarrow> int" where
  "ilog2 q =
     (let (a, b) = quotient_of q; d = bitlen a - bitlen b
      in if 2 powi d \<le> q then d else d - 1)"

definition exponent32 :: "rat \<Rightarrow> int" where
  "exponent32 q = max (ilog2 \<bar>q\<bar> - 23) (- 149)"

definition round_to_grid :: "rat \<Rightarrow> rat" where
  "round_to_grid q =
     (if q = 0 then 0
      else of_int (round_half_even (q / 2 powi exponent32 q)) * 2 powi exponent32 q)"

definition overflow32 :: "rat \<Rightarrow> binary32" where
  "overflow32 r = (if 2 ^ 128 \<le> r then PInf else if r \<le> - (2 ^ 128) then MInf else Fin r)"

definition round32 :: "rat \<Rightarrow> binary32" where
  "round32 q = overflow32 (round_to_grid q)"

text \<open>
  The product of two \<^verbatim>\<open>float\<close>s as \<^verbatim>\<open>*\<close> and \<^verbatim>\<open>*=\<close> compute it in binary32 arithmetic: the
  exact product rounded; NaN for a NaN operand and for zero times an infinity.
\<close>

fun mul32 :: "binary32 \<Rightarrow> binary32 \<Rightarrow> binary32" where
  "mul32 NaN y = NaN"
| "mul32 x NaN = NaN"
| "mul32 (Fin a) (Fin b) = round32 (a * b)"
| "mul32 (Fin a) PInf = (if 0 < a then PInf else if a < 0 then MInf else NaN)"
| "mul32 (Fin a) MInf = (if 0 < a then MInf else if a < 0 then PInf else NaN)"
| "mul32 PInf (Fin b) = (if 0 < b then PInf else if b < 0 then MInf else NaN)"
| "mul32 MInf (Fin b) = (if 0 < b then MInf else if b < 0 then PInf else NaN)"
| "mul32 PInf PInf = PInf"
| "mul32 MInf MInf = PInf"
| "mul32 PInf MInf = MInf"
| "mul32 MInf PInf = MInf"

text \<open>The comparison \<^verbatim>\<open><\<close>: false whenever an operand is NaN.\<close>

fun less32 :: "binary32 \<Rightarrow> binary32 \<Rightarrow> bool" where
  "less32 NaN y = False"
| "less32 x NaN = False"
| "less32 PInf y = False"
| "less32 x MInf = False"
| "less32 MInf y = True"
| "less32 x PInf = True"
| "less32 (Fin a) (Fin b) = (a < b)"

text \<open>
  \<^verbatim>\<open>0.0f\<close>, \<^verbatim>\<open>1.0f\<close>, \<^verbatim>\<open>*\<close>, \<^verbatim>\<open><\<close> and \<^verbatim>\<open><=\<close> of binary32, under the names that the
  definitions below use for the arithmetic of \<^verbatim>\<open>float\<close>.
\<close>

instantiation binary32 :: "{zero, one, times, ord}"
begin

definition zero_binary32 :: binary32 where
  "zero_binary32 = Fin 0"

definition one_binary32 :: binary32 where
  "one_binary32 = Fin 1"

definition times_binary32 :: "binary32 \<Rightarrow> binary32 \<Rightarrow> binary32" where
  "times_binary32 x y = mul32 x y"

definition less_binary32 :: "binary32 \<Rightarrow> binary32 \<Rightarrow> bool" where
  "less_binary32 x y = less32 x y"

definition less_eq_binary32 :: "binary32 \<Rightarrow> binary32 \<Rightarrow> bool" where
  "less_eq_binary32 x y = (less32 x y \<or> x = y \<and> x \<noteq> NaN)"

instance ..

end

section \<open>Geometry records\<close>

type_synonym 'a vec3 = "'a \<times> 'a \<times> 'a"

text \<open>
  \<^verbatim>\<open>struct GeometryData\<close>. The type \<open>'f\<close> stands for \<^verbatim>\<open>float\<close>: the definitions ask of it
  a zero, a one, a product and a comparison and no law about them, so that they hold of
  binary32 above and of the rational numbers of the small examples alike. The bounds
  are \<^verbatim>\<open>float[3]\<close> arrays, here triples.
\<close>

record 'f GeometryData =
  vertices :: "'f list"
  normals :: "'f list"
  texCoords :: "'f list"
  indices :: "u32 list"
  materialId :: string
  minBounds :: "'f vec3"
  maxBounds :: "'f vec3"

text \<open>A default-constructed \<^verbatim>\<open>GeometryData\<close>.\<close>

definition GeometryData_init :: "('f::zero) GeometryData" where
  "GeometryData_init =
     \<lparr>vertices = [], normals = [], texCoords = [], indices = [], materialId = [],
      minBounds = (0, 0, 0), maxBounds = (0, 0, 0)\<rparr>"

text \<open>
  The loop of \<^verbatim>\<open>CalculateBounds\<close> from \<^verbatim>\<open>i = 3\<close> on, three coordinates a step. Where the
  array does not hold whole triples the source reads past its end; the model stops
  there, and leaves the bounds as they are when the array is not empty and holds fewer
  than three coordinates. Extraction only ever builds arrays of whole triples.
\<close>

text \<open>\<^verbatim>\<open>std::min(a, b)\<close> is \<^verbatim>\<open>(b < a) ? b : a\<close>, and \<^verbatim>\<open>std::max(a, b)\<close> is \<^verbatim>\<open>(a < b) ? b : a\<close>.\<close>

definition std_min :: "('f::ord) \<Rightarrow> 'f \<Rightarrow> 'f" where
  "std_min a b = (if b < a then b else a)"

definition std_max :: "('f::ord) \<Rightarrow> 'f \<Rightarrow> 'f" where
  "std_max a b = (if a < b then b else a)"

fun bounds_loop :: "('f::ord) list \<Rightarrow> 'f vec3 \<times> 'f vec3 \<Rightarrow> 'f vec3 \<times> 'f vec3" where
  "bounds_loop (x # y # z # vs) ((mn0, mn1, mn2), (mx0, mx1, mx2)) =
     bounds_loop vs
       ((std_min mn0 x, std_min mn1 y, std_min mn2 z),
        (std_max mx0 x, std_max mx1 y, std_max mx2 z))"
| "bounds_loop vs b = b"

definition CalculateBounds :: "('f::ord) GeometryData \<Rightarrow> 'f GeometryData" where
  "CalculateBounds g =
     (case vertices g of
        x # y # z # vs \<Rightarrow>
          (let (mn, mx) = bounds_loop vs ((x, y, z), (x, y, z))
           in g\<lparr>minBounds := mn, maxBounds := mx\<rparr>)
      | _ \<Rightarrow> g)"

text \<open>\<^verbatim>\<open>ApplyScale\<close>: every vertex coordinate times the scale, unless the scale is 1.\<close>

definition ApplyScale :: "('f::{one,times}) GeometryData \<Rightarrow> 'f \<Rightarrow> 'f GeometryData" where
  "ApplyScale geomData scale =
     (if scale \<noteq> 1 then geomData\<lparr>vertices := map (\<lambda>v. v * scale) (vertices geomData)\<rparr>
      else geomData)"

section \<open>The shape data of the geometry converter\<close>

text \<open>
  What the converter reads of the geometry library (carve) and of the shape data. The
  type \<open>'d\<close> stands for \<^verbatim>\<open>double\<close>, \<open>'m\<close> for \<^verbatim>\<open>carve::math::Matrix\<close>. A face gives
  \<^verbatim>\<open>n_edges\<close>, the vertices met from \<^verbatim>\<open>face->edge\<close> along \<^verbatim>\<open>edge->next\<close> until the first
  edge comes back (\<open>edge_loop\<close>), and \<^verbatim>\<open>plane.N\<close>. A null pointer is \<open>None\<close>.
\<close>

record 'd Face =
  n_edges :: nat
  edge_loop :: "'d vec3 list"
  plane_N :: "'d vec3"

type_synonym 'd Mesh = "'d Face option list"
type_synonym 'd MeshSet = "'d Mesh option list"

datatype 'd ItemShapeData = ItemShapeData
  (m_meshsets: "'d MeshSet option list")
  (m_meshsets_open: "'d MeshSet option list")
  (m_vec_item_appearances: "'d list option list")
  (m_child_items: "'d ItemShapeData list")

text \<open>
  \<^verbatim>\<open>add_triangle\<close> is the body of the triangulation loop of \<^verbatim>\<open>ExtractMeshSet\<close>: nine
  coordinates, the face normal three times, three zero texture coordinates, three
  indices from \<^verbatim>\<open>static_cast<uint32_t>(vertices.size() / 3)\<close>. The parameter \<open>cf\<close> is
  \<^verbatim>\<open>static_cast<float>\<close>.
\<close>

definition add_triangle ::
  "('d \<Rightarrow> 'f) \<Rightarrow> 'd vec3 \<Rightarrow> 'd vec3 \<Rightarrow> 'd vec3 \<Rightarrow> 'd vec3 \<Rightarrow> ('f::zero) GeometryData \<Rightarrow>
   'f GeometryData" where
  "add_triangle cf p0 p1 p2 normal geomData =
     (let baseIndex = (of_nat (length (vertices geomData) div 3) :: u32)
      in geomData
         \<lparr>vertices := vertices geomData @
            [cf (fst p0), cf (fst (snd p0)), cf (snd (snd p0)),
             cf (fst p1), cf (fst (snd p1)), cf (snd (snd p1)),
             cf (fst p2), cf (fst (snd p2)), cf (snd (snd p2))],
          normals := normals geomData @
            concat (replicate 3 [cf (fst normal), cf (fst (snd normal)), cf (snd (snd normal))]),
          texCoords := texCoords geomData @ concat (replicate 3 [0, 0]),
          indices := indices geomData @ [baseIndex, baseIndex + 1, baseIndex + 2]\<rparr>)"

text \<open>
  The loop \<^verbatim>\<open>for (size_t i = 1; i < faceVertices.size() - 1; ++i)\<close>. The parameter \<open>mul\<close>
  is the library's \<^verbatim>\<open>Matrix * vector\<close>.
\<close>

function triangulate ::
  "('d \<Rightarrow> 'f) \<Rightarrow> ('m \<Rightarrow> 'd vec3 \<Rightarrow> 'd vec3) \<Rightarrow> 'm \<Rightarrow> 'd vec3 \<Rightarrow> 'd vec3 list \<Rightarrow> nat \<Rightarrow>
   ('f::zero) GeometryData \<Rightarrow> 'f GeometryData" where
  "triangulate cf mul localTransform normal faceVertices i geomData =
     (if i < length faceVertices - 1
      then triangulate cf mul localTransform normal faceVertices (Suc i)
             (add_triangle cf (mul localTransform (faceVertices ! 0))
                (mul localTransform (faceVertices ! i))
                (mul localTransform (faceVertices ! (i + 1))) normal geomData)
      else geomData)"
  by pat_completeness auto
termination
  by (relation "measure (\<lambda>(cf, mul, lt, normal, faceVertices, i, g). length faceVertices - 1 - i)")
     auto

declare triangulate.simps [simp del]

text \<open>One face of \<^verbatim>\<open>ExtractMeshSet\<close>: a null face or one of fewer than 3 edges is skipped.\<close>

definition ExtractFace ::
  "('d \<Rightarrow> 'f) \<Rightarrow> ('m \<Rightarrow> 'd vec3 \<Rightarrow> 'd vec3) \<Rightarrow> 'm \<Rightarrow> 'd Face option \<Rightarrow>
   ('f::zero) GeometryData \<Rightarrow> 'f GeometryData" where
  "ExtractFace cf mul localTransform face geomData =
     (case face of
        None \<Rightarrow> geomData
      | Some f \<Rightarrow>
          if n_edges f < 3 then geomData
          else triangulate cf mul localTransform (plane_N f) (edge_loop f) 1 geomData)"

definition ExtractMesh ::
  "('d \<Rightarrow> 'f) \<Rightarrow> ('m \<Rightarrow> 'd vec3 \<Rightarrow> 'd vec3) \<Rightarrow> 'm \<Rightarrow> 'd Mesh option \<Rightarrow>
   ('f::zero) GeometryData \<Rightarrow> 'f GeometryData" where
  "ExtractMesh cf mul localTransform mesh geomData =
     (case mesh of
        None \<Rightarrow> geomData
      | Some faces \<Rightarrow> fold (ExtractFace cf mul localTransform) faces geomData)"

definition ExtractMeshSet ::
  "('d \<Rightarrow> 'f) \<Rightarrow> ('m \<Rightarrow> 'd vec3 \<Rightarrow> 'd vec3) \<Rightarrow> 'd MeshSet option \<Rightarrow> 'm \<Rightarrow>
   ('f::zero) GeometryData \<Rightarrow> 'f GeometryData" where
  "ExtractMeshSet cf mul meshset localTransform geomData =
     (case meshset of
        None \<Rightarrow> geomData
      | Some meshes \<Rightarrow> fold (ExtractMesh cf mul localTransform) meshes geomData)"

section \<open>Materials, nodes and the converter\<close>

text \<open>\<^verbatim>\<open>struct MaterialData\<close>; its \<^verbatim>\<open>name\<close> is \<open>material_name\<close> here.\<close>

record 'f MaterialData =
  material_name :: string
  baseColorFactor :: "'f list"
  metallicFactor :: 'f
  roughnessFactor :: 'f

text \<open>
  A default-constructed \<^verbatim>\<open>MaterialData\<close>. The parameter \<open>lit\<close> gives the \<^verbatim>\<open>float\<close> that a
  decimal literal of the source denotes, as \<^verbatim>\<open>0.8f\<close>; for binary32 it is \<open>round32\<close>.
\<close>

definition MaterialData_init :: "(rat \<Rightarrow> 'f) \<Rightarrow> ('f::{zero,one}) MaterialData" where
  "MaterialData_init lit =
     \<lparr>material_name = [], baseColorFactor = [lit (8 / 10), lit (8 / 10), lit (8 / 10), 1],
      metallicFactor = 0, roughnessFactor = lit (9 / 10)\<rparr>"

text \<open>
  \<^verbatim>\<open>struct GltfNode\<close>. A node owns its children, so the type is recursive.
\<close>

datatype 'f GltfNode = GltfNode
  (name: string)
  (type: string)
  (children: "'f GltfNode list")
  (geometries: "'f GeometryData list")
  (transform: "'f list")

text \<open>A default-constructed \<^verbatim>\<open>GltfNode\<close>: empty, with the identity matrix.\<close>

definition GltfNode_init :: "('f::{zero,one}) GltfNode" where
  "GltfNode_init =
     GltfNode [] [] [] [] [1, 0, 0, 0,  0, 1, 0, 0,  0, 0, 1, 0,  0, 0, 0, 1]"

text \<open>\<^verbatim>\<open>node->geometries.push_back(g)\<close> and \<^verbatim>\<open>node->children.push_back(c)\<close>.\<close>

fun push_geometry :: "'f GeometryData \<Rightarrow> 'f GltfNode \<Rightarrow> 'f GltfNode" where
  "push_geometry g (GltfNode nm ty cs gs tr) = GltfNode nm ty cs (gs @ [g]) tr"

fun push_child :: "'f GltfNode \<Rightarrow> 'f GltfNode \<Rightarrow> 'f GltfNode" where
  "push_child c (GltfNode nm ty cs gs tr) = GltfNode nm ty (cs @ [c]) gs tr"

text \<open>\<^verbatim>\<open>struct CommandLineArgs\<close>.\<close>

record 'f CommandLineArgs =
  inputFile :: string
  outputFile :: string
  scale :: 'f
  logLevel :: int
  outputGlb :: bool

text \<open>
  The state of \<^verbatim>\<open>class SimpleIFC2GLTF\<close> that extraction and writing use.
  \<^verbatim>\<open>m_materials\<close> is a \<^verbatim>\<open>std::map\<close>, here an association list with one entry a key;
  its \<^verbatim>\<open>size()\<close> is the length of the list.
\<close>

record 'f Converter =
  m_args :: "'f CommandLineArgs"
  m_materials :: "(string \<times> 'f MaterialData) list"
  m_rootNode :: "'f GltfNode"

text \<open>The constructor: no material, a root node named \<^verbatim>\<open>Scene\<close>.\<close>

definition SimpleIFC2GLTF :: "'f CommandLineArgs \<Rightarrow> ('f::{zero,one}) Converter" where
  "SimpleIFC2GLTF args =
     \<lparr>m_args = args, m_materials = [],
      m_rootNode = GltfNode ''Scene'' ''Scene'' [] [] (transform GltfNode_init)\<rparr>"

text \<open>\<^verbatim>\<open>CreateDefaultMaterial\<close>.\<close>

definition CreateDefaultMaterial ::
  "(rat \<Rightarrow> 'f) \<Rightarrow> ('f::{zero,one}) Converter \<Rightarrow> 'f Converter" where
  "CreateDefaultMaterial lit st =
     (let defaultMaterial = (MaterialData_init lit)
            \<lparr>material_name := ''Default'',
             baseColorFactor := [lit (8 / 10), lit (8 / 10), lit (8 / 10), 1],
             metallicFactor := 0, roughnessFactor := lit (9 / 10)\<rparr>
      in st\<lparr>m_materials := AList.update ''default'' defaultMaterial (m_materials st)\<rparr>)"

text \<open>
  The loop of \<^verbatim>\<open>ExtractMaterialFromItem\<close> over the appearances: the first appearance
  that is not null and has at least 4 colour components makes a new material and
  returns; \<open>None\<close> when the loop ends without one.
\<close>

fun appearance_loop ::
  "('d \<Rightarrow> 'f) \<Rightarrow> (rat \<Rightarrow> 'f) \<Rightarrow> 'd list option list \<Rightarrow> ('f::{zero,one}) Converter \<Rightarrow>
   (string \<times> 'f Converter) option"
  where
  "appearance_loop cf lit [] st = None"
| "appearance_loop cf lit (appearance # rest) st =
     (case appearance of
        None \<Rightarrow> appearance_loop cf lit rest st
      | Some m_color_rgba \<Rightarrow>
          if length m_color_rgba \<ge> 4 then
            (let material = (MaterialData_init lit)
                   \<lparr>material_name := ''Material_'' @ to_string (length (m_materials st) + 1),
                    baseColorFactor := [cf (m_color_rgba ! 0), cf (m_color_rgba ! 1),
                                        cf (m_color_rgba ! 2), cf (m_color_rgba ! 3)],
                    metallicFactor := 0, roughnessFactor := lit (9 / 10)\<rparr>;
                 materialId = material_name material
             in Some (materialId,
                  st\<lparr>m_materials := AList.update materialId material (m_materials st)\<rparr>))
          else appearance_loop cf lit rest st)"

text \<open>\<^verbatim>\<open>ExtractMaterialFromItem\<close>: the material id of an item, and the registry updated.\<close>

definition ExtractMaterialFromItem ::
  "('d \<Rightarrow> 'f) \<Rightarrow> (rat \<Rightarrow> 'f) \<Rightarrow> 'd ItemShapeData \<Rightarrow> ('f::{zero,one}) Converter \<Rightarrow>
   string \<times> 'f Converter" where
  "ExtractMaterialFromItem cf lit item st =
     (case appearance_loop cf lit (m_vec_item_appearances item) st of
        Some r \<Rightarrow> r
      | None \<Rightarrow>
          (''default'',
           if map_of (m_materials st) ''default'' = None then CreateDefaultMaterial lit st else st))"

text \<open>
  \<^verbatim>\<open>ExtractGeometricItems\<close>: one record for the item's closed and open mesh sets, kept only
  when it has vertices, scaled and bounded before it is pushed; then the child items,
  with the same transform and node.
\<close>

fun ExtractGeometricItems ::
  "('d \<Rightarrow> 'f) \<Rightarrow> ('m \<Rightarrow> 'd vec3 \<Rightarrow> 'd vec3) \<Rightarrow> (rat \<Rightarrow> 'f) \<Rightarrow> 'd ItemShapeData \<Rightarrow>
   'm \<Rightarrow> ('f::{zero,one,times,ord}) Converter \<times> 'f GltfNode \<Rightarrow> 'f Converter \<times> 'f GltfNode" where
  "ExtractGeometricItems cf mul lit (ItemShapeData meshsets meshsets_open appearances child_items)
       localTransform (st, node) =
     (let (mid, st1) = ExtractMaterialFromItem cf lit
                         (ItemShapeData meshsets meshsets_open appearances child_items) st;
          geomData0 = GeometryData_init\<lparr>materialId := mid\<rparr>;
          geomData1 = fold (\<lambda>meshset. ExtractMeshSet cf mul meshset localTransform)
                        meshsets geomData0;
          geomData2 = fold (\<lambda>meshset. ExtractMeshSet cf mul meshset localTransform)
                        meshsets_open geomData1;
          node1 = (if vertices geomData2 \<noteq> []
                   then push_geometry
                          (CalculateBounds (ApplyScale geomData2 (scale (m_args st1)))) node
                   else node)
      in fold (\<lambda>childItem. ExtractGeometricItems cf mul lit childItem localTransform)
           child_items (st1, node1))"

text \<open>
  The shape data of a product: the object it belongs to (\<open>None\<close> for an expired
  pointer), its transform, its geometric items and its child elements.
\<close>

record IfcObjectDefinition =
  m_Name :: "string option"
  m_GlobalId :: "string option"
  typeid_name :: string

datatype ('d, 'm) ProductShapeData = ProductShapeData
  (m_ifc_object_definition: "IfcObjectDefinition option")
  (getTransform: 'm)
  (getGeometricItems: "'d ItemShapeData list")
  (getChildElements: "('d, 'm) ProductShapeData list")

text \<open>
  \<^verbatim>\<open>ExtractShapeData\<close>: the items of the shape data with its own transform, then each
  child element, into the same node.
\<close>

fun ExtractShapeData ::
  "('d \<Rightarrow> 'f) \<Rightarrow> ('m \<Rightarrow> 'd vec3 \<Rightarrow> 'd vec3) \<Rightarrow> (rat \<Rightarrow> 'f) \<Rightarrow>
   ('d, 'm) ProductShapeData \<Rightarrow> ('f::{zero,one,times,ord}) Converter \<times> 'f GltfNode \<Rightarrow> 'f Converter \<times> 'f GltfNode" where
  "ExtractShapeData cf mul lit (ProductShapeData object localTransform items childElements) s =
     fold (\<lambda>child_object. ExtractShapeData cf mul lit child_object) childElements
       (fold (\<lambda>geometricItem. ExtractGeometricItems cf mul lit geometricItem localTransform)
          items s)"

text \<open>\<^verbatim>\<open>std::string::find\<close> of a text: the first position where it starts.\<close>

fun find_str :: "string \<Rightarrow> string \<Rightarrow> nat option" where
  "find_str [] pat = (if pat = [] then Some 0 else None)"
| "find_str (c # cs) pat =
     (if take (length pat) (c # cs) = pat then Some 0 else map_option Suc (find_str cs pat))"

text \<open>\<^verbatim>\<open>GetEntityName\<close> and \<^verbatim>\<open>GetEntityType\<close>.\<close>

definition GetEntityName :: "IfcObjectDefinition option \<Rightarrow> string" where
  "GetEntityName entity =
     (case entity of
        None \<Rightarrow> ''Unknown''
      | Some rootNode \<Rightarrow>
          (if m_Name rootNode \<noteq> None \<and> the (m_Name rootNode) \<noteq> [] then the (m_Name rootNode)
           else if m_GlobalId rootNode \<noteq> None \<and> the (m_GlobalId rootNode) \<noteq> [] then the (m_GlobalId rootNode)
           else ''Unnamed''))"

definition GetEntityType :: "IfcObjectDefinition option \<Rightarrow> string" where
  "GetEntityType entity =
     (case entity of
        None \<Rightarrow> ''Unknown''
      | Some e \<Rightarrow>
          (let typeName = typeid_name e
           in case find_str typeName ''Ifc'' of
                Some pos \<Rightarrow> drop pos typeName
              | None \<Rightarrow> ''IfcProduct''))"

text \<open>
  \<^verbatim>\<open>ExtractGeometryData\<close>: the entries of the shape map in the order the loop meets
  them. An entry that is null or whose object has expired is skipped; a node is pushed
  under the root only when extraction gave it a geometry. The counters, the log lines
  and the handlers for an exception thrown by the geometry library are left out: the
  extraction of the model throws nothing, so the function always returns true and its
  result here is the converter alone.
\<close>

definition extract_entity ::
  "('d \<Rightarrow> 'f) \<Rightarrow> ('m \<Rightarrow> 'd vec3 \<Rightarrow> 'd vec3) \<Rightarrow> (rat \<Rightarrow> 'f) \<Rightarrow>
   ('d, 'm) ProductShapeData option \<Rightarrow> ('f::{zero,one,times,ord}) Converter \<Rightarrow> 'f Converter" where
  "extract_entity cf mul lit entry st =
     (case entry of
        None \<Rightarrow> st
      | Some shapeData \<Rightarrow>
          (case m_ifc_object_definition shapeData of
             None \<Rightarrow> st
           | Some ifcObject \<Rightarrow>
               (let node = GltfNode (GetEntityName (Some ifcObject)) (GetEntityType (Some ifcObject))
                             [] [] (transform GltfNode_init);
                    (st1, node1) = ExtractShapeData cf mul lit shapeData (st, node)
                in if geometries node1 \<noteq> []
                   then st1\<lparr>m_rootNode := push_child node1 (m_rootNode st1)\<rparr>
                   else st1)))"

definition ExtractGeometryData ::
  "('d \<Rightarrow> 'f) \<Rightarrow> ('m \<Rightarrow> 'd vec3 \<Rightarrow> 'd vec3) \<Rightarrow> (rat \<Rightarrow> 'f) \<Rightarrow>
   ('d, 'm) ProductShapeData option list \<Rightarrow> ('f::{zero,one,times,ord}) Converter \<Rightarrow> 'f Converter" where
  "ExtractGeometryData cf mul lit map_entities st = fold (extract_entity cf mul lit) map_entities st"

section \<open>The invariant of a geometry record\<close>

text \<open>
  Whole triangles, every index below the number of vertices, one normal coordinate for
  each vertex coordinate, two texture coordinates for three vertex coordinates, and
  whole vertex triples.
\<close>

definition geom_inv :: "'f GeometryData \<Rightarrow> bool" where
  "geom_inv g \<longleftrightarrow>
     length (indices g) mod 3 = 0 \<and>
     list_all (\<lambda>i. unat i < length (vertices g) div 3) (indices g) \<and>
     length (vertices g) = length (normals g) \<and>
     3 * length (texCoords g) = 2 * length (vertices g) \<and>
     length (vertices g) mod 3 = 0"


text \<open>All geometry records of a scene, node by node, in the order the writers visit them.\<close>

definition scene_geoms :: "'f GltfNode \<Rightarrow> 'f GeometryData list" where
  "scene_geoms rootNode = concat (map geometries (children rootNode))"

text \<open>A record that a node keeps: the invariant, and at least one vertex.\<close>

definition record_ok :: "'f GeometryData \<Rightarrow> bool" where
  "record_ok g \<longleftrightarrow> geom_inv g \<and> vertices g \<noteq> []"

section \<open>A small scene\<close>

text \<open>
  Inputs for the examples, with rational numbers for both \<^verbatim>\<open>double\<close> and \<^verbatim>\<open>float\<close> and
  the cast between them the identity. A transform is a shift along x, and
  \<open>shift_x\<close> its product with a point.
\<close>

definition shift_x :: "rat \<Rightarrow> rat vec3 \<Rightarrow> rat vec3" where
  "shift_x m p = (fst p + m, snd p)"

definition triangle_face :: "rat Face" where
  "triangle_face = \<lparr>n_edges = 3, edge_loop = [(0, 0, 0), (1, 0, 0), (0, 1, 0)], plane_N = (0, 0, 1)\<rparr>"

definition quad_face :: "rat Face" where
  "quad_face =
     \<lparr>n_edges = 4, edge_loop = [(0, 0, 0), (1, 0, 0), (1, 1, 0), (0, 1, 0)], plane_N = (0, 0, 1)\<rparr>"


definition triangle_item :: "rat ItemShapeData" where
  "triangle_item = ItemShapeData [Some [Some [Some triangle_face]]] [] [] []"

definition wall_object :: IfcObjectDefinition where
  "wall_object = \<lparr>m_Name = Some ''Wall'', m_GlobalId = None, typeid_name = ''class IFC4X3::IfcWall''\<rparr>"

definition triangle_shape :: "(rat, rat) ProductShapeData" where
  "triangle_shape = ProductShapeData (Some wall_object) 0 [triangle_item] []"

definition example_args :: "rat CommandLineArgs" where
  "example_args =
     \<lparr>inputFile = ''in.ifc'', outputFile = ''out.gltf'', scale = 1, logLevel = 1,
      outputGlb = False\<rparr>"

text \<open>
  Inputs for the examples in single precision: the same arguments with a binary32 scale,
  and a triangle with the coordinates 0 and 1/10. The cast from \<^verbatim>\<open>double\<close> is \<open>round32\<close>
  there.
\<close>

definition float_args :: "binary32 CommandLineArgs" where
  "float_args =
     \<lparr>inputFile = ''in.ifc'', outputFile = ''out.gltf'', scale = 1, logLevel = 1,
      outputGlb = False\<rparr>"

definition tenth_face :: "rat Face" where
  "tenth_face =
     \<lparr>n_edges = 3, edge_loop = [(0, 0, 0), (1 / 10, 0, 0), (0, 1 / 10, 0)], plane_N = (0, 0, 1)\<rparr>"

definition tenth_shape :: "(rat, rat) ProductShapeData" where
  "tenth_shape =
     ProductShapeData (Some wall_object) 0
       [ItemShapeData [Some [Some [Some tenth_face]]] [] [] []] []"

section \<open>Two runs that differ in the scale\<close>

text \<open>
  What the scale claim relates: a record with every vertex coordinate and both bounds
  multiplied by \<open>s\<close> and everything else as it is; a node with every record so changed;
  a converter with the scale option set to \<open>s\<close> and its root node so changed. For the
  scale 1 the record is left as it is: the code takes no product then, and the product
  of a \<^verbatim>\<open>float\<close> and 1 is that \<^verbatim>\<open>float\<close>.
\<close>

definition scale3 :: "('f::times) \<Rightarrow> 'f vec3 \<Rightarrow> 'f vec3" where
  "scale3 s p = (fst p * s, fst (snd p) * s, snd (snd p) * s)"

definition scale_record :: "('f::{one,times}) \<Rightarrow> 'f GeometryData \<Rightarrow> 'f GeometryData" where
  "scale_record s g =
     (if s \<noteq> 1
      then g\<lparr>vertices := map (\<lambda>v. v * s) (vertices g),
             minBounds := scale3 s (minBounds g), maxBounds := scale3 s (maxBounds g)\<rparr>
      else g)"

fun scale_node :: "('f::{one,times}) \<Rightarrow> 'f GltfNode \<Rightarrow> 'f GltfNode" where
  "scale_node s (GltfNode nm ty cs gs tr) =
     GltfNode nm ty (map (scale_node s) cs) (map (scale_record s) gs) tr"

definition scale_converter :: "('f::{one,times}) \<Rightarrow> 'f Converter \<Rightarrow> 'f Converter" where
  "scale_converter s st =
     st\<lparr>m_args := (m_args st)\<lparr>scale := s\<rparr>, m_rootNode := scale_node s (m_rootNode st)\<rparr>"

definition scale_state ::
  "('f::{one,times}) \<Rightarrow> 'f Converter \<times> 'f GltfNode \<Rightarrow> 'f Converter \<times> 'f GltfNode" where
  "scale_state s x = (scale_converter s (fst x), scale_node s (snd x))"

text \<open>
  A scale keeps minimum and maximum when the minimum and the maximum of two products
  by it are the products of the minimum and the maximum.
\<close>

definition keeps_min_max :: "('f::{times,ord}) \<Rightarrow> bool" where
  "keeps_min_max s \<longleftrightarrow>
     (\<forall>a b. std_min (a * s) (b * s) = std_min a b * s \<and>
            std_max (a * s) (b * s) = std_max a b * s)"

section \<open>Which transform an item meets\<close>

text \<open>
  A geometric item and the child items below it, each without its children, in the order
  \<^verbatim>\<open>ExtractGeometricItems\<close> meets them: each makes at most one geometry record.
\<close>

fun item_and_children :: "'d ItemShapeData \<Rightarrow> 'd ItemShapeData list" where
  "item_and_children (ItemShapeData meshsets meshsets_open appearances child_items) =
     ItemShapeData meshsets meshsets_open appearances [] #
     concat (map item_and_children child_items)"

text \<open>
  All such items below a shape data object in the order \<^verbatim>\<open>ExtractShapeData\<close> meets them,
  each with the transform of the shape data object that owns it.
\<close>

fun items_with_transforms :: "('d, 'm) ProductShapeData \<Rightarrow> ('m \<times> 'd ItemShapeData) list" where
  "items_with_transforms (ProductShapeData object localTransform items childElements) =
     map (Pair localTransform) (concat (map item_and_children items)) @
     concat (map items_with_transforms childElements)"

text \<open>
  Extraction as the claim about the node's own transform words it: every item below the
  shape data object of the node, its descendants' items too, with the one transform of
  that object.
\<close>

definition ExtractShapeData_one_transform ::
  "('d \<Rightarrow> 'f) \<Rightarrow> ('m \<Rightarrow> 'd vec3 \<Rightarrow> 'd vec3) \<Rightarrow> (rat \<Rightarrow> 'f) \<Rightarrow>
   ('d, 'm) ProductShapeData \<Rightarrow> ('f::{zero,one,times,ord}) Converter \<times> 'f GltfNode \<Rightarrow> 'f Converter \<times> 'f GltfNode" where
  "ExtractShapeData_one_transform cf mul lit shapeData s =
     fold (\<lambda>geometricItem. ExtractGeometricItems cf mul lit geometricItem (getTransform shapeData))
       (map snd (items_with_transforms shapeData)) s"

text \<open>A shape data object with no item of its own and a child, shifted by 5, with a triangle.\<close>

definition nested_shape :: "(rat, rat) ProductShapeData" where
  "nested_shape =
     ProductShapeData (Some wall_object) 0 [] [ProductShapeData None 5 [triangle_item] []]"

definition fresh_node :: "rat GltfNode" where
  "fresh_node = GltfNode ''Wall'' ''IfcWall'' [] [] (transform GltfNode_init)"

section \<open>The JSON writers\<close>

text \<open>
  A stream is the text written to it so far; \<^verbatim>\<open>file << x\<close> appends. The parameter \<open>fmt\<close>
  is \<^verbatim>\<open>operator<<\<close> on a \<^verbatim>\<open>float\<close>. The counters are \<^verbatim>\<open>size_t\<close>, here natural numbers:
  they count objects and bytes that are in memory, so they stay below \<open>2^64\<close>.
\<close>

text \<open>The loop of \<^verbatim>\<open>WriteGltfJson\<close> that writes the node indices of the scene.\<close>

function scene_nodes_loop :: "nat \<Rightarrow> nat \<Rightarrow> string \<Rightarrow> string" where
  "scene_nodes_loop i n file =
     (if i < n
      then scene_nodes_loop (Suc i) n (file @ (if i > 0 then '', '' else []) @ to_string i)
      else file)"
  by pat_completeness auto
termination
  by (relation "measure (\<lambda>(i, n, file). n - i)") auto

declare scene_nodes_loop.simps [simp del]

text \<open>
  \<^verbatim>\<open>WriteNodes\<close>: the loop over the children of the root, \<open>i\<close> the index, and the
  function. \<^verbatim>\<open>WriteNodesForGlb\<close> is the same statements on a string stream.
\<close>

fun WriteNodes_loop :: "'f GltfNode list \<Rightarrow> nat \<Rightarrow> string \<Rightarrow> string" where
  "WriteNodes_loop [] i file = file"
| "WriteNodes_loop (node # rest) i file =
     WriteNodes_loop rest (Suc i)
       (file @ (if i > 0 then '',\<newline>'' else []) @
        ''    {\<newline>'' @
        ''      \"name\": \"'' @ name node @ ''\"'' @
        (if geometries node \<noteq> [] then '',\<newline>      \"mesh\": '' @ to_string i else []) @
        ''\<newline>    }'')"

definition WriteNodes :: "'f GltfNode \<Rightarrow> string \<Rightarrow> string" where
  "WriteNodes rootNode file =
     WriteNodes_loop (children rootNode) 0 (file @ ''  \"nodes\": [\<newline>'') @
     ''\<newline>  ],\<newline>''"

definition WriteNodesForGlb :: "'f GltfNode \<Rightarrow> string \<Rightarrow> string" where
  "WriteNodesForGlb rootNode stream = WriteNodes rootNode stream"

text \<open>
  \<^verbatim>\<open>WriteMeshes\<close>: the loop over the geometries of a node, the loop over the nodes, and
  the function. The state is \<^verbatim>\<open>first\<close>, \<^verbatim>\<open>accessorIndex\<close> and the stream.
  \<^verbatim>\<open>WriteMeshesForGlb\<close> is the same statements on a string stream.
\<close>

fun WriteMeshes_primitives ::
  "'f GeometryData list \<Rightarrow> nat \<Rightarrow> nat \<times> string \<Rightarrow> nat \<times> string" where
  "WriteMeshes_primitives [] i s = s"
| "WriteMeshes_primitives (geom # rest) i (accessorIndex, file) =
     WriteMeshes_primitives rest (Suc i)
       (accessorIndex + 1,
        file @ (if i > 0 then '',\<newline>'' else []) @
        ''        {\<newline>'' @
        ''          \"attributes\": {\<newline>'' @
        ''            \"POSITION\": '' @ to_string (accessorIndex * 3) @ '',\<newline>'' @
        ''            \"NORMAL\": '' @ to_string (accessorIndex * 3 + 1) @ ''\<newline>'' @
        ''          },\<newline>'' @
        ''          \"indices\": '' @ to_string (accessorIndex * 3 + 2) @ '',\<newline>'' @
        ''          \"material\": 0\<newline>'' @
        ''        }'')"

fun WriteMeshes_loop :: "'f GltfNode list \<Rightarrow> bool \<times> nat \<times> string \<Rightarrow> bool \<times> nat \<times> string" where
  "WriteMeshes_loop [] s = s"
| "WriteMeshes_loop (node # rest) (first, accessorIndex, file) =
     (if geometries node = [] then WriteMeshes_loop rest (first, accessorIndex, file)
      else
        (let file1 = file @ (if \<not> first then '',\<newline>'' else []) @
               ''    {\<newline>'' @
               ''      \"name\": \"'' @ name node @ ''_Mesh\",\<newline>'' @
               ''      \"primitives\": [\<newline>'';
             (accessorIndex1, file2) =
               WriteMeshes_primitives (geometries node) 0 (accessorIndex, file1)
         in WriteMeshes_loop rest
              (False, accessorIndex1, file2 @ ''\<newline>      ]\<newline>'' @ ''    }'')))"

definition WriteMeshes :: "'f GltfNode \<Rightarrow> string \<Rightarrow> string" where
  "WriteMeshes rootNode file =
     snd (snd (WriteMeshes_loop (children rootNode) (True, 0, file @ ''  \"meshes\": [\<newline>''))) @
     ''\<newline>  ],\<newline>''"

definition WriteMeshesForGlb :: "'f GltfNode \<Rightarrow> string \<Rightarrow> string" where
  "WriteMeshesForGlb rootNode stream = WriteMeshes rootNode stream"

text \<open>
  \<^verbatim>\<open>WriteAccessors\<close>: the loop over the geometries of a node, the loop over the nodes,
  and the function. The state is \<^verbatim>\<open>first\<close>, \<^verbatim>\<open>bufferViewIndex\<close> and the stream.
  \<^verbatim>\<open>WriteAccessorsForGlb\<close> is the same statements on a string stream.
\<close>

fun WriteAccessors_geoms ::
  "('f \<Rightarrow> string) \<Rightarrow> 'f GeometryData list \<Rightarrow> bool \<times> nat \<times> string \<Rightarrow>
   bool \<times> nat \<times> string" where
  "WriteAccessors_geoms fmt [] s = s"
| "WriteAccessors_geoms fmt (geom # rest) (first, bufferViewIndex, file) =
     (let vertexCount = length (vertices geom) div 3;
          mn = minBounds geom;
          mx = maxBounds geom
      in WriteAccessors_geoms fmt rest
           (False, bufferViewIndex + 3,
            file @ (if \<not> first then '',\<newline>'' else []) @
            ''    {\<newline>'' @
            ''      \"bufferView\": '' @ to_string bufferViewIndex @ '',\<newline>'' @
            ''      \"componentType\": 5126,\<newline>'' @
            ''      \"count\": '' @ to_string vertexCount @ '',\<newline>'' @
            ''      \"type\": \"VEC3\",\<newline>'' @
            ''      \"min\": ['' @ fmt (fst mn) @ '', '' @ fmt (fst (snd mn)) @ '', '' @
              fmt (snd (snd mn)) @ ''],\<newline>'' @
            ''      \"max\": ['' @ fmt (fst mx) @ '', '' @ fmt (fst (snd mx)) @ '', '' @
              fmt (snd (snd mx)) @ '']\<newline>'' @
            ''    },\<newline>'' @
            ''    {\<newline>'' @
            ''      \"bufferView\": '' @ to_string (bufferViewIndex + 1) @ '',\<newline>'' @
            ''      \"componentType\": 5126,\<newline>'' @
            ''      \"count\": '' @ to_string vertexCount @ '',\<newline>'' @
            ''      \"type\": \"VEC3\"\<newline>'' @
            ''    },\<newline>'' @
            ''    {\<newline>'' @
            ''      \"bufferView\": '' @ to_string (bufferViewIndex + 2) @ '',\<newline>'' @
            ''      \"componentType\": 5125,\<newline>'' @
            ''      \"count\": '' @ to_string (length (indices geom)) @ '',\<newline>'' @
            ''      \"type\": \"SCALAR\"\<newline>'' @
            ''    }''))"

fun WriteAccessors_loop ::
  "('f \<Rightarrow> string) \<Rightarrow> 'f GltfNode list \<Rightarrow> bool \<times> nat \<times> string \<Rightarrow>
   bool \<times> nat \<times> string" where
  "WriteAccessors_loop fmt [] s = s"
| "WriteAccessors_loop fmt (node # rest) s =
     WriteAccessors_loop fmt rest (WriteAccessors_geoms fmt (geometries node) s)"

definition WriteAccessors ::
  "('f \<Rightarrow> string) \<Rightarrow> 'f GltfNode \<Rightarrow> string \<Rightarrow> string" where
  "WriteAccessors fmt rootNode file =
     snd (snd (WriteAccessors_loop fmt (children rootNode)
                 (True, 0, file @ ''  \"accessors\": [\<newline>''))) @
     ''\<newline>  ],\<newline>''"

definition WriteAccessorsForGlb ::
  "('f \<Rightarrow> string) \<Rightarrow> 'f GltfNode \<Rightarrow> string \<Rightarrow> string" where
  "WriteAccessorsForGlb fmt rootNode stream = WriteAccessors fmt rootNode stream"

text \<open>
  \<^verbatim>\<open>WriteBufferViews\<close>: the loop over the geometries of a node, the loop over the nodes,
  and the function. The state is \<^verbatim>\<open>byteOffset\<close>, \<^verbatim>\<open>first\<close> and the stream;
  \<^verbatim>\<open>sizeof(float)\<close> and \<^verbatim>\<open>sizeof(uint32_t)\<close> are 4.
  \<^verbatim>\<open>WriteBufferViewsForGlb\<close> is the same statements on a string stream.
\<close>

fun WriteBufferViews_geoms ::
  "'f GeometryData list \<Rightarrow> nat \<times> bool \<times> string \<Rightarrow>
   nat \<times> bool \<times> string" where
  "WriteBufferViews_geoms [] s = s"
| "WriteBufferViews_geoms (geom # rest) (byteOffset, first, file) =
     (let vertexBytes = length (vertices geom) * 4;
          normalBytes = length (normals geom) * 4;
          indexBytes = length (indices geom) * 4;
          byteOffset1 = byteOffset + vertexBytes;
          byteOffset2 = byteOffset1 + normalBytes
      in WriteBufferViews_geoms rest
           (byteOffset2 + indexBytes, False,
            file @ (if \<not> first then '',\<newline>'' else []) @
            ''    {\<newline>'' @
            ''      \"buffer\": 0,\<newline>'' @
            ''      \"byteOffset\": '' @ to_string byteOffset @ '',\<newline>'' @
            ''      \"byteLength\": '' @ to_string vertexBytes @ '',\<newline>'' @
            ''      \"target\": 34962\<newline>'' @
            ''    },\<newline>'' @
            ''    {\<newline>'' @
            ''      \"buffer\": 0,\<newline>'' @
            ''      \"byteOffset\": '' @ to_string byteOffset1 @ '',\<newline>'' @
            ''      \"byteLength\": '' @ to_string normalBytes @ '',\<newline>'' @
            ''      \"target\": 34962\<newline>'' @
            ''    },\<newline>'' @
            ''    {\<newline>'' @
            ''      \"buffer\": 0,\<newline>'' @
            ''      \"byteOffset\": '' @ to_string byteOffset2 @ '',\<newline>'' @
            ''      \"byteLength\": '' @ to_string indexBytes @ '',\<newline>'' @
            ''      \"target\": 34963\<newline>'' @
            ''    }''))"

fun WriteBufferViews_loop ::
  "'f GltfNode list \<Rightarrow> nat \<times> bool \<times> string \<Rightarrow>
   nat \<times> bool \<times> string" where
  "WriteBufferViews_loop [] s = s"
| "WriteBufferViews_loop (node # rest) s =
     WriteBufferViews_loop rest (WriteBufferViews_geoms (geometries node) s)"

definition WriteBufferViews :: "'f GltfNode \<Rightarrow> string \<Rightarrow> string" where
  "WriteBufferViews rootNode file =
     snd (snd (WriteBufferViews_loop (children rootNode)
                 (0, True, file @ ''  \"bufferViews\": [\<newline>''))) @
     ''\<newline>  ],\<newline>''"

definition WriteBufferViewsForGlb :: "'f GltfNode \<Rightarrow> string \<Rightarrow> string" where
  "WriteBufferViewsForGlb rootNode stream = WriteBufferViews rootNode stream"


text \<open>
  \<^verbatim>\<open>std::string::find_last_of\<close> of a character: the position of its last occurrence,
  \<open>None\<close> for \<^verbatim>\<open>npos\<close>.
\<close>

fun find_last_of :: "string \<Rightarrow> char \<Rightarrow> nat option" where
  "find_last_of [] c = None"
| "find_last_of (x # xs) c =
     (case find_last_of xs c of
        Some i \<Rightarrow> Some (Suc i)
      | None \<Rightarrow> if x = c then Some 0 else None)"

text \<open>
  \<^verbatim>\<open>s.substr(0, n)\<close>: the first \<open>n\<close> characters, all of \<open>s\<close> when \<open>n\<close> is \<^verbatim>\<open>npos\<close>.
  \<^verbatim>\<open>s.substr(p + 1)\<close>: what follows position \<open>p\<close>; for \<^verbatim>\<open>npos\<close> the sum wraps around to
  0 and the result is all of \<open>s\<close>.
\<close>

definition substr_upto :: "string \<Rightarrow> nat option \<Rightarrow> string" where
  "substr_upto s n = (case n of None \<Rightarrow> s | Some k \<Rightarrow> take k s)"

definition substr_after :: "string \<Rightarrow> nat option \<Rightarrow> string" where
  "substr_after s p = (case p of None \<Rightarrow> s | Some k \<Rightarrow> drop (k + 1) s)"

text \<open>
  \<^verbatim>\<open>WriteBuffers\<close>: the total byte count, the name of the binary file
  (\<^verbatim>\<open>binFileName\<close>), the name without its directory (\<^verbatim>\<open>binFileNameOnly\<close>), and the text.
\<close>

definition totalBytes :: "'f GltfNode \<Rightarrow> nat" where
  "totalBytes rootNode =
     fold (\<lambda>node total.
             fold (\<lambda>geom t. t + length (vertices geom) * 4 + length (normals geom) * 4 +
                              length (indices geom) * 4)
               (geometries node) total)
       (children rootNode) 0"

definition WriteBuffers_binFileName :: "string \<Rightarrow> string" where
  "WriteBuffers_binFileName path =
     substr_upto path (find_last_of path CHR ''.'') @ ''.bin''"

definition WriteBuffers_binFileNameOnly :: "string \<Rightarrow> string" where
  "WriteBuffers_binFileNameOnly path =
     (let binFileName = WriteBuffers_binFileName path;
          binFileNameOnly = substr_after binFileName (find_last_of binFileName CHR ''/'')
      in if binFileNameOnly = binFileName
         then substr_after binFileName (find_last_of binFileName (CHR 0x5C))
         else binFileNameOnly)"

definition WriteBuffers :: "'f Converter \<Rightarrow> string \<Rightarrow> string" where
  "WriteBuffers st file =
     file @ ''  \"buffers\": [\<newline>'' @
     ''    {\<newline>'' @
     ''      \"uri\": \"'' @ WriteBuffers_binFileNameOnly (outputFile (m_args st)) @ ''\",\<newline>'' @
     ''      \"byteLength\": '' @ to_string (totalBytes (m_rootNode st)) @ ''\<newline>'' @
     ''    }\<newline>'' @
     ''  ],\<newline>''"

definition WriteBuffersForGlb :: "'f Converter \<Rightarrow> string \<Rightarrow> string" where
  "WriteBuffersForGlb st stream =
     stream @ ''  \"buffers\": [\<newline>'' @
     ''    {\<newline>'' @
     ''      \"byteLength\": '' @ to_string (totalBytes (m_rootNode st)) @ ''\<newline>'' @
     ''    }\<newline>'' @
     ''  ],\<newline>''"

text \<open>\<^verbatim>\<open>WriteMaterials\<close>; \<^verbatim>\<open>WriteMaterialsForGlb\<close> is the same statements.\<close>

definition WriteMaterials :: "string \<Rightarrow> string" where
  "WriteMaterials file =
     file @ ''  \"materials\": [\<newline>'' @
     ''    {\<newline>'' @
     ''      \"name\": \"Default\",\<newline>'' @
     ''      \"pbrMetallicRoughness\": {\<newline>'' @
     ''        \"baseColorFactor\": [0.8, 0.8, 0.8, 1.0],\<newline>'' @
     ''        \"metallicFactor\": 0.0,\<newline>'' @
     ''        \"roughnessFactor\": 0.9\<newline>'' @
     ''      }\<newline>'' @
     ''    }\<newline>'' @
     ''  ]\<newline>''"

definition WriteMaterialsForGlb :: "string \<Rightarrow> string" where
  "WriteMaterialsForGlb stream = WriteMaterials stream"

text \<open>
  \<^verbatim>\<open>WriteGltfJson\<close>: the head of the document up to the scene, then the writers in
  order. \<open>scene_head\<close> is the text both \<^verbatim>\<open>WriteGltfJson\<close> and \<^verbatim>\<open>WriteGltfJsonForGlb\<close>
  write from \<^verbatim>\<open>"scene"\<close> to the end of \<^verbatim>\<open>"scenes"\<close>.
\<close>

definition scene_head :: "'f GltfNode \<Rightarrow> string \<Rightarrow> string" where
  "scene_head rootNode file =
     scene_nodes_loop 0 (length (children rootNode))
       (file @ ''  \"scene\": 0,\<newline>'' @
        ''  \"scenes\": [\<newline>'' @
        ''    {\<newline>'' @
        ''      \"name\": \"'' @ name rootNode @ ''\",\<newline>'' @
        ''      \"nodes\": ['') @
     '']\<newline>'' @
     ''    }\<newline>'' @
     ''  ],\<newline>''"

definition WriteGltfJson :: "('f \<Rightarrow> string) \<Rightarrow> 'f Converter \<Rightarrow> string \<Rightarrow> string" where
  "WriteGltfJson fmt st file =
     (let rootNode = m_rootNode st;
          file1 = file @ ''{\<newline>'' @
            ''  \"asset\": {\<newline>'' @
            ''    \"version\": \"2.0\",\<newline>'' @
            ''    \"generator\": \"Simple IFC2GLTF Converter v1.0 (Fixed)\"\<newline>'' @
            ''  },\<newline>'';
          file2 = scene_head rootNode file1;
          file3 = WriteNodes rootNode file2;
          file4 = WriteMeshes rootNode file3;
          file5 = WriteAccessors fmt rootNode file4;
          file6 = WriteBufferViews rootNode file5;
          file7 = WriteBuffers st file6;
          file8 = WriteMaterials file7
      in file8 @ ''}\<newline>'')"

definition WriteGltfJsonForGlb :: "('f \<Rightarrow> string) \<Rightarrow> 'f Converter \<Rightarrow> string \<Rightarrow> string" where
  "WriteGltfJsonForGlb fmt st stream =
     (let rootNode = m_rootNode st;
          stream1 = stream @ ''{\<newline>'' @
            ''  \"asset\": {\<newline>'' @
            ''    \"version\": \"2.0\",\<newline>'' @
            ''    \"generator\": \"Simple IFC2GLTF Converter v1.0 (GLB)\"\<newline>'' @
            ''  },\<newline>'';
          stream2 = scene_head rootNode stream1;
          stream3 = WriteNodesForGlb rootNode stream2;
          stream4 = WriteMeshesForGlb rootNode stream3;
          stream5 = WriteAccessorsForGlb fmt rootNode stream4;
          stream6 = WriteBufferViewsForGlb rootNode stream5;
          stream7 = WriteBuffersForGlb st stream6;
          stream8 = WriteMaterialsForGlb stream7
      in stream8 @ ''}'')"

text \<open>
  \<^verbatim>\<open>CollectBinaryData\<close>: for each record the bytes of its vertices, its normals and its
  indices. The parameter \<open>float_bytes\<close> gives the four bytes of a \<^verbatim>\<open>float\<close> in memory.
\<close>

definition geom_bytes :: "('f \<Rightarrow> byte list) \<Rightarrow> 'f GeometryData \<Rightarrow> byte list" where
  "geom_bytes float_bytes geom =
     concat (map float_bytes (vertices geom)) @ concat (map float_bytes (normals geom)) @
     concat (map write_u32 (indices geom))"

definition CollectBinaryData :: "('f \<Rightarrow> byte list) \<Rightarrow> 'f Converter \<Rightarrow> byte list \<Rightarrow> byte list" where
  "CollectBinaryData float_bytes st binaryData =
     fold (\<lambda>node b. fold (\<lambda>geom b1. b1 @ geom_bytes float_bytes geom) (geometries node) b)
       (children (m_rootNode st)) binaryData"

section \<open>Files, logs and the result of a conversion\<close>

text \<open>
  What the writing steps do to the outside: the files written, in order, and the lines
  sent to standard output and to standard error. A file system says which paths can be
  opened for writing and on which of them writes succeed. A write that fails sets the
  stream's error state and nothing more: the code never reads that state.
\<close>

record World =
  files :: "(string \<times> byte list) list"
  cout :: "string list"
  cerr :: "string list"

record FileSystem =
  can_open :: "string \<Rightarrow> bool"
  can_write :: "string \<Rightarrow> bool"

definition write_file :: "FileSystem \<Rightarrow> string \<Rightarrow> byte list \<Rightarrow> World \<Rightarrow> World" where
  "write_file fs path content w =
     w\<lparr>files := files w @ [(path, if can_write fs path then content else [])]\<rparr>"

text \<open>\<^verbatim>\<open>LogInfo\<close>, \<^verbatim>\<open>LogWarning\<close> and \<^verbatim>\<open>LogError\<close>.\<close>

definition LogInfo :: "'f Converter \<Rightarrow> string \<Rightarrow> World \<Rightarrow> World" where
  "LogInfo st message w =
     (if logLevel (m_args st) \<ge> 1 then w\<lparr>cout := cout w @ [''[INFO] '' @ message]\<rparr> else w)"

definition LogWarning :: "'f Converter \<Rightarrow> string \<Rightarrow> World \<Rightarrow> World" where
  "LogWarning st message w =
     (if logLevel (m_args st) \<ge> 1 then w\<lparr>cout := cout w @ [''[WARNING] '' @ message]\<rparr> else w)"

definition LogError :: "string \<Rightarrow> World \<Rightarrow> World" where
  "LogError message w = w\<lparr>cerr := cerr w @ [''[ERROR] '' @ message]\<rparr>"

text \<open>
  \<^verbatim>\<open>WriteBinaryData\<close>: the name of the binary file (\<^verbatim>\<open>binFile\<close>); when it cannot be
  opened, a warning and a return; otherwise the bytes of all records. It returns
  nothing.
\<close>

definition WriteBinaryData_binFile :: "string \<Rightarrow> string" where
  "WriteBinaryData_binFile path =
     substr_upto path (find_last_of path CHR ''.'') @ ''.bin''"

definition WriteBinaryData ::
  "('f \<Rightarrow> byte list) \<Rightarrow> FileSystem \<Rightarrow> 'f Converter \<Rightarrow> World \<Rightarrow> World" where
  "WriteBinaryData float_bytes fs st w =
     (let binFile = WriteBinaryData_binFile (outputFile (m_args st))
      in if \<not> can_open fs binFile
         then LogWarning st (''Cannot create binary file: '' @ binFile) w
         else LogInfo st (''Binary data written to: '' @ binFile)
                (write_file fs binFile (CollectBinaryData float_bytes st []) w))"

text \<open>\<^verbatim>\<open>WriteGltfFile\<close> and \<^verbatim>\<open>WriteGlbFile\<close>: the result and the world after.\<close>

definition WriteGltfFile ::
  "('f \<Rightarrow> string) \<Rightarrow> ('f \<Rightarrow> byte list) \<Rightarrow> FileSystem \<Rightarrow> 'f Converter \<Rightarrow> World \<Rightarrow> bool \<times> World"
  where
  "WriteGltfFile fmt float_bytes fs st w =
     (let w1 = LogInfo st (''Writing glTF file: '' @ outputFile (m_args st)) w
      in if \<not> can_open fs (outputFile (m_args st))
         then (False, LogError (''Cannot open output file: '' @ outputFile (m_args st)) w1)
         else
           (let w2 = write_file fs (outputFile (m_args st))
                       (map of_char (WriteGltfJson fmt st [])) w1;
                w3 = WriteBinaryData float_bytes fs st w2
            in (True, LogInfo st ''glTF file written successfully'' w3)))"

definition WriteGlbFile ::
  "('f \<Rightarrow> string) \<Rightarrow> ('f \<Rightarrow> byte list) \<Rightarrow> FileSystem \<Rightarrow> 'f Converter \<Rightarrow> World \<Rightarrow> bool \<times> World"
  where
  "WriteGlbFile fmt float_bytes fs st w =
     (let w1 = LogInfo st (''Writing GLB file: '' @ outputFile (m_args st)) w
      in if \<not> can_open fs (outputFile (m_args st))
         then (False, LogError (''Cannot open output file: '' @ outputFile (m_args st)) w1)
         else
           (let jsonString = WriteGltfJsonForGlb fmt st [];
                binaryData = CollectBinaryData float_bytes st [];
                w2 = write_file fs (outputFile (m_args st)) (glb_bytes jsonString binaryData) w1
            in (True,
                LogInfo st (''GLB file written successfully (Size: '' @
                            to_string (length binaryData) @ '' bytes binary data)'') w2)))"

text \<open>\<^verbatim>\<open>WriteOutputFile\<close>.\<close>

definition WriteOutputFile ::
  "('f \<Rightarrow> string) \<Rightarrow> ('f \<Rightarrow> byte list) \<Rightarrow> FileSystem \<Rightarrow> 'f Converter \<Rightarrow> World \<Rightarrow> bool \<times> World"
  where
  "WriteOutputFile fmt float_bytes fs st w =
     (if outputGlb (m_args st) then WriteGlbFile fmt float_bytes fs st w
      else WriteGltfFile fmt float_bytes fs st w)"

text \<open>
  \<^verbatim>\<open>ValidateArgs\<close>, without the lines it sends to standard error: \<^verbatim>\<open>main\<close> goes on to the
  conversion only when it returns true.
\<close>

definition ValidateArgs :: "('f::{zero,ord}) CommandLineArgs \<Rightarrow> bool" where
  "ValidateArgs args =
     (if inputFile args = [] then False
      else if outputFile args = [] then False
      else if scale args \<le> 0 then False
      else if logLevel args < 0 \<or> logLevel args > 2 then False
      else True)"

text \<open>
  \<^verbatim>\<open>Convert\<close>. Loading the file and converting its geometry are the work of the IFC
  library: their results are the parameters \<open>loaded\<close> and \<open>converted\<close>, and
  \<open>map_entities\<close> is the shape data the library hands over. The lines that loading,
  conversion and extraction themselves log are left out.
\<close>

definition Convert ::
  "('d \<Rightarrow> 'f) \<Rightarrow> ('m \<Rightarrow> 'd vec3 \<Rightarrow> 'd vec3) \<Rightarrow> (rat \<Rightarrow> 'f) \<Rightarrow> ('f \<Rightarrow> string) \<Rightarrow>
   ('f \<Rightarrow> byte list) \<Rightarrow> FileSystem \<Rightarrow> bool \<Rightarrow> bool \<Rightarrow>
   ('d, 'm) ProductShapeData option list \<Rightarrow> ('f::{zero,one,times,ord}) Converter \<Rightarrow> World \<Rightarrow> bool \<times> World" where
  "Convert cf mul lit fmt float_bytes fs loaded converted map_entities st w =
     (let w1 = LogInfo st (''Starting IFC to '' @
                 (if outputGlb (m_args st) then ''GLB'' else ''glTF'') @ '' conversion...'') w
      in if \<not> loaded
         then (False, LogError (''Failed to load IFC file: '' @ inputFile (m_args st)) w1)
         else if \<not> converted
         then (False, LogError ''Failed to convert geometry'' w1)
         else
           (let st1 = ExtractGeometryData cf mul lit map_entities st;
                (written, w2) = WriteOutputFile fmt float_bytes fs st1 w1
            in if \<not> written
               then (False, LogError (''Failed to write output file: '' @ outputFile (m_args st1)) w2)
               else (True, LogInfo st1 ''Conversion completed successfully!'' w2)))"

text \<open>
  The end of \<^verbatim>\<open>main\<close>: the exit status for the result of \<^verbatim>\<open>Convert\<close>, and the line
  sent to standard error on failure.
\<close>

definition main_exit :: "bool \<times> World \<Rightarrow> int \<times> World" where
  "main_exit r =
     (if fst r then (0, (snd r)\<lparr>cout := cout (snd r) @ [[], ''Conversion completed successfully!'']\<rparr>)
      else (1, (snd r)\<lparr>cerr := cerr (snd r) @ [[], ''Conversion failed!'']\<rparr>))"


section \<open>The accessors and buffer views a scene should get\<close>

text \<open>
  What the specification says of the two arrays, to compare the writers with. An
  accessor and a buffer view, field by field as glTF 2.0 has them; only the position
  accessor carries \<^verbatim>\<open>min\<close> and \<^verbatim>\<open>max\<close>.
\<close>

record 'f Accessor =
  acc_bufferView :: nat
  acc_componentType :: nat
  acc_count :: nat
  acc_type :: string
  acc_min_max :: "('f vec3 \<times> 'f vec3) option"

record BufferView =
  bv_buffer :: nat
  bv_byteOffset :: nat
  bv_byteLength :: nat
  bv_target :: nat

text \<open>
  The JSON text of an accessor and of a buffer view: one object, a member a line, the
  numbers in decimal. The text of an array: its key, and its entries with a comma and a
  line break between one entry and the next.
\<close>

definition accessor_json :: "('f \<Rightarrow> string) \<Rightarrow> 'f Accessor \<Rightarrow> string" where
  "accessor_json fmt a =
     ''    {\<newline>'' @
     ''      \"bufferView\": '' @ to_string (acc_bufferView a) @ '',\<newline>'' @
     ''      \"componentType\": '' @ to_string (acc_componentType a) @ '',\<newline>'' @
     ''      \"count\": '' @ to_string (acc_count a) @ '',\<newline>'' @
     ''      \"type\": \"'' @ acc_type a @ ''\"'' @
     (case acc_min_max a of
        None \<Rightarrow> []
      | Some (mn, mx) \<Rightarrow>
          '',\<newline>'' @
          ''      \"min\": ['' @ fmt (fst mn) @ '', '' @ fmt (fst (snd mn)) @ '', '' @
            fmt (snd (snd mn)) @ ''],\<newline>'' @
          ''      \"max\": ['' @ fmt (fst mx) @ '', '' @ fmt (fst (snd mx)) @ '', '' @
            fmt (snd (snd mx)) @ '']'') @
     ''\<newline>'' @
     ''    }''"

definition buffer_view_json :: "BufferView \<Rightarrow> string" where
  "buffer_view_json b =
     ''    {\<newline>'' @
     ''      \"buffer\": '' @ to_string (bv_buffer b) @ '',\<newline>'' @
     ''      \"byteOffset\": '' @ to_string (bv_byteOffset b) @ '',\<newline>'' @
     ''      \"byteLength\": '' @ to_string (bv_byteLength b) @ '',\<newline>'' @
     ''      \"target\": '' @ to_string (bv_target b) @ ''\<newline>'' @
     ''    }''"

fun json_entries :: "string list \<Rightarrow> string" where
  "json_entries [] = []"
| "json_entries [e] = e"
| "json_entries (e # e' # es) = e @ '',\<newline>'' @ json_entries (e' # es)"

definition json_array :: "string \<Rightarrow> string list \<Rightarrow> string" where
  "json_array key entries =
     ''  \"'' @ key @ ''\": [\<newline>'' @ json_entries entries @ ''\<newline>  ],\<newline>''"

text \<open>
  The entries that follow an entry already written, each after its comma and line break;
  and the entries written by a loop whose flag \<^verbatim>\<open>first\<close> says whether any came before.
\<close>

definition more_entries :: "string list \<Rightarrow> string" where
  "more_entries es = concat (map (\<lambda>e. '',\<newline>'' @ e) es)"

definition entries_after :: "bool \<Rightarrow> string list \<Rightarrow> string" where
  "entries_after first es = (if first then json_entries es else more_entries es)"

text \<open>
  Three accessors for each record, position, normal and index, numbered from \<open>i\<close> on;
  three buffer views for each record, laid out from the byte offset \<open>off\<close> on.
\<close>

fun accessors_from :: "nat \<Rightarrow> 'f GeometryData list \<Rightarrow> 'f Accessor list" where
  "accessors_from i [] = []"
| "accessors_from i (g # gs) =
     [\<lparr>acc_bufferView = i, acc_componentType = 5126, acc_count = length (vertices g) div 3,
       acc_type = ''VEC3'', acc_min_max = Some (minBounds g, maxBounds g)\<rparr>,
      \<lparr>acc_bufferView = i + 1, acc_componentType = 5126, acc_count = length (vertices g) div 3,
       acc_type = ''VEC3'', acc_min_max = None\<rparr>,
      \<lparr>acc_bufferView = i + 2, acc_componentType = 5125, acc_count = length (indices g),
       acc_type = ''SCALAR'', acc_min_max = None\<rparr>] @
     accessors_from (i + 3) gs"

fun buffer_views_from :: "nat \<Rightarrow> 'f GeometryData list \<Rightarrow> BufferView list" where
  "buffer_views_from off [] = []"
| "buffer_views_from off (g # gs) =
     [\<lparr>bv_buffer = 0, bv_byteOffset = off, bv_byteLength = length (vertices g) * 4,
       bv_target = 34962\<rparr>,
      \<lparr>bv_buffer = 0, bv_byteOffset = off + length (vertices g) * 4,
       bv_byteLength = length (normals g) * 4, bv_target = 34962\<rparr>,
      \<lparr>bv_buffer = 0, bv_byteOffset = off + length (vertices g) * 4 + length (normals g) * 4,
       bv_byteLength = length (indices g) * 4, bv_target = 34963\<rparr>] @
     buffer_views_from
       (off + length (vertices g) * 4 + length (normals g) * 4 + length (indices g) * 4) gs"

text \<open>
  The size in bytes of a component type and the number of components of an accessor
  type, as glTF 2.0 defines them.
\<close>

definition component_size :: "nat \<Rightarrow> nat" where
  "component_size componentType =
     (if componentType = 5120 \<or> componentType = 5121 then 1
      else if componentType = 5122 \<or> componentType = 5123 then 2
      else if componentType = 5125 \<or> componentType = 5126 then 4
      else 0)"

definition components :: "string \<Rightarrow> nat" where
  "components t =
     (if t = ''SCALAR'' then 1 else if t = ''VEC2'' then 2 else if t = ''VEC3'' then 3
      else if t = ''VEC4'' then 4 else if t = ''MAT2'' then 4 else if t = ''MAT3'' then 9
      else if t = ''MAT4'' then 16 else 0)"

text \<open>The byte length an accessor asks of its buffer view.\<close>

definition accessor_bytes :: "'f Accessor \<Rightarrow> nat" where
  "accessor_bytes a = acc_count a * component_size (acc_componentType a) * components (acc_type a)"

text \<open>Each byte offset is the sum of the byte lengths before it, starting from \<open>off\<close>.\<close>

fun offsets_from :: "nat \<Rightarrow> BufferView list \<Rightarrow> bool" where
  "offsets_from off [] = True"
| "offsets_from off (b # bs) = (bv_byteOffset b = off \<and> offsets_from (off + bv_byteLength b) bs)"

text \<open>
  A stand-in for the number formatting of the stream in the examples: the integer part
  in decimal.
\<close>

definition fmt_int :: "rat \<Rightarrow> string" where
  "fmt_int x = (if x < 0 then ''-'' else []) @ to_string (nat \<lfloor>\<bar>x\<bar>\<rfloor>)"

text \<open>The scene of the examples: the converter after extraction of the one triangle.\<close>

definition triangle_scene :: "rat Converter" where
  "triangle_scene =
     ExtractGeometryData (\<lambda>x. x) shift_x (\<lambda>q. q) [Some triangle_shape] (SimpleIFC2GLTF example_args)"

section \<open>Text inside text\<close>

text \<open>A text occurs in another when the other is something, the text, and something.\<close>

definition occurs_in :: "string \<Rightarrow> string \<Rightarrow> bool" where
  "occurs_in t s \<longleftrightarrow> (\<exists>before after. s = before @ t @ after)"

text \<open>A node whose name has a quote, a backslash and a line break, and its converter.\<close>

definition quoted_node :: "rat GltfNode" where
  "quoted_node =
     GltfNode [CHR ''a'', CHR 0x22, CHR ''b'', CHR 0x5C, CHR ''c'', CHR 0x0A] ''IfcWall'' []
       [\<lparr>vertices = [0, 0, 0, 1, 0, 0, 0, 1, 0], normals = [0, 0, 1, 0, 0, 1, 0, 0, 1],
         texCoords = [0, 0, 0, 0, 0, 0], indices = [0, 1, 2], materialId = ''default'',
         minBounds = (0, 0, 0), maxBounds = (1, 1, 0)\<rparr>]
       (transform GltfNode_init)"

definition quoted_scene :: "rat Converter" where
  "quoted_scene =
     \<lparr>m_args = example_args, m_materials = [],
      m_rootNode = GltfNode ''Scene'' ''Scene'' [quoted_node] [] (transform GltfNode_init)\<rparr>"

section \<open>File systems for the examples\<close>

text \<open>
  A file system where only \<^verbatim>\<open>out.gltf\<close> can be opened, one where every file opens and
  every write fails, an empty world, and a stand-in for the bytes of a \<^verbatim>\<open>float\<close>.
\<close>

definition fs_no_bin :: FileSystem where
  "fs_no_bin = \<lparr>can_open = (\<lambda>p. p = ''out.gltf''), can_write = (\<lambda>p. True)\<rparr>"

definition fs_no_write :: FileSystem where
  "fs_no_write = \<lparr>can_open = (\<lambda>p. True), can_write = (\<lambda>p. False)\<rparr>"

definition fs_no_output :: FileSystem where
  "fs_no_output = \<lparr>can_open = (\<lambda>p. False), can_write = (\<lambda>p. True)\<rparr>"

definition empty_world :: World where
  "empty_world = \<lparr>files = [], cout = [], cerr = []\<rparr>"

definition four_zero_bytes :: "rat \<Rightarrow> byte list" where
  "four_zero_bytes x = [0, 0, 0, 0]"





section \<open>Which file a uri names\<close>







section \<open>Facts about single precision numbers\<close>

lemma rhe_int [simp]: "round_half_even (of_int n) = n"
  by (simp add: round_half_even_def)

lemma rhe_floor: "\<lfloor>x\<rfloor> \<le> round_half_even x \<and> round_half_even x \<le> \<lfloor>x\<rfloor> + 1"
  by (simp add: round_half_even_def Let_def)

lemma rhe_mono: "x \<le> y \<Longrightarrow> round_half_even x \<le> round_half_even y"
proof -
  assume xy: "x \<le> y"
  have fl: "\<lfloor>x\<rfloor> \<le> \<lfloor>y\<rfloor>" using xy by (rule floor_mono)
  show ?thesis
  proof (cases "\<lfloor>x\<rfloor> = \<lfloor>y\<rfloor>")
    case True
    then have d: "x - of_int \<lfloor>y\<rfloor> \<le> y - of_int \<lfloor>y\<rfloor>" using xy by simp
    show ?thesis
      unfolding round_half_even_def Let_def True
      using d by (simp split: if_splits)
  next
    case False
    then have "\<lfloor>x\<rfloor> + 1 \<le> \<lfloor>y\<rfloor>" using fl by simp
    then show ?thesis
      using rhe_floor [of x] rhe_floor [of y] by linarith
  qed
qed

lemma rhe_minus: "round_half_even (- x) = - round_half_even x"
proof (cases "x = of_int \<lfloor>x\<rfloor>")
  case True
  have "round_half_even (- of_int \<lfloor>x\<rfloor>) = - round_half_even (of_int \<lfloor>x\<rfloor>)"
    using rhe_int [of "- \<lfloor>x\<rfloor>"] by simp
  then show ?thesis
    using True by simp
next
  case False
  have fm: "\<lfloor>- x\<rfloor> = - \<lfloor>x\<rfloor> - 1"
    using False by (simp add: floor_minus ceiling_altdef)
  have e: "even (- \<lfloor>x\<rfloor> - 1) \<longleftrightarrow> odd \<lfloor>x\<rfloor>" by simp
  show ?thesis
    unfolding round_half_even_def Let_def fm e
    by (simp add: algebra_simps split: if_splits)
qed

lemma pow_of_bitlen:
  assumes "0 < a"
  shows "(2::rat) powi (bitlen a - 1) \<le> of_int a" and "of_int a < (2::rat) powi bitlen a"
proof -
  have l: "1 \<le> bitlen a"
    using assms bitlen_eq_zero_iff [of a] bitlen_nonneg [of a] by linarith
  have b: "2 ^ nat (bitlen a - 1) \<le> a" "a < 2 ^ nat (bitlen a)"
    using bitlen_bounds [OF assms] by simp_all
  have "(of_int (2 ^ nat (bitlen a - 1)) :: rat) \<le> of_int a"
    using b(1) by (simp only: of_int_le_iff)
  then show "(2::rat) powi (bitlen a - 1) \<le> of_int a"
    using l by (simp add: power_int_nonneg_exp)
  have "(of_int a :: rat) < of_int (2 ^ nat (bitlen a))"
    using b(2) by (simp only: of_int_less_iff)
  then show "of_int a < (2::rat) powi bitlen a"
    using l by (simp add: power_int_nonneg_exp)
qed

lemma ilog2_bounds:
  assumes "0 < q"
  shows "2 powi (ilog2 q) \<le> q \<and> q < 2 powi (ilog2 q + 1)"
proof -
  obtain a b where qu: "quotient_of q = (a, b)"
    by (cases "quotient_of q")
  have b: "0 < b" using qu by (rule quotient_of_denom_pos)
  have q: "q = of_int a / of_int b" using qu by (rule quotient_of_div)
  have a: "0 < a"
    using assms b unfolding q by (simp add: zero_less_divide_iff)
  let ?d = "bitlen a - bitlen b"
  note A = pow_of_bitlen [OF a]
  note B = pow_of_bitlen [OF b]
  have bp: "(0::rat) < of_int b" using b by simp
  have ap: "(0::rat) < of_int a" using a by simp
  have "q * 2 powi (bitlen b - 1) \<le> q * of_int b"
    using B(1) assms by (simp add: mult_left_mono)
  also have "\<dots> = of_int a" using bp by (simp add: q)
  also have "\<dots> < 2 powi bitlen a" by (rule A(2))
  finally have "q < 2 powi bitlen a / 2 powi (bitlen b - 1)"
    by (simp add: pos_less_divide_eq)
  then have up: "q < 2 powi (?d + 1)"
    by (simp add: power_int_diff [symmetric] algebra_simps)
  have "(2::rat) powi (bitlen a - 1) \<le> of_int a" by (rule A(1))
  also have "\<dots> = q * of_int b" using bp by (simp add: q)
  also have "\<dots> < q * 2 powi bitlen b"
    using B(2) assms by (simp add: mult_strict_left_mono)
  finally have "2 powi (bitlen a - 1) / 2 powi bitlen b < q"
    by (simp add: pos_divide_less_eq)
  then have lo: "2 powi (?d - 1) < q"
    by (simp add: power_int_diff [symmetric] algebra_simps)
  show ?thesis
  proof (cases "2 powi ?d \<le> q")
    case True
    then show ?thesis
      using up by (simp add: ilog2_def qu)
  next
    case False
    then show ?thesis
      using lo by (simp add: ilog2_def qu)
  qed
qed

lemma ilog2_unique:
  assumes "0 < q" and "2 powi e \<le> q" and "q < 2 powi (e + 1)"
  shows "ilog2 q = e"
proof -
  note b = ilog2_bounds [OF assms(1)]
  have "(2::rat) powi e < 2 powi (ilog2 q + 1)"
    using assms(2) b by linarith
  then have 1: "e < ilog2 q + 1"
    by (metis linorder_not_less one_less_numeral_iff power_int_increasing semiring_norm(76) order_less_imp_le)
  have "(2::rat) powi (ilog2 q) < 2 powi (e + 1)"
    using assms(3) b by linarith
  then have 2: "ilog2 q < e + 1"
    by (metis linorder_not_less one_less_numeral_iff power_int_increasing semiring_norm(76) order_less_imp_le)
  show ?thesis using 1 2 by simp
qed

lemma ilog2_mono:
  assumes "0 < p" and "p \<le> q"
  shows "ilog2 p \<le> ilog2 q"
proof -
  have q: "0 < q" using assms by simp
  have "(2::rat) powi (ilog2 p) < 2 powi (ilog2 q + 1)"
    using ilog2_bounds [OF assms(1)] ilog2_bounds [OF q] assms(2) by linarith
  then have "ilog2 p < ilog2 q + 1"
    by (metis linorder_not_less one_less_numeral_iff power_int_increasing semiring_norm(76) order_less_imp_le)
  then show ?thesis by simp
qed

lemma exponent32_minus [simp]: "exponent32 (- q) = exponent32 q"
  by (simp add: exponent32_def)

lemma exponent32_mono: "0 < p \<Longrightarrow> p \<le> q \<Longrightarrow> exponent32 p \<le> exponent32 q"
  using ilog2_mono [of p q] by (simp add: exponent32_def)

lemma grid_same_exponent:
  assumes "p \<le> q"
  shows "of_int (round_half_even (p / 2 powi e)) * (2::rat) powi e \<le>
         of_int (round_half_even (q / 2 powi e)) * 2 powi e"
proof -
  have "p / 2 powi e \<le> q / 2 powi e"
    using assms by (simp add: divide_right_mono)
  then have "round_half_even (p / 2 powi e) \<le> round_half_even (q / 2 powi e)"
    by (rule rhe_mono)
  then have "(of_int (round_half_even (p / 2 powi e)) :: rat) \<le>
             of_int (round_half_even (q / 2 powi e))"
    by (simp only: of_int_le_iff)
  then show ?thesis
    by (simp add: mult_right_mono)
qed

lemma grid_upper:
  assumes "0 < p"
  shows "of_int (round_half_even (p / 2 powi exponent32 p)) * (2::rat) powi exponent32 p \<le>
         2 powi (exponent32 p + 24)"
proof -
  let ?e = "exponent32 p"
  have "ilog2 p + 1 \<le> ?e + 24"
    using assms by (simp add: exponent32_def)
  then have "(2::rat) powi (ilog2 p + 1) \<le> 2 powi (?e + 24)"
    by (intro power_int_increasing) simp_all
  then have "p \<le> 2 powi (?e + 24)"
    using ilog2_bounds [OF assms] by linarith
  then have "p / 2 powi ?e \<le> 2 powi (?e + 24) / 2 powi ?e"
    by (simp add: divide_right_mono)
  also have "\<dots> = of_int (2 ^ 24)"
    by (simp add: power_int_add)
  finally have "round_half_even (p / 2 powi ?e) \<le> round_half_even (of_int (2 ^ 24))"
    by (rule rhe_mono)
  then have "round_half_even (p / 2 powi ?e) \<le> 2 ^ 24"
    by (simp only: rhe_int)
  then have "(of_int (round_half_even (p / 2 powi ?e)) :: rat) \<le> of_int (2 ^ 24)"
    by (simp only: of_int_le_iff)
  then have "of_int (round_half_even (p / 2 powi ?e)) * (2::rat) powi ?e \<le>
             of_int (2 ^ 24) * 2 powi ?e"
    by (simp add: mult_right_mono)
  also have "\<dots> = 2 powi (?e + 24)"
    by (simp add: power_int_add)
  finally show ?thesis .
qed

lemma grid_lower:
  assumes "0 < q" and "- 149 < exponent32 q"
  shows "(2::rat) powi (exponent32 q + 23) \<le>
         of_int (round_half_even (q / 2 powi exponent32 q)) * 2 powi exponent32 q"
proof -
  let ?e = "exponent32 q"
  have e: "?e + 23 = ilog2 q"
    using assms by (simp add: exponent32_def max_def split: if_splits)
  have "(2::rat) powi (?e + 23) \<le> q"
    unfolding e using ilog2_bounds [OF assms(1)] by simp
  then have "2 powi (?e + 23) / 2 powi ?e \<le> q / 2 powi ?e"
    by (simp add: divide_right_mono)
  moreover have "(2::rat) powi (?e + 23) / 2 powi ?e = of_int (2 ^ 23)"
    by (simp add: power_int_add)
  ultimately have "of_int (2 ^ 23) \<le> q / 2 powi ?e"
    by simp
  then have "round_half_even (of_int (2 ^ 23)) \<le> round_half_even (q / 2 powi ?e)"
    by (rule rhe_mono)
  then have "2 ^ 23 \<le> round_half_even (q / 2 powi ?e)"
    by (simp only: rhe_int)
  then have "(of_int (2 ^ 23) :: rat) \<le> of_int (round_half_even (q / 2 powi ?e))"
    by (simp only: of_int_le_iff)
  then have m: "of_int (2 ^ 23) * (2::rat) powi ?e \<le>
             of_int (round_half_even (q / 2 powi ?e)) * 2 powi ?e"
    by (simp add: mult_right_mono)
  have "(2::rat) powi (?e + 23) = of_int (2 ^ 23) * 2 powi ?e"
    by (simp add: power_int_add)
  also note m
  finally show ?thesis .
qed

lemma round_to_grid_pos_mono:
  assumes "0 < p" and "p \<le> q"
  shows "round_to_grid p \<le> round_to_grid q"
proof -
  have q: "0 < q" using assms by simp
  have le: "exponent32 p \<le> exponent32 q"
    using assms by (rule exponent32_mono)
  show ?thesis
  proof (cases "exponent32 p = exponent32 q")
    case True
    show ?thesis
      using grid_same_exponent [OF assms(2), of "exponent32 q"] assms(1) q
      by (simp add: round_to_grid_def True)
  next
    case False
    then have lt: "exponent32 p + 24 \<le> exponent32 q + 23"
      using le by simp
    have "- 149 \<le> exponent32 p" by (simp add: exponent32_def)
    then have big: "- 149 < exponent32 q" using lt by simp
    have "round_to_grid p \<le> 2 powi (exponent32 p + 24)"
      using grid_upper [OF assms(1)] assms(1) by (simp add: round_to_grid_def)
    also have "\<dots> \<le> 2 powi (exponent32 q + 23)"
      using lt by (intro power_int_increasing) simp_all
    also have "\<dots> \<le> round_to_grid q"
      using grid_lower [OF q big] q by (simp add: round_to_grid_def)
    finally show ?thesis .
  qed
qed

lemma round_to_grid_minus: "round_to_grid (- q) = - round_to_grid q"
  by (simp add: round_to_grid_def rhe_minus)

lemma round_to_grid_nonneg: "0 \<le> q \<Longrightarrow> 0 \<le> round_to_grid q"
proof -
  assume "0 \<le> q"
  then have "0 \<le> q / 2 powi exponent32 q" by simp
  then have "round_half_even 0 \<le> round_half_even (q / 2 powi exponent32 q)"
    by (rule rhe_mono)
  then have "0 \<le> round_half_even (q / 2 powi exponent32 q)"
    using rhe_int [of 0] by simp
  then show ?thesis
    by (simp add: round_to_grid_def)
qed

lemma round_to_grid_mono:
  assumes "p \<le> q"
  shows "round_to_grid p \<le> round_to_grid q"
proof -
  consider "0 < p" | "q < 0" | "p \<le> 0" "0 \<le> q" by linarith
  then show ?thesis
  proof cases
    case 1
    then show ?thesis using assms by (rule round_to_grid_pos_mono)
  next
    case 2
    have "round_to_grid (- q) \<le> round_to_grid (- p)"
      using 2 assms by (intro round_to_grid_pos_mono) simp_all
    then show ?thesis by (simp add: round_to_grid_minus)
  next
    case 3
    have "0 \<le> round_to_grid (- p)"
      using 3(1) by (intro round_to_grid_nonneg) simp
    then have "round_to_grid p \<le> 0" by (simp add: round_to_grid_minus)
    also have "0 \<le> round_to_grid q" using 3(2) by (rule round_to_grid_nonneg)
    finally show ?thesis .
  qed
qed

lemma overflow32_not_NaN [simp]: "overflow32 r \<noteq> NaN"
  by (simp add: overflow32_def)

lemma round32_not_NaN [simp]: "round32 q \<noteq> NaN"
  by (simp add: round32_def)

lemma overflow32_mono: "p \<le> q \<Longrightarrow> overflow32 p \<le> overflow32 q"
  by (auto simp add: overflow32_def less_eq_binary32_def)

lemma round32_mono: "p \<le> q \<Longrightarrow> round32 p \<le> round32 q"
  unfolding round32_def by (intro overflow32_mono round_to_grid_mono)

lemma mul_NaN_iff:
  "0 < q \<Longrightarrow> x * Fin q = NaN \<longleftrightarrow> x = NaN"
  by (cases x) (simp_all add: times_binary32_def)

lemma less_eq_32_cases:
  "x \<le> y \<longleftrightarrow>
     (case (x, y) of
        (NaN, _) \<Rightarrow> False | (_, NaN) \<Rightarrow> False
      | (MInf, _) \<Rightarrow> True | (_, PInf) \<Rightarrow> True
      | (Fin a, Fin b) \<Rightarrow> a \<le> b
      | _ \<Rightarrow> False)"
  by (cases x; cases y) (auto simp add: less_eq_binary32_def)

lemma mul_mono:
  assumes "0 < q" and "x \<le> y"
  shows "x * Fin q \<le> y * Fin q"
proof (cases x)
  case NaN
  then show ?thesis using assms(2) by (simp add: less_eq_binary32_def)
next
  case MInf
  have "y \<noteq> NaN" using assms(2) by (cases y) (simp_all add: less_eq_32_cases MInf)
  then have "y * Fin q \<noteq> NaN" using assms(1) by (simp add: mul_NaN_iff)
  then show ?thesis
    using assms(1) by (cases "y * Fin q") (simp_all add: MInf times_binary32_def less_eq_32_cases)
next
  case (Fin a)
  show ?thesis
  proof (cases y)
    case (Fin b)
    then have "a \<le> b" using assms(2) \<open>x = Fin a\<close> by (simp add: less_eq_32_cases)
    then have "a * q \<le> b * q" using assms(1) by (simp add: mult_right_mono)
    then have "round32 (a * q) \<le> round32 (b * q)" by (rule round32_mono)
    then show ?thesis
      by (simp add: Fin \<open>x = Fin a\<close> times_binary32_def)
  next
    case PInf
    have "round32 (a * q) \<le> PInf"
      by (cases "round32 (a * q)") (simp_all add: less_eq_32_cases)
    then show ?thesis
      using assms(1) by (simp add: PInf \<open>x = Fin a\<close> times_binary32_def)
  qed (use assms(2) \<open>x = Fin a\<close> in \<open>simp_all add: less_eq_32_cases\<close>)
next
  case PInf
  then have "y = PInf" using assms(2) by (cases y) (simp_all add: less_eq_32_cases)
  then show ?thesis
    using assms(1) by (simp add: PInf times_binary32_def less_eq_32_cases)
qed

lemma less_32_imp_le: "(x::binary32) < y \<Longrightarrow> x \<le> y"
  by (simp add: less_binary32_def less_eq_binary32_def)

lemma le_32_not_less: "(x::binary32) \<le> y \<Longrightarrow> \<not> y < x"
  by (cases x; cases y) (auto simp add: less_binary32_def less_eq_binary32_def)

lemma le_32_antisym: "(x::binary32) \<le> y \<Longrightarrow> \<not> x < y \<Longrightarrow> x = y"
  by (auto simp add: less_binary32_def less_eq_binary32_def)

lemma not_less_32: "\<not> (y::binary32) < x \<Longrightarrow> x = NaN \<or> y = NaN \<or> x \<le> y"
  by (cases x; cases y) (auto simp add: less_binary32_def less_eq_binary32_def)

lemma less_32_NaN [simp]: "\<not> NaN < (x::binary32)" "\<not> x < NaN"
  by (cases x; simp add: less_binary32_def)+

lemma mul_commutes_less:
  assumes "0 < q"
  shows "(if b * Fin q < a * Fin q then b * Fin q else a * Fin q) =
         (if b < a then b else a) * Fin q"
proof (cases "b < a")
  case True
  then have "b * Fin q \<le> a * Fin q"
    by (intro mul_mono [OF assms] less_32_imp_le)
  then show ?thesis
    using True le_32_antisym [of "b * Fin q" "a * Fin q"] by auto
next
  case False
  then consider "a = NaN" | "b = NaN" | "a \<le> b"
    using not_less_32 by blast
  then have "\<not> b * Fin q < a * Fin q"
  proof cases
    case 1
    then show ?thesis by (simp add: times_binary32_def)
  next
    case 2
    then show ?thesis by (simp add: times_binary32_def)
  next
    case 3
    then have "a * Fin q \<le> b * Fin q" by (rule mul_mono [OF assms])
    then show ?thesis by (rule le_32_not_less)
  qed
  then show ?thesis using False by simp
qed

lemma std_min_mul:
  "0 < q \<Longrightarrow> std_min (a * Fin q) (b * Fin q) = std_min a b * Fin q"
  unfolding std_min_def by (rule mul_commutes_less)

lemma mul_commutes_greater:
  assumes "0 < q"
  shows "(if a * Fin q < b * Fin q then b * Fin q else a * Fin q) =
         (if a < b then b else a) * Fin q"
proof (cases "a < b")
  case True
  then have "a * Fin q \<le> b * Fin q"
    by (intro mul_mono [OF assms] less_32_imp_le)
  then show ?thesis
    using True le_32_antisym [of "a * Fin q" "b * Fin q"] by auto
next
  case False
  then consider "a = NaN" | "b = NaN" | "b \<le> a"
    using not_less_32 by blast
  then have "\<not> a * Fin q < b * Fin q"
  proof cases
    case 1
    then show ?thesis by (simp add: times_binary32_def)
  next
    case 2
    then show ?thesis by (simp add: times_binary32_def)
  next
    case 3
    then have "b * Fin q \<le> a * Fin q" by (rule mul_mono [OF assms])
    then show ?thesis by (rule le_32_not_less)
  qed
  then show ?thesis using False by simp
qed

lemma std_max_mul:
  "0 < q \<Longrightarrow> std_max (a * Fin q) (b * Fin q) = std_max a b * Fin q"
  unfolding std_max_def by (rule mul_commutes_greater)

section \<open>Facts about alignment and padding\<close>

lemma put_padding_replicate: "put_padding i len c = replicate (len - i) c"
proof (induction i len c rule: put_padding.induct)
  case (1 i len c)
  show ?case
  proof (cases "i < len")
    case True
    then have "len - i = Suc (len - Suc i)" by simp
    with 1 True show ?thesis by (simp add: put_padding.simps [of i])
  next
    case False
    then show ?thesis by (simp add: put_padding.simps [of i])
  qed
qed

lemma and_not_3: "(w :: 'a::len word) AND NOT 3 = push_bit 2 (drop_bit 2 w)"
proof -
  have m: "(3 :: 'a word) = mask 2" by (simp add: mask_eq_exp_minus_1)
  have s: "\<And>n. \<not> n < 2 \<Longrightarrow> Suc (Suc (n - 2)) = n" by simp
  show ?thesis
    unfolding m by (rule bit_eqI) (auto simp add: bit_simps s)
qed

lemma unat_and_not_3: "unat ((w :: size_t) AND NOT 3) = unat w div 4 * 4"
proof -
  have "unat (push_bit 2 (drop_bit 2 w)) = take_bit 64 (push_bit 2 (drop_bit 2 (unat w)))"
    by (simp add: unsigned_push_bit_eq unat_drop_bit_eq)
  also have "\<dots> = (unat w div 4 * 4) mod 2 ^ 64"
    by (simp add: take_bit_eq_mod push_bit_eq_mult drop_bit_eq_div)
  also have "\<dots> = unat w div 4 * 4"
  proof -
    have "unat w < 2 ^ 64" using unsigned_less [of w] by simp
    then have "unat w div 4 * 4 < 2 ^ 64" by linarith
    then show ?thesis by simp
  qed
  finally show ?thesis unfolding and_not_3 .
qed

lemma unat_align4: "unat (align4 n) = ((n + 3) mod 2 ^ 64) div 4 * 4 mod 2 ^ 32"
proof -
  have "unat ((of_nat n :: size_t) + 3) = (n + 3) mod 2 ^ 64"
    by (simp add: unat_word_ariths unat_of_nat)
     (metis mod_add_left_eq)
  then show ?thesis
    unfolding align4_def unsigned_ucast_eq unat_and_not_3 by (simp add: take_bit_eq_mod)
qed

lemma align4_mod4: "unat (align4 n) mod 4 = 0"
proof -
  have "(4::nat) dvd 2 ^ 32" by simp
  then have "unat (align4 n) mod 4 = ((n + 3) mod 2 ^ 64) div 4 * 4 mod 4"
    unfolding unat_align4 by (rule mod_mod_cancel)
  then show ?thesis by simp
qed

lemma align4_small: "n + 3 < 2 ^ 32 \<Longrightarrow> unat (align4 n) = round_up4 n"
  unfolding unat_align4 round_up4_def by simp

lemma align4_small_word: "n + 3 < 2 ^ 32 \<Longrightarrow> align4 n = of_nat (round_up4 n)"
proof -
  assume "n + 3 < 2 ^ 32"
  then have "unat (align4 n) = round_up4 n" by (rule align4_small)
  then have "(of_nat (unat (align4 n)) :: u32) = of_nat (round_up4 n)" by simp
  then show ?thesis by simp
qed

lemma round_up4_ge: "n \<le> round_up4 n"
  unfolding round_up4_def by presburger

lemma round_up4_mod4: "round_up4 n mod 4 = 0"
  unfolding round_up4_def by simp

lemma length_write_u32: "length (write_u32 x) = 4"
  by (simp add: write_u32_def)

section \<open>Facts about mesh extraction\<close>

lemma unat_of_nat_le: "unat (of_nat n :: u32) \<le> n"
  by (simp add: unat_of_nat)

lemma unat_of_nat_plus_le: "unat ((of_nat n :: u32) + of_nat k) \<le> n + k"
proof -
  have "(of_nat n :: u32) + of_nat k = of_nat (n + k)" by simp
  then show ?thesis using unat_of_nat_le [of "n + k"] by simp
qed

lemma geom_inv_init: "geom_inv (GeometryData_init\<lparr>materialId := mid\<rparr>)"
  by (simp add: geom_inv_def GeometryData_init_def)

lemma geom_inv_add_triangle:
  assumes "geom_inv g"
  shows "geom_inv (add_triangle cf p0 p1 p2 normal g)"
proof -
  let ?n = "length (vertices g) div 3"
  have v: "(length (vertices g) + 9) div 3 = ?n + 3" by simp
  have old: "list_all (\<lambda>i. unat i < ?n + 3) (indices g)"
    using assms by (auto simp: geom_inv_def list_all_iff)
  have b0: "unat (of_nat ?n :: u32) < ?n + 3"
    using unat_of_nat_le [of ?n] by simp
  have b1: "unat ((of_nat ?n :: u32) + 1) < ?n + 3"
    using unat_of_nat_plus_le [of ?n 1] by simp
  have b2: "unat ((of_nat ?n :: u32) + 2) < ?n + 3"
    using unat_of_nat_plus_le [of ?n 2] by simp
  have r: "\<And>x::'a list. concat (replicate 3 x) = x @ x @ x"
    by (simp add: numeral_3_eq_3)
  have n9: "(9 + length (normals g)) div 3 = length (normals g) div 3 + 3" by simp
  show ?thesis
    using assms old b0 b1 b2
    by (auto simp add: geom_inv_def add_triangle_def Let_def v r n9)
qed

lemma triangulate_fold:
  "triangulate cf mul lt normal vs i g =
     fold (\<lambda>k. add_triangle cf (mul lt (vs ! 0)) (mul lt (vs ! k)) (mul lt (vs ! (k + 1))) normal)
       [i..<length vs - 1] g"
proof (induction cf mul lt normal vs i g rule: triangulate.induct)
  case (1 cf mul lt normal vs i g)
  show ?case
  proof (cases "i < length vs - 1")
    case True
    then show ?thesis
      using 1 by (simp add: triangulate.simps [of cf mul lt normal vs i] upt_conv_Cons)
  next
    case False
    then show ?thesis
      by (simp add: triangulate.simps [of cf mul lt normal vs i])
  qed
qed

lemma geom_inv_fold:
  assumes "\<And>x s. geom_inv s \<Longrightarrow> geom_inv (f x s)" and "geom_inv g"
  shows "geom_inv (fold f xs g)"
  using assms(2) by (induction xs arbitrary: g) (simp_all add: assms(1))

lemma geom_inv_triangulate:
  "geom_inv g \<Longrightarrow> geom_inv (triangulate cf mul lt normal vs i g)"
  unfolding triangulate_fold by (rule geom_inv_fold) (rule geom_inv_add_triangle)

lemma geom_inv_ExtractFace:
  "geom_inv g \<Longrightarrow> geom_inv (ExtractFace cf mul lt face g)"
  by (simp add: ExtractFace_def geom_inv_triangulate split: option.split)

lemma geom_inv_ExtractMesh:
  "geom_inv g \<Longrightarrow> geom_inv (ExtractMesh cf mul lt mesh g)"
  by (auto simp: ExtractMesh_def split: option.split intro: geom_inv_fold geom_inv_ExtractFace)

lemma geom_inv_ExtractMeshSet:
  "geom_inv g \<Longrightarrow> geom_inv (ExtractMeshSet cf mul meshset lt g)"
  by (auto simp: ExtractMeshSet_def split: option.split intro: geom_inv_fold geom_inv_ExtractMesh)

lemma geom_inv_ApplyScale: "geom_inv g \<Longrightarrow> geom_inv (ApplyScale g s)"
  by (auto simp add: ApplyScale_def geom_inv_def)

lemma vertices_CalculateBounds [simp]: "vertices (CalculateBounds g) = vertices g"
  by (simp add: CalculateBounds_def split: list.split prod.split)

lemma normals_CalculateBounds [simp]: "normals (CalculateBounds g) = normals g"
  by (simp add: CalculateBounds_def split: list.split prod.split)

lemma indices_CalculateBounds [simp]: "indices (CalculateBounds g) = indices g"
  by (simp add: CalculateBounds_def split: list.split prod.split)

lemma texCoords_CalculateBounds [simp]: "texCoords (CalculateBounds g) = texCoords g"
  by (simp add: CalculateBounds_def split: list.split prod.split)

lemma geom_inv_CalculateBounds: "geom_inv g \<Longrightarrow> geom_inv (CalculateBounds g)"
  by (auto simp add: geom_inv_def)









section \<open>Facts about the nodes that extraction builds\<close>

lemma fold_preserves:
  assumes "\<And>x s. x \<in> set xs \<Longrightarrow> P s \<Longrightarrow> P (f x s)" and "P s"
  shows "P (fold f xs s)"
  using assms by (induction xs arbitrary: s) simp_all

lemma geometries_push_geometry [simp]:
  "geometries (push_geometry g node) = geometries node @ [g]"
  by (cases node) simp

lemma children_push_child [simp]:
  "children (push_child c node) = children node @ [c]"
  by (cases node) simp

lemma vertices_ApplyScale_empty [simp]: "vertices (ApplyScale g s) = [] \<longleftrightarrow> vertices g = []"
  by (simp add: ApplyScale_def)

lemma record_ok_pushed:
  "geom_inv g \<Longrightarrow> vertices g \<noteq> [] \<Longrightarrow> record_ok (CalculateBounds (ApplyScale g s))"
  by (simp add: record_ok_def geom_inv_CalculateBounds geom_inv_ApplyScale)

lemma geom_inv_meshsets:
  "geom_inv g \<Longrightarrow> geom_inv (fold (\<lambda>meshset. ExtractMeshSet cf mul meshset lt) mss g)"
  by (rule geom_inv_fold) (rule geom_inv_ExtractMeshSet)

lemma ExtractGeometricItems_ok:
  "list_all record_ok (geometries (snd s)) \<Longrightarrow>
   list_all record_ok (geometries (snd (ExtractGeometricItems cf mul lit item lt s)))"
proof (induction cf mul lit item lt s rule: ExtractGeometricItems.induct)
  case (1 cf mul lit meshsets meshsets_open appearances child_items lt st node)
  let ?item = "ItemShapeData meshsets meshsets_open appearances child_items"
  obtain mid st1 where m: "ExtractMaterialFromItem cf lit ?item st = (mid, st1)"
    by (cases "ExtractMaterialFromItem cf lit ?item st")
  let ?g2 = "fold (\<lambda>meshset. ExtractMeshSet cf mul meshset lt) meshsets_open
               (fold (\<lambda>meshset. ExtractMeshSet cf mul meshset lt) meshsets
                  (GeometryData_init\<lparr>materialId := mid\<rparr>))"
  let ?node1 = "if vertices ?g2 \<noteq> []
                then push_geometry (CalculateBounds (ApplyScale ?g2 (scale (m_args st1)))) node
                else node"
  have g2: "geom_inv ?g2"
    by (intro geom_inv_meshsets geom_inv_init)
  have n1: "list_all record_ok (geometries (snd (st1, ?node1)))"
    using 1(2) g2 by (simp add: record_ok_pushed)
  have step: "\<And>x s. x \<in> set child_items \<Longrightarrow> list_all record_ok (geometries (snd s)) \<Longrightarrow>
      list_all record_ok (geometries (snd (ExtractGeometricItems cf mul lit x lt s)))"
    using 1(1) [OF m [symmetric] refl refl refl refl refl] by simp
  have "list_all record_ok (geometries (snd
          (fold (\<lambda>childItem. ExtractGeometricItems cf mul lit childItem lt) child_items (st1, ?node1))))"
    by (rule fold_preserves [where P = "\<lambda>s. list_all record_ok (geometries (snd s))", OF step n1])
  then show ?case
    by (simp add: m Let_def)
qed


lemma ExtractShapeData_ok:
  "list_all record_ok (geometries (snd s)) \<Longrightarrow>
   list_all record_ok (geometries (snd (ExtractShapeData cf mul lit shapeData s)))"
proof (induction cf mul lit shapeData s rule: ExtractShapeData.induct)
  case (1 cf mul lit object lt items childElements s)
  have items: "list_all record_ok (geometries (snd
      (fold (\<lambda>geometricItem. ExtractGeometricItems cf mul lit geometricItem lt) items s)))"
    by (rule fold_preserves [where P = "\<lambda>s. list_all record_ok (geometries (snd s))"])
       (simp_all add: ExtractGeometricItems_ok 1(2))
  show ?case
    unfolding ExtractShapeData.simps
    by (rule fold_preserves [where P = "\<lambda>s. list_all record_ok (geometries (snd s))"])
       (simp_all add: 1(1) items)
qed

lemma appearance_loop_frame:
  "appearance_loop cf lit apps st = Some (mid, st') \<Longrightarrow>
   m_rootNode st' = m_rootNode st \<and> m_args st' = m_args st"
  by (induction cf lit apps st rule: appearance_loop.induct)
     (auto simp: Let_def split: option.splits if_splits)

lemma ExtractMaterialFromItem_frame:
  "ExtractMaterialFromItem cf lit item st = (mid, st') \<Longrightarrow>
   m_rootNode st' = m_rootNode st \<and> m_args st' = m_args st"
  by (auto simp: ExtractMaterialFromItem_def CreateDefaultMaterial_def Let_def
           dest: appearance_loop_frame split: option.splits if_splits)

lemma ExtractGeometricItems_frame:
  "m_rootNode (fst (ExtractGeometricItems cf mul lit item lt s)) = m_rootNode (fst s) \<and>
   m_args (fst (ExtractGeometricItems cf mul lit item lt s)) = m_args (fst s)"
proof (induction cf mul lit item lt s rule: ExtractGeometricItems.induct)
  case (1 cf mul lit meshsets meshsets_open appearances child_items lt st node)
  let ?item = "ItemShapeData meshsets meshsets_open appearances child_items"
  obtain mid st1 where m: "ExtractMaterialFromItem cf lit ?item st = (mid, st1)"
    by (cases "ExtractMaterialFromItem cf lit ?item st")
  let ?g2 = "fold (\<lambda>meshset. ExtractMeshSet cf mul meshset lt) meshsets_open
               (fold (\<lambda>meshset. ExtractMeshSet cf mul meshset lt) meshsets
                  (GeometryData_init\<lparr>materialId := mid\<rparr>))"
  let ?node1 = "if vertices ?g2 \<noteq> []
                then push_geometry (CalculateBounds (ApplyScale ?g2 (scale (m_args st1)))) node
                else node"
  let ?P = "\<lambda>s. m_rootNode (fst s) = m_rootNode st \<and> m_args (fst s) = m_args st"
  have step: "\<And>x s. x \<in> set child_items \<Longrightarrow> ?P s \<Longrightarrow>
      ?P (ExtractGeometricItems cf mul lit x lt s)"
    using 1 [OF m [symmetric] refl refl refl refl refl] by simp
  have start: "?P (st1, ?node1)"
    using ExtractMaterialFromItem_frame [OF m] by simp
  have "?P (fold (\<lambda>childItem. ExtractGeometricItems cf mul lit childItem lt) child_items
              (st1, ?node1))"
    by (rule fold_preserves [where P = ?P, OF step start])
  then show ?case
    by (simp add: m Let_def)
qed

lemma ExtractShapeData_frame:
  "m_rootNode (fst (ExtractShapeData cf mul lit shapeData s)) = m_rootNode (fst s) \<and>
   m_args (fst (ExtractShapeData cf mul lit shapeData s)) = m_args (fst s)"
proof (induction cf mul lit shapeData s rule: ExtractShapeData.induct)
  case (1 cf mul lit object lt items childElements s)
  let ?P = "\<lambda>t. m_rootNode (fst t) = m_rootNode (fst s) \<and> m_args (fst t) = m_args (fst s)"
  have items: "?P (fold (\<lambda>geometricItem. ExtractGeometricItems cf mul lit geometricItem lt) items s)"
    by (rule fold_preserves [where P = ?P]) (simp_all add: ExtractGeometricItems_frame)
  show ?case
    unfolding ExtractShapeData.simps
    by (rule fold_preserves [where P = ?P]) (simp_all add: 1 items)
qed

lemma scene_geoms_push_child [simp]:
  "scene_geoms (push_child c rootNode) = scene_geoms rootNode @ geometries c"
  by (simp add: scene_geoms_def)

lemma extract_entity_ok:
  assumes "list_all record_ok (scene_geoms (m_rootNode st))"
  shows "list_all record_ok (scene_geoms (m_rootNode (extract_entity cf mul lit entry st)))"
proof (cases entry)
  case None
  then show ?thesis using assms by (simp add: extract_entity_def)
next
  case (Some shapeData)
  show ?thesis
  proof (cases "m_ifc_object_definition shapeData")
    case None
    then show ?thesis using assms Some by (simp add: extract_entity_def)
  next
    case (Some ifcObject)
    let ?node = "GltfNode (GetEntityName (Some ifcObject)) (GetEntityType (Some ifcObject))
                   [] [] (transform GltfNode_init)"
    obtain st1 node1 where e: "ExtractShapeData cf mul lit shapeData (st, ?node) = (st1, node1)"
      by (cases "ExtractShapeData cf mul lit shapeData (st, ?node)")
    have "list_all record_ok (geometries (snd (ExtractShapeData cf mul lit shapeData (st, ?node))))"
      by (rule ExtractShapeData_ok) simp
    then have n1: "list_all record_ok (geometries node1)" by (simp add: e)
    have r: "m_rootNode st1 = m_rootNode st"
      using ExtractShapeData_frame [of cf mul lit shapeData "(st, ?node)"] by (simp add: e)
    show ?thesis
      using assms n1 \<open>entry = Some shapeData\<close> Some
      by (simp add: extract_entity_def e r)
  qed
qed


lemma ExtractGeometryData_ok:
  assumes "list_all record_ok (scene_geoms (m_rootNode st))"
  shows "list_all record_ok (scene_geoms (m_rootNode (ExtractGeometryData cf mul lit entries st)))"
  unfolding ExtractGeometryData_def
  by (rule fold_preserves [where P = "\<lambda>st. list_all record_ok (scene_geoms (m_rootNode st))"])
     (simp_all add: extract_entity_ok assms)

lemma scene_geoms_SimpleIFC2GLTF [simp]: "scene_geoms (m_rootNode (SimpleIFC2GLTF args)) = []"
  by (simp add: SimpleIFC2GLTF_def scene_geoms_def)

section \<open>Facts about scaling\<close>

lemma bounds_loop_scale:
  assumes "keeps_min_max s"
  shows "bounds_loop (map (\<lambda>v. v * s) vs) (scale3 s (fst b), scale3 s (snd b)) =
           (scale3 s (fst (bounds_loop vs b)), scale3 s (snd (bounds_loop vs b)))"
proof (induction vs b rule: bounds_loop.induct)
  case (1 x y z vs mn0 mn1 mn2 mx0 mx1 mx2)
  have mn: "\<And>a b. std_min (a * s) (b * s) = std_min a b * s"
    using assms by (simp add: keeps_min_max_def)
  have mx: "\<And>a b. std_max (a * s) (b * s) = std_max a b * s"
    using assms by (simp add: keeps_min_max_def)
  show ?case
    using 1 by (simp add: scale3_def mn mx)
qed (simp_all add: scale3_def)

lemma whole_triples_Cons:
  assumes "length xs mod 3 = 0" and "xs \<noteq> []"
  obtains x y z vs where "xs = x # y # z # vs"
proof (cases xs)
  case Nil
  with assms show ?thesis by simp
next
  case (Cons x xs1)
  show ?thesis
  proof (cases xs1)
    case Nil
    with Cons assms show ?thesis by simp
  next
    case (Cons y xs2)
    show ?thesis
    proof (cases xs2)
      case Nil
      with \<open>xs = x # xs1\<close> \<open>xs1 = y # xs2\<close> assms show ?thesis by simp
    next
      case (Cons z vs)
      with \<open>xs = x # xs1\<close> \<open>xs1 = y # xs2\<close> that show ?thesis by simp
    qed
  qed
qed

lemma CalculateBounds_scale:
  assumes "keeps_min_max s" and "geom_inv g" and "vertices g \<noteq> []"
  shows "CalculateBounds (ApplyScale g s) = scale_record s (CalculateBounds g)"
proof -
  from assms(2) have m3: "length (vertices g) mod 3 = 0"
    unfolding geom_inv_def by blast
  from m3 assms(3) obtain x y z vs where v: "vertices g = x # y # z # vs"
    by (rule whole_triples_Cons)
  obtain mn mx where b: "bounds_loop vs ((x, y, z), (x, y, z)) = (mn, mx)"
    by (cases "bounds_loop vs ((x, y, z), (x, y, z))")
  have "bounds_loop (map (\<lambda>v. v * s) vs)
          (scale3 s (fst ((x, y, z), (x, y, z))), scale3 s (snd ((x, y, z), (x, y, z)))) =
        (scale3 s mn, scale3 s mx)"
    using bounds_loop_scale [OF assms(1), of vs "((x, y, z), (x, y, z))"] by (simp add: b)
  then have bs: "bounds_loop (map (\<lambda>v. v * s) vs) ((x * s, y * s, z * s), (x * s, y * s, z * s)) =
        (scale3 s mn, scale3 s mx)"
    by (simp add: scale3_def)
  show ?thesis
  proof (cases "s = 1")
    case True
    then show ?thesis
      by (simp add: ApplyScale_def scale_record_def)
  next
    case False
    then show ?thesis
      by (simp add: ApplyScale_def scale_record_def CalculateBounds_def v b bs)
  qed
qed

lemma appearance_loop_scale:
  "appearance_loop cf lit apps (scale_converter s st) =
     map_option (\<lambda>(mid, st'). (mid, scale_converter s st')) (appearance_loop cf lit apps st)"
  by (induction cf lit apps st rule: appearance_loop.induct)
     (auto simp: Let_def scale_converter_def split: option.splits)

lemma m_materials_scale_converter [simp]:
  "m_materials (scale_converter s st) = m_materials st"
  by (simp add: scale_converter_def)

lemma CreateDefaultMaterial_scale:
  "CreateDefaultMaterial lit (scale_converter s st) =
     scale_converter s (CreateDefaultMaterial lit st)"
  by (simp add: CreateDefaultMaterial_def scale_converter_def)

lemma ExtractMaterialFromItem_scale:
  "ExtractMaterialFromItem cf lit item (scale_converter s st) =
     (fst (ExtractMaterialFromItem cf lit item st),
      scale_converter s (snd (ExtractMaterialFromItem cf lit item st)))"
proof (cases "appearance_loop cf lit (m_vec_item_appearances item) st")
  case None
  then show ?thesis
    by (simp add: ExtractMaterialFromItem_def appearance_loop_scale CreateDefaultMaterial_scale)
next
  case (Some r)
  then show ?thesis
    by (cases r) (simp add: ExtractMaterialFromItem_def appearance_loop_scale)
qed


lemma fold_commute_inv:
  assumes "\<And>x a. x \<in> set xs \<Longrightarrow> P a \<Longrightarrow> f x (h a) = h (f' x a) \<and> P (f' x a)" and "P a"
  shows "fold f xs (h a) = h (fold f' xs a) \<and> P (fold f' xs a)"
  using assms by (induction xs arbitrary: a) simp_all

lemma scale_node_push_geometry [simp]:
  "scale_node s (push_geometry g node) = push_geometry (scale_record s g) (scale_node s node)"
  by (cases node) simp

lemma scale_node_push_child [simp]:
  "scale_node s (push_child c node) = push_child (scale_node s c) (scale_node s node)"
  by (cases node) simp

lemma geometries_scale_node [simp]:
  "geometries (scale_node s node) = map (scale_record s) (geometries node)"
  by (cases node) simp

lemma m_args_scale_converter [simp]:
  "scale (m_args (scale_converter s st)) = s"
  by (simp add: scale_converter_def)

lemma ExtractGeometricItems_scale:
  fixes s :: "'f::{zero,one,times,ord}"
  assumes "keeps_min_max s"
  shows "scale (m_args (fst x)) = 1 \<Longrightarrow>
         ExtractGeometricItems cf mul lit item lt (scale_state s x) =
           scale_state s (ExtractGeometricItems cf mul lit item lt x)"
proof (induction cf mul lit item lt x rule: ExtractGeometricItems.induct)
  case (1 cf mul lit meshsets meshsets_open appearances child_items lt st node)
  let ?item = "ItemShapeData meshsets meshsets_open appearances child_items"
  obtain mid st1 where m: "ExtractMaterialFromItem cf lit ?item st = (mid, st1)"
    by (cases "ExtractMaterialFromItem cf lit ?item st")
  have ms: "ExtractMaterialFromItem cf lit ?item (scale_converter s st) = (mid, scale_converter s st1)"
    by (simp add: ExtractMaterialFromItem_scale m)
  let ?g2 = "fold (\<lambda>meshset. ExtractMeshSet cf mul meshset lt) meshsets_open
               (fold (\<lambda>meshset. ExtractMeshSet cf mul meshset lt) meshsets
                  (GeometryData_init\<lparr>materialId := mid\<rparr>))"
  let ?node1 = "if vertices ?g2 \<noteq> []
                then push_geometry (CalculateBounds (ApplyScale ?g2 (scale (m_args st1)))) node
                else node"
  let ?node1s = "if vertices ?g2 \<noteq> []
                then push_geometry (CalculateBounds (ApplyScale ?g2 s)) (scale_node s node)
                else scale_node s node"
  have g2: "geom_inv ?g2"
    by (intro geom_inv_meshsets geom_inv_init)
  have a1: "scale (m_args st1) = 1"
    using ExtractMaterialFromItem_frame [OF m] 1(2) by simp
  have one: "ApplyScale ?g2 1 = ?g2"
    by (simp add: ApplyScale_def)
  have n: "?node1s = scale_node s ?node1"
    using CalculateBounds_scale [of s ?g2] assms g2 by (simp add: a1 one)
  let ?P = "\<lambda>x::'f Converter \<times> 'f GltfNode. scale (m_args (fst x)) = 1"
  have step: "\<And>c a. c \<in> set child_items \<Longrightarrow> ?P a \<Longrightarrow>
      ExtractGeometricItems cf mul lit c lt (scale_state s a) =
        scale_state s (ExtractGeometricItems cf mul lit c lt a) \<and>
      ?P (ExtractGeometricItems cf mul lit c lt a)"
    using 1(1) [OF m [symmetric] refl refl refl refl refl]
    by (simp add: ExtractGeometricItems_frame)
  have start: "?P (st1, ?node1)" by (simp add: a1)
  have f: "fold (\<lambda>childItem. ExtractGeometricItems cf mul lit childItem lt) child_items
             (scale_state s (st1, ?node1)) =
           scale_state s (fold (\<lambda>childItem. ExtractGeometricItems cf mul lit childItem lt)
             child_items (st1, ?node1))"
    using fold_commute_inv [where P = ?P and h = "scale_state s"
        and f = "\<lambda>childItem. ExtractGeometricItems cf mul lit childItem lt"
        and f' = "\<lambda>childItem. ExtractGeometricItems cf mul lit childItem lt", OF step start]
    by simp
  have l: "ExtractGeometricItems cf mul lit ?item lt (scale_state s (st, node)) =
        fold (\<lambda>childItem. ExtractGeometricItems cf mul lit childItem lt) child_items
             (scale_converter s st1, ?node1s)"
    by (simp add: scale_state_def ms Let_def)
  have r: "ExtractGeometricItems cf mul lit ?item lt (st, node) =
        fold (\<lambda>childItem. ExtractGeometricItems cf mul lit childItem lt) child_items
             (st1, ?node1)"
    by (simp add: m Let_def)
  show ?case
    unfolding l r n using f by (simp add: scale_state_def)
qed


lemma ExtractShapeData_scale:
  fixes s :: "'f::{zero,one,times,ord}"
  assumes "keeps_min_max s"
  shows "scale (m_args (fst x)) = 1 \<Longrightarrow>
         ExtractShapeData cf mul lit shapeData (scale_state s x) =
           scale_state s (ExtractShapeData cf mul lit shapeData x)"
proof (induction cf mul lit shapeData x rule: ExtractShapeData.induct)
  case (1 cf mul lit object lt items childElements x)
  let ?P = "\<lambda>x::'f Converter \<times> 'f GltfNode. scale (m_args (fst x)) = 1"
  let ?E = "\<lambda>geometricItem. ExtractGeometricItems cf mul lit geometricItem lt"
  let ?S = "\<lambda>child_object. ExtractShapeData cf mul lit child_object"
  have istep: "\<And>i a. i \<in> set items \<Longrightarrow> ?P a \<Longrightarrow>
      ?E i (scale_state s a) = scale_state s (?E i a) \<and> ?P (?E i a)"
    by (simp add: ExtractGeometricItems_scale [OF assms] ExtractGeometricItems_frame)
  have i: "fold ?E items (scale_state s x) = scale_state s (fold ?E items x) \<and>
           ?P (fold ?E items x)"
    by (rule fold_commute_inv [where P = ?P and h = "scale_state s" and f = ?E and f' = ?E,
          OF istep 1(2)])
  have cstep: "\<And>c a. c \<in> set childElements \<Longrightarrow> ?P a \<Longrightarrow>
      ?S c (scale_state s a) = scale_state s (?S c a) \<and> ?P (?S c a)"
    by (simp add: 1(1) ExtractShapeData_frame)
  have c: "fold ?S childElements (scale_state s (fold ?E items x)) =
           scale_state s (fold ?S childElements (fold ?E items x)) \<and>
           ?P (fold ?S childElements (fold ?E items x))"
  proof (rule fold_commute_inv [where P = ?P and h = "scale_state s" and f = ?S and f' = ?S])
    fix c a
    assume "c \<in> set childElements" and "?P a"
    then show "?S c (scale_state s a) = scale_state s (?S c a) \<and> ?P (?S c a)"
      by (rule cstep)
  next
    show "?P (fold ?E items x)" by (rule i [THEN conjunct2])
  qed
  show ?case
    by (simp add: i c)
qed

lemma extract_entity_scale:
  fixes s :: "'f::{zero,one,times,ord}"
  assumes "keeps_min_max s" and "scale (m_args st) = 1"
  shows "extract_entity cf mul lit entry (scale_converter s st) =
           scale_converter s (extract_entity cf mul lit entry st) \<and>
         scale (m_args (extract_entity cf mul lit entry st)) = 1"
proof (cases entry)
  case None
  then show ?thesis using assms by (simp add: extract_entity_def)
next
  case (Some shapeData)
  show ?thesis
  proof (cases "m_ifc_object_definition shapeData")
    case None
    then show ?thesis using assms Some by (simp add: extract_entity_def)
  next
    case (Some ifcObject)
    let ?node = "GltfNode (GetEntityName (Some ifcObject)) (GetEntityType (Some ifcObject))
                   [] [] (transform GltfNode_init) :: 'f GltfNode"
    obtain st1 node1 where e: "ExtractShapeData cf mul lit shapeData (st, ?node) = (st1, node1)"
      by (cases "ExtractShapeData cf mul lit shapeData (st, ?node)")
    have sn: "scale_state s (st, ?node) = (scale_converter s st, ?node)"
      by (simp add: scale_state_def)
    have es: "ExtractShapeData cf mul lit shapeData (scale_converter s st, ?node) =
                (scale_converter s st1, scale_node s node1)"
      using ExtractShapeData_scale [OF assms(1), of "(st, ?node)" cf mul lit shapeData] assms(2)
      by (simp add: sn e scale_state_def)
    have fr: "m_rootNode st1 = m_rootNode st" "m_args st1 = m_args st"
      using ExtractShapeData_frame [of cf mul lit shapeData "(st, ?node)"] by (simp_all add: e)
    have p: "(scale_converter s st1)\<lparr>m_rootNode :=
                 push_child (scale_node s node1) (m_rootNode (scale_converter s st1))\<rparr> =
             scale_converter s (st1\<lparr>m_rootNode := push_child node1 (m_rootNode st1)\<rparr>)"
      by (simp add: scale_converter_def)
    have l: "extract_entity cf mul lit entry (scale_converter s st) =
               (if geometries node1 \<noteq> []
                then (scale_converter s st1)\<lparr>m_rootNode :=
                       push_child (scale_node s node1) (m_rootNode (scale_converter s st1))\<rparr>
                else scale_converter s st1)"
      using \<open>entry = Some shapeData\<close> Some by (simp add: extract_entity_def es)
    have r: "extract_entity cf mul lit entry st =
               (if geometries node1 \<noteq> []
                then st1\<lparr>m_rootNode := push_child node1 (m_rootNode st1)\<rparr>
                else st1)"
      using \<open>entry = Some shapeData\<close> Some by (simp add: extract_entity_def e)
    show ?thesis
      unfolding l r p using assms(2) by (simp add: fr)
  qed
qed

lemma ExtractGeometryData_scale:
  fixes s :: "'f::{zero,one,times,ord}"
  assumes "keeps_min_max s" and "scale (m_args st) = 1"
  shows "ExtractGeometryData cf mul lit entries (scale_converter s st) =
           scale_converter s (ExtractGeometryData cf mul lit entries st)"
proof -
  have "fold (extract_entity cf mul lit) entries (scale_converter s st) =
          scale_converter s (fold (extract_entity cf mul lit) entries st) \<and>
        scale (m_args (fold (extract_entity cf mul lit) entries st)) = 1"
    by (rule fold_commute_inv [where P = "\<lambda>st. scale (m_args st) = 1"
          and h = "scale_converter s" and f = "extract_entity cf mul lit"
          and f' = "extract_entity cf mul lit"])
       (simp_all add: extract_entity_scale [OF assms(1)] assms(2))
  then show ?thesis by (simp add: ExtractGeometryData_def)
qed

lemma SimpleIFC2GLTF_scale:
  "SimpleIFC2GLTF (args\<lparr>scale := s\<rparr>) = scale_converter s (SimpleIFC2GLTF (args\<lparr>scale := 1\<rparr>))"
  by (simp add: SimpleIFC2GLTF_def scale_converter_def)

section \<open>Facts about the order of extraction\<close>

lemma ExtractMaterialFromItem_appearances:
  "ExtractMaterialFromItem cf lit (ItemShapeData ms mso apps cs) st =
   ExtractMaterialFromItem cf lit (ItemShapeData ms' mso' apps cs') st"
  by (simp add: ExtractMaterialFromItem_def)

lemma ExtractGeometricItems_flat:
  "ExtractGeometricItems cf mul lit item lt s =
     fold (\<lambda>i. ExtractGeometricItems cf mul lit i lt) (item_and_children item) s"
proof (induction cf mul lit item lt s rule: ExtractGeometricItems.induct)
  case (1 cf mul lit meshsets meshsets_open appearances child_items lt st node)
  let ?item = "ItemShapeData meshsets meshsets_open appearances child_items"
  let ?bare = "ItemShapeData meshsets meshsets_open appearances []"
  let ?E = "\<lambda>i. ExtractGeometricItems cf mul lit i lt"
  obtain mid st1 where m: "ExtractMaterialFromItem cf lit ?item st = (mid, st1)"
    by (cases "ExtractMaterialFromItem cf lit ?item st")
  have m0: "ExtractMaterialFromItem cf lit ?bare st = (mid, st1)"
    using m ExtractMaterialFromItem_appearances [of cf lit meshsets meshsets_open appearances "[]" st
        meshsets meshsets_open child_items]
    by simp
  have ih: "\<And>c t. c \<in> set child_items \<Longrightarrow> ?E c t = fold ?E (item_and_children c) t"
    using 1 [OF m [symmetric] refl refl refl refl refl] by simp
  have c: "\<And>t. fold ?E child_items t = fold ?E (concat (map item_and_children child_items)) t"
    using ih by (induction child_items) simp_all
  have l: "?E ?item (st, node) = fold ?E child_items (?E ?bare (st, node))"
    by (simp add: m m0 Let_def)
  show ?case
    unfolding l by (simp add: c)
qed

section \<open>Facts about the accessor and buffer view writers\<close>

lemma to_string_5126: "to_string 5126 = ''5126''" by (simp add: to_string.simps digit_char_def)
lemma to_string_5125: "to_string 5125 = ''5125''" by (simp add: to_string.simps digit_char_def)
lemma to_string_34962: "to_string 34962 = ''34962''" by (simp add: to_string.simps digit_char_def)
lemma to_string_34963: "to_string 34963 = ''34963''" by (simp add: to_string.simps digit_char_def)
lemma to_string_0: "to_string 0 = ''0''" by (simp add: to_string.simps digit_char_def)

lemma json_entries_Cons: "json_entries (e # es) = e @ more_entries es"
  by (induction es arbitrary: e) (simp_all add: more_entries_def)

lemma more_entries_Cons: "more_entries (e # es) = '',\<newline>'' @ e @ more_entries es"
  by (simp add: more_entries_def)

lemma entries_after_Nil: "entries_after first [] = []"
  by (simp add: entries_after_def more_entries_def)

lemma entries_after_3:
  "entries_after first (e1 # e2 # e3 # es) =
     (if \<not> first then '',\<newline>'' else []) @ e1 @ '',\<newline>'' @ e2 @ '',\<newline>'' @ e3 @
     entries_after False es"
  by (simp add: entries_after_def json_entries_Cons more_entries_Cons)

lemma WriteAccessors_geoms_text:
  "WriteAccessors_geoms fmt gs (first, i, out) =
     (first \<and> gs = [], i + 3 * length gs,
      out @ entries_after first (map (accessor_json fmt) (accessors_from i gs)))"
proof (induction gs arbitrary: first i out)
  case Nil
  then show ?case by (simp add: entries_after_Nil)
next
  case (Cons g gs)
  have i: "i + 3 + 3 * length gs = i + 3 * length (g # gs)" by simp
  show ?case
    unfolding WriteAccessors_geoms.simps Let_def Cons.IH accessors_from.simps list.map append_Cons append_Nil
      entries_after_3 i
    by (simp add: accessor_json_def to_string_5126 to_string_5125)
qed

lemma accessors_from_append:
  "accessors_from i (xs @ ys) = accessors_from i xs @ accessors_from (i + 3 * length xs) ys"
  by (induction xs arbitrary: i) (simp_all add: add.assoc)

lemma entries_after_append:
  "entries_after first (xs @ ys) = entries_after first xs @ entries_after (first \<and> xs = []) ys"
proof (cases xs)
  case Nil
  then show ?thesis by (simp add: entries_after_Nil)
next
  case (Cons x xs')
  show ?thesis
    unfolding Cons by (simp add: entries_after_def json_entries_Cons more_entries_def)
qed

lemma accessors_from_Nil_iff: "accessors_from i gs = [] \<longleftrightarrow> gs = []"
  by (cases gs) simp_all

lemma WriteAccessors_loop_text:
  "WriteAccessors_loop fmt ns (first, i, out) =
     (first \<and> concat (map geometries ns) = [], i + 3 * length (concat (map geometries ns)),
      out @ entries_after first
              (map (accessor_json fmt) (accessors_from i (concat (map geometries ns)))))"
proof (induction ns arbitrary: first i out)
  case Nil
  then show ?case by (simp add: entries_after_Nil)
next
  case (Cons n ns)
  show ?case
    unfolding WriteAccessors_loop.simps WriteAccessors_geoms_text Cons.IH
    by (simp add: accessors_from_append entries_after_append accessors_from_Nil_iff
          algebra_simps)
qed

lemma WriteAccessors_text:
  "WriteAccessors fmt rootNode out =
     out @ json_array ''accessors''
             (map (accessor_json fmt) (accessors_from 0 (scene_geoms rootNode)))"
  unfolding WriteAccessors_def WriteAccessors_loop_text
  by (simp add: json_array_def entries_after_def scene_geoms_def)

lemma buffer_views_from_append:
  "buffer_views_from off (xs @ ys) =
     buffer_views_from off xs @
     buffer_views_from
       (off + sum_list (map (\<lambda>g. length (vertices g) * 4 + length (normals g) * 4 +
                                  length (indices g) * 4) xs)) ys"
  by (induction xs arbitrary: off) (simp_all add: algebra_simps)

lemma buffer_views_from_Nil_iff: "buffer_views_from off gs = [] \<longleftrightarrow> gs = []"
  by (cases gs) simp_all

lemma WriteBufferViews_geoms_text:
  "WriteBufferViews_geoms gs (off, first, out) =
     (off + sum_list (map (\<lambda>g. length (vertices g) * 4 + length (normals g) * 4 +
                                length (indices g) * 4) gs),
      first \<and> gs = [],
      out @ entries_after first (map buffer_view_json (buffer_views_from off gs)))"
proof (induction gs arbitrary: off first out)
  case Nil
  then show ?case by (simp add: entries_after_Nil)
next
  case (Cons g gs)
  have o: "off + length (vertices g) * 4 + length (normals g) * 4 + length (indices g) * 4 +
      sum_list (map (\<lambda>g. length (vertices g) * 4 + length (normals g) * 4 +
                                length (indices g) * 4) gs) =
    off + sum_list (map (\<lambda>g. length (vertices g) * 4 + length (normals g) * 4 +
                                length (indices g) * 4) (g # gs))"
    by simp
  show ?case
    unfolding WriteBufferViews_geoms.simps Let_def Cons.IH buffer_views_from.simps list.map
      append_Cons append_Nil entries_after_3 o
    by (simp add: buffer_view_json_def to_string_34962 to_string_34963 to_string_0)
qed

lemma WriteBufferViews_loop_text:
  "WriteBufferViews_loop ns (off, first, out) =
     (off + sum_list (map (\<lambda>g. length (vertices g) * 4 + length (normals g) * 4 +
                                length (indices g) * 4) (concat (map geometries ns))),
      first \<and> concat (map geometries ns) = [],
      out @ entries_after first
              (map buffer_view_json (buffer_views_from off (concat (map geometries ns)))))"
proof (induction ns arbitrary: off first out)
  case Nil
  then show ?case by (simp add: entries_after_Nil)
next
  case (Cons n ns)
  show ?case
    unfolding WriteBufferViews_loop.simps WriteBufferViews_geoms_text Cons.IH
    by (simp add: buffer_views_from_append entries_after_append buffer_views_from_Nil_iff
          algebra_simps)
qed

lemma WriteBufferViews_text:
  "WriteBufferViews rootNode out =
     out @ json_array ''bufferViews''
             (map buffer_view_json (buffer_views_from 0 (scene_geoms rootNode)))"
  unfolding WriteBufferViews_def WriteBufferViews_loop_text
  by (simp add: json_array_def entries_after_def scene_geoms_def)

lemma length_accessors_from: "length (accessors_from i gs) = 3 * length gs"
  by (induction gs arbitrary: i) simp_all

lemma length_buffer_views_from: "length (buffer_views_from off gs) = 3 * length gs"
  by (induction gs arbitrary: off) simp_all

lemma bufferView_accessors_from:
  "map acc_bufferView (accessors_from i gs) = [i..<i + 3 * length gs]"
proof (induction gs arbitrary: i)
  case Nil
  then show ?case by simp
next
  case (Cons g gs)
  have e: "Suc (Suc (Suc i)) = i + 3" by simp
  have "[i..<i + 3 * length (g # gs)] = i # (i + 1) # (i + 2) # [i + 3..<i + 3 + 3 * length gs]"
    by (simp add: upt_conv_Cons algebra_simps e del: upt_Suc)
  then show ?case
    using Cons.IH [of "i + 3"] by simp
qed

lemma accessor_bytes_match:
  "list_all geom_inv gs \<Longrightarrow>
   map accessor_bytes (accessors_from i gs) = map bv_byteLength (buffer_views_from off gs)"
proof (induction gs arbitrary: i off)
  case Nil
  then show ?case by simp
next
  case (Cons g gs)
  from Cons.prems have gi: "geom_inv g" by simp
  from gi have m: "length (vertices g) mod 3 = 0"
    unfolding geom_inv_def by blast
  from gi have n: "length (normals g) = length (vertices g)"
    unfolding geom_inv_def by simp
  from m have v: "length (vertices g) div 3 * 4 * 3 = length (vertices g) * 4"
    by presburger
  show ?case
    using Cons by (simp add: accessor_bytes_def component_size_def components_def v n)
qed

lemma offsets_from_buffer_views_from: "offsets_from off (buffer_views_from off gs)"
  by (induction gs arbitrary: off) (simp_all add: add.assoc)

lemma offsets_from_nth:
  "offsets_from off bs \<Longrightarrow> k < length bs \<Longrightarrow>
   bv_byteOffset (bs ! k) = off + sum_list (map bv_byteLength (take k bs))"
proof (induction bs arbitrary: off k)
  case Nil
  then show ?case by simp
next
  case (Cons b bs)
  show ?case
  proof (cases k)
    case 0
    with Cons.prems show ?thesis by simp
  next
    case (Suc j)
    with Cons.prems Cons.IH [of "off + bv_byteLength b" j] show ?thesis by simp
  qed
qed

lemma filter_record_ok:
  "list_all record_ok gs \<Longrightarrow> filter (\<lambda>g. vertices g \<noteq> []) gs = gs"
  by (induction gs) (simp_all add: record_ok_def)

lemma accessors_from_kinds:
  "k < length (accessors_from i gs) \<Longrightarrow>
   component_size (acc_componentType (accessors_from i gs ! k)) = 4 \<and>
   components (acc_type (accessors_from i gs ! k)) = (if k mod 3 = 2 then 1 else 3)"
proof (induction gs arbitrary: i k)
  case Nil
  then show ?case by simp
next
  case (Cons g gs)
  consider "k = 0" | "k = 1" | "k = 2" | "3 \<le> k" by linarith
  then show ?case
  proof cases
    case 1
    then show ?thesis by (simp add: component_size_def components_def)
  next
    case 2
    then show ?thesis by (simp add: component_size_def components_def)
  next
    case 3
    then show ?thesis by (simp add: component_size_def components_def)
  next
    case 4
    then obtain j where j: "k = j + 3" by (metis le_add_diff_inverse2)
    have m: "(j + 3) mod 3 = j mod 3" by simp
    have n: "\<And>a b c xs. (a # b # c # xs) ! (j + 3) = xs ! j"
      by (simp add: numeral_3_eq_3)
    from Cons.prems j have "j < length (accessors_from (i + 3) gs)" by simp
    from Cons.IH [OF this] show ?thesis
      by (simp add: j m n)
  qed
qed

section \<open>The example scene, evaluated\<close>

lemma triangle_scene_root:
  "m_rootNode triangle_scene =
     GltfNode ''Scene'' ''Scene''
       [GltfNode ''Wall'' ''IfcWall'' []
          [\<lparr>vertices = [0, 0, 0, 1, 0, 0, 0, 1, 0], normals = [0, 0, 1, 0, 0, 1, 0, 0, 1],
            texCoords = [0, 0, 0, 0, 0, 0], indices = [0, 1, 2], materialId = ''default'',
            minBounds = (0, 0, 0), maxBounds = (1, 1, 0)\<rparr>]
          [1, 0, 0, 0, 0, 1, 0, 0, 0, 0, 1, 0, 0, 0, 0, 1]]
       [] [1, 0, 0, 0, 0, 1, 0, 0, 0, 0, 1, 0, 0, 0, 0, 1]"
  by code_simp

lemma triangle_scene_geoms:
  "scene_geoms (m_rootNode triangle_scene) =
     [\<lparr>vertices = [0, 0, 0, 1, 0, 0, 0, 1, 0], normals = [0, 0, 1, 0, 0, 1, 0, 0, 1],
       texCoords = [0, 0, 0, 0, 0, 0], indices = [0, 1, 2], materialId = ''default'',
       minBounds = (0, 0, 0), maxBounds = (1, 1, 0)\<rparr>]"
  by (simp add: triangle_scene_root scene_geoms_def)

section \<open>Facts about the text of the two arrays\<close>

lemma to_string_digits: "set (to_string n) \<subseteq> set ''0123456789''"
proof (induction n rule: to_string.induct)
  case (1 n)
  have d: "\<And>k. k < 10 \<Longrightarrow> digit_char k \<in> set ''0123456789''"
    unfolding digit_char_def by (rule nth_mem) simp
  show ?case
  proof (cases "n < 10")
    case True
    then show ?thesis
      using d [of n] by (subst to_string.simps) simp
  next
    case False
    have "n mod 10 < 10" by simp
    then show ?thesis
      using 1 False d [of "n mod 10"] by (subst to_string.simps) simp
  qed
qed

lemma to_string_no_brace [simp]: "count_list (to_string n) CHR ''{'' = 0"
  using to_string_digits [of n] by (auto simp add: count_list_0_iff)

lemma count_more_entries:
  "count_list (more_entries es) CHR ''{'' = sum_list (map (\<lambda>e. count_list e CHR ''{'') es)"
  by (induction es) (simp_all add: more_entries_def)

lemma count_json_entries:
  "count_list (json_entries es) CHR ''{'' = sum_list (map (\<lambda>e. count_list e CHR ''{'') es)"
  by (cases es) (simp_all add: json_entries_Cons count_more_entries)

lemma count_json_array:
  "CHR ''{'' \<notin> set key \<Longrightarrow>
   count_list (json_array key es) CHR ''{'' = sum_list (map (\<lambda>e. count_list e CHR ''{'') es)"
  by (simp add: json_array_def count_json_entries count_list_0_iff)

lemma count_buffer_view_json [simp]: "count_list (buffer_view_json b) CHR ''{'' = 1"
  by (simp add: buffer_view_json_def)

lemma sum_list_ones: "(\<And>x. x \<in> set xs \<Longrightarrow> f x = (1::nat)) \<Longrightarrow> sum_list (map f xs) = length xs"
  by (induction xs) simp_all

lemma count_accessor_json:
  assumes "\<And>x. CHR ''{'' \<notin> set (fmt x)" and "a \<in> set (accessors_from i gs)"
  shows "count_list (accessor_json fmt a) CHR ''{'' = 1"
proof -
  have f: "\<And>x. count_list (fmt x) CHR ''{'' = 0"
    using assms(1) by (simp add: count_list_0_iff)
  have "acc_type a = ''VEC3'' \<or> acc_type a = ''SCALAR''"
    using assms(2) by (induction gs arbitrary: i) auto
  then show ?thesis
    by (auto simp add: accessor_json_def f split: option.splits)
qed

lemma to_string_small:
  "to_string 0 = ''0''" "to_string 1 = ''1''" "to_string (Suc 0) = ''1''"
  "to_string (Suc (Suc 0)) = ''2''" "to_string (Suc (Suc (Suc 0))) = ''3''" "to_string 2 = ''2''" "to_string 3 = ''3''"
  "to_string 12 = ''12''" "to_string 36 = ''36''" "to_string 72 = ''72''"
  "to_string 5125 = ''5125''" "to_string 5126 = ''5126''"
  "to_string 34962 = ''34962''" "to_string 34963 = ''34963''"
  by (simp_all add: to_string.simps digit_char_def)

lemma fmt_int_no_brace: "CHR ''{'' \<notin> set (fmt_int x)"
  using to_string_digits [of "nat \<lfloor>\<bar>x\<bar>\<rfloor>"] by (auto simp add: fmt_int_def)

lemma triangle_accessors_text:
  "json_array ''accessors''
     (map (accessor_json fmt_int) (accessors_from 0 (scene_geoms (m_rootNode triangle_scene)))) =
     ''  \"accessors\": [\<newline>'' @
     ''    {\<newline>'' @
     ''      \"bufferView\": 0,\<newline>'' @
     ''      \"componentType\": 5126,\<newline>'' @
     ''      \"count\": 3,\<newline>'' @
     ''      \"type\": \"VEC3\",\<newline>'' @
     ''      \"min\": [0, 0, 0],\<newline>'' @
     ''      \"max\": [1, 1, 0]\<newline>'' @
     ''    },\<newline>'' @
     ''    {\<newline>'' @
     ''      \"bufferView\": 1,\<newline>'' @
     ''      \"componentType\": 5126,\<newline>'' @
     ''      \"count\": 3,\<newline>'' @
     ''      \"type\": \"VEC3\"\<newline>'' @
     ''    },\<newline>'' @
     ''    {\<newline>'' @
     ''      \"bufferView\": 2,\<newline>'' @
     ''      \"componentType\": 5125,\<newline>'' @
     ''      \"count\": 3,\<newline>'' @
     ''      \"type\": \"SCALAR\"\<newline>'' @
     ''    }\<newline>'' @
     ''  ],\<newline>''"
  by (simp add: triangle_scene_geoms json_array_def accessor_json_def to_string_small fmt_int_def)

lemma triangle_buffer_views_text:
  "json_array ''bufferViews''
     (map buffer_view_json (buffer_views_from 0 (scene_geoms (m_rootNode triangle_scene)))) =
     ''  \"bufferViews\": [\<newline>'' @
     ''    {\<newline>'' @
     ''      \"buffer\": 0,\<newline>'' @
     ''      \"byteOffset\": 0,\<newline>'' @
     ''      \"byteLength\": 36,\<newline>'' @
     ''      \"target\": 34962\<newline>'' @
     ''    },\<newline>'' @
     ''    {\<newline>'' @
     ''      \"buffer\": 0,\<newline>'' @
     ''      \"byteOffset\": 36,\<newline>'' @
     ''      \"byteLength\": 36,\<newline>'' @
     ''      \"target\": 34962\<newline>'' @
     ''    },\<newline>'' @
     ''    {\<newline>'' @
     ''      \"buffer\": 0,\<newline>'' @
     ''      \"byteOffset\": 72,\<newline>'' @
     ''      \"byteLength\": 12,\<newline>'' @
     ''      \"target\": 34963\<newline>'' @
     ''    }\<newline>'' @
     ''  ],\<newline>''"
  by (simp add: triangle_scene_geoms json_array_def buffer_view_json_def to_string_small)

section \<open>Facts about file names\<close>



lemma last_take_Suc: "i < length s \<Longrightarrow> last (take (i + 1) s) = s ! i"
  by (simp add: take_Suc_conv_app_nth)



lemma take_drop_name:
  "i < length p \<Longrightarrow> take (i + 1) p @ drop (i + 1) (p @ s) = p @ s"
  by simp











section \<open>Facts about the text the writers produce\<close>

lemma occurs_in_append_right: "occurs_in t s \<Longrightarrow> occurs_in t (s @ r)"
  unfolding occurs_in_def by (metis append.assoc)

lemma occurs_in_append_left: "occurs_in t s \<Longrightarrow> occurs_in t (r @ s)"
  unfolding occurs_in_def by (metis append.assoc)

lemma occurs_in_self: "occurs_in t (a @ t @ b)"
  unfolding occurs_in_def by blast

lemma scene_nodes_loop_prefix: "\<exists>s. scene_nodes_loop i n out = out @ s"
proof (induction i n out rule: scene_nodes_loop.induct)
  case (1 i n out)
  show ?case
  proof (cases "i < n")
    case True
    with 1 obtain s where
      "scene_nodes_loop (Suc i) n (out @ (if i > 0 then '', '' else []) @ to_string i) =
         (out @ (if i > 0 then '', '' else []) @ to_string i) @ s"
      by blast
    with True show ?thesis
      by (simp add: scene_nodes_loop.simps [of i n out])
  next
    case False
    then show ?thesis by (simp add: scene_nodes_loop.simps [of i n out])
  qed
qed

lemma WriteNodes_loop_prefix: "\<exists>s. WriteNodes_loop ns i out = out @ s"
proof (induction ns arbitrary: i out)
  case Nil
  then show ?case by simp
next
  case (Cons n ns)
  obtain s where "WriteNodes_loop ns (Suc i)
       (out @ (if i > 0 then '',\<newline>'' else []) @
        ''    {\<newline>'' @
        ''      \"name\": \"'' @ name n @ ''\"'' @
        (if geometries n \<noteq> [] then '',\<newline>      \"mesh\": '' @ to_string i else []) @
        ''\<newline>    }'') =
       (out @ (if i > 0 then '',\<newline>'' else []) @
        ''    {\<newline>'' @
        ''      \"name\": \"'' @ name n @ ''\"'' @
        (if geometries n \<noteq> [] then '',\<newline>      \"mesh\": '' @ to_string i else []) @
        ''\<newline>    }'') @ s"
    using Cons.IH by blast
  then show ?case by simp
qed

lemma WriteNodes_loop_name:
  "n \<in> set ns \<Longrightarrow>
   occurs_in (''      \"name\": \"'' @ name n @ ''\"'') (WriteNodes_loop ns i out)"
proof (induction ns arbitrary: i out)
  case Nil
  then show ?case by simp
next
  case (Cons m ns)
  show ?case
  proof (cases "n = m")
    case True
    let ?o = "out @ (if i > 0 then '',\<newline>'' else []) @
        ''    {\<newline>'' @
        ''      \"name\": \"'' @ name m @ ''\"'' @
        (if geometries m \<noteq> [] then '',\<newline>      \"mesh\": '' @ to_string i else []) @
        ''\<newline>    }''"
    obtain s where s: "WriteNodes_loop ns (Suc i) ?o = ?o @ s"
      using WriteNodes_loop_prefix by blast
    have "occurs_in (''      \"name\": \"'' @ name m @ ''\"'') ?o"
      unfolding occurs_in_def
      by (rule exI [of _ "out @ (if i > 0 then '',\<newline>'' else []) @ ''    {\<newline>''"],
          rule exI [of _ "(if geometries m \<noteq> [] then '',\<newline>      \"mesh\": '' @ to_string i
                           else []) @ ''\<newline>    }''"]) simp
    then have "occurs_in (''      \"name\": \"'' @ name m @ ''\"'') (?o @ s)"
      by (rule occurs_in_append_right)
    then show ?thesis
      using True s by simp
  next
    case False
    with Cons.prems have "n \<in> set ns" by simp
    from Cons.IH [OF this] show ?thesis by simp
  qed
qed


lemma ex_prefix_trans: "\<exists>s. x = (out @ t) @ s \<Longrightarrow> \<exists>s. x = out @ s"
  by (metis append.assoc)

lemma ex_prefix_trans2: "\<exists>s. x = o2 @ s \<Longrightarrow> \<exists>s. o2 = out @ s \<Longrightarrow> \<exists>s. x = out @ s"
  by (metis append.assoc)

lemma ex_prefix_mid: "\<exists>s. o2 = (out @ t1) @ s \<Longrightarrow> \<exists>s. o2 @ t2 = out @ s"
  by (metis append.assoc)

lemma WriteMeshes_primitives_prefix:
  "\<exists>s. snd (WriteMeshes_primitives gs i (a, out)) = out @ s"
proof (induction gs arbitrary: i a out)
  case Nil
  then show ?case by simp
next
  case (Cons g gs)
  show ?case
    unfolding WriteMeshes_primitives.simps
    by (rule ex_prefix_trans [OF Cons.IH])
qed

lemma WriteMeshes_loop_step:
  "geometries n \<noteq> [] \<Longrightarrow>
   WriteMeshes_loop (n # ns) (first, a, out) =
     WriteMeshes_loop ns
       (False,
        fst (WriteMeshes_primitives (geometries n) 0
              (a, out @ (if \<not> first then '',\<newline>'' else []) @
               ''    {\<newline>'' @
               ''      \"name\": \"'' @ name n @ ''_Mesh\",\<newline>'' @
               ''      \"primitives\": [\<newline>'')),
        snd (WriteMeshes_primitives (geometries n) 0
              (a, out @ (if \<not> first then '',\<newline>'' else []) @
               ''    {\<newline>'' @
               ''      \"name\": \"'' @ name n @ ''_Mesh\",\<newline>'' @
               ''      \"primitives\": [\<newline>'')) @
        ''\<newline>      ]\<newline>'' @ ''    }'')"
  by (simp add: Let_def case_prod_beta)

lemma WriteMeshes_loop_skip:
  "geometries n = [] \<Longrightarrow>
   WriteMeshes_loop (n # ns) (first, a, out) = WriteMeshes_loop ns (first, a, out)"
  by simp

lemma WriteMeshes_loop_prefix:
  "\<exists>s. snd (snd (WriteMeshes_loop ns (first, a, out))) = out @ s"
proof (induction ns arbitrary: first a out)
  case Nil
  then show ?case by simp
next
  case (Cons n ns)
  show ?case
  proof (cases "geometries n = []")
    case True
    show ?thesis
      unfolding WriteMeshes_loop_skip [OF True] by (rule Cons.IH)
  next
    case False
    show ?thesis
      unfolding WriteMeshes_loop_step [OF False]
      by (rule ex_prefix_trans2 [OF Cons.IH],
          rule ex_prefix_mid [OF WriteMeshes_primitives_prefix])
  qed
qed


lemma occurs_mid: "occurs_in (x @ y @ z) (a @ b @ c @ x @ y @ z @ d)"
  unfolding occurs_in_def
  by (rule exI [of _ "a @ b @ c"], rule exI [of _ d]) simp

lemma occurs_through:
  "occurs_in t p \<Longrightarrow> \<exists>s. o2 = p @ s \<Longrightarrow> \<exists>s. x = (o2 @ t2) @ s \<Longrightarrow> occurs_in t x"
  by (metis occurs_in_append_right)

lemma occurs_prefix: "occurs_in t p \<Longrightarrow> \<exists>s. x = p @ s \<Longrightarrow> occurs_in t x"
  by (metis occurs_in_append_right)

lemma WriteMeshes_loop_name:
  "n \<in> set ns \<Longrightarrow> geometries n \<noteq> [] \<Longrightarrow>
   occurs_in (''      \"name\": \"'' @ name n @ ''_Mesh\",\<newline>'')
     (snd (snd (WriteMeshes_loop ns (first, a, out))))"
proof (induction ns arbitrary: first a out)
  case Nil
  then show ?case by simp
next
  case (Cons m ns)
  show ?case
  proof (cases "n = m")
    case True
    have g: "geometries m \<noteq> []" using Cons.prems(2) True by simp
    show ?thesis
      unfolding True WriteMeshes_loop_step [OF g]
      by (rule occurs_through [OF occurs_mid WriteMeshes_primitives_prefix
            WriteMeshes_loop_prefix])
  next
    case False
    with Cons.prems have in_ns: "n \<in> set ns" by simp
    show ?thesis
    proof (cases "geometries m = []")
      case True
      show ?thesis
        unfolding WriteMeshes_loop_skip [OF True] by (rule Cons.IH [OF in_ns Cons.prems(2)])
    next
      case G: False
      show ?thesis
        unfolding WriteMeshes_loop_step [OF G] by (rule Cons.IH [OF in_ns Cons.prems(2)])
    qed
  qed
qed

lemma occurs_in_keep: "occurs_in t x \<Longrightarrow> \<exists>s. y = x @ s \<Longrightarrow> occurs_in t y"
  by (metis occurs_in_append_right)

lemma WriteNodes_prefix: "\<exists>s. WriteNodes rootNode out = out @ s"
  unfolding WriteNodes_def by (rule ex_prefix_mid [OF WriteNodes_loop_prefix])

lemma WriteNodes_name:
  "n \<in> set (children rootNode) \<Longrightarrow>
   occurs_in (''      \"name\": \"'' @ name n @ ''\"'') (WriteNodes rootNode out)"
  unfolding WriteNodes_def by (rule occurs_in_append_right [OF WriteNodes_loop_name])

lemma WriteMeshes_prefix: "\<exists>s. WriteMeshes rootNode out = out @ s"
  unfolding WriteMeshes_def by (rule ex_prefix_mid [OF WriteMeshes_loop_prefix])

lemma WriteMeshes_name:
  "n \<in> set (children rootNode) \<Longrightarrow> geometries n \<noteq> [] \<Longrightarrow>
   occurs_in (''      \"name\": \"'' @ name n @ ''_Mesh\",\<newline>'') (WriteMeshes rootNode out)"
  unfolding WriteMeshes_def by (rule occurs_in_append_right [OF WriteMeshes_loop_name])

lemma WriteAccessors_prefix: "\<exists>s. WriteAccessors fmt rootNode out = out @ s"
  unfolding WriteAccessors_text by (rule exI) (rule refl)

lemma WriteBufferViews_prefix: "\<exists>s. WriteBufferViews rootNode out = out @ s"
  unfolding WriteBufferViews_text by (rule exI) (rule refl)

lemma WriteBuffers_prefix: "\<exists>s. WriteBuffers st out = out @ s"
  unfolding WriteBuffers_def by blast

lemma WriteMaterials_prefix: "\<exists>s. WriteMaterials out = out @ s"
  unfolding WriteMaterials_def by blast

lemma occurs_mid4: "occurs_in (x @ y @ z) (a @ b @ c @ e @ x @ y @ z @ d)"
  unfolding occurs_in_def
  by (rule exI [of _ "a @ b @ c @ e"], rule exI [of _ d]) simp

lemma scene_head_name:
  "occurs_in (''      \"name\": \"'' @ name rootNode @ ''\",\<newline>'') (scene_head rootNode out)"
  unfolding scene_head_def
  by (rule occurs_in_append_right [OF occurs_prefix [OF occurs_mid4 scene_nodes_loop_prefix]])

lemma scene_head_prefix: "\<exists>s. scene_head rootNode out = out @ s"
  unfolding scene_head_def by (rule ex_prefix_mid [OF scene_nodes_loop_prefix])

lemma WriteGltfJson_tail:
  "occurs_in t x \<Longrightarrow>
   occurs_in t (WriteMaterials (WriteBuffers st (WriteBufferViews r
      (WriteAccessors fmt r x))) @ e)"
  by (intro occurs_in_append_right occurs_in_keep [OF _ WriteMaterials_prefix]
        occurs_in_keep [OF _ WriteBuffers_prefix] occurs_in_keep [OF _ WriteBufferViews_prefix]
        occurs_in_keep [OF _ WriteAccessors_prefix])

lemma WriteGltfJson_unfold:
  "WriteGltfJson fmt st out =
     WriteMaterials (WriteBuffers st (WriteBufferViews (m_rootNode st)
       (WriteAccessors fmt (m_rootNode st)
          (WriteMeshes (m_rootNode st) (WriteNodes (m_rootNode st)
             (scene_head (m_rootNode st)
                (out @ ''{\<newline>'' @
                 ''  \"asset\": {\<newline>'' @
                 ''    \"version\": \"2.0\",\<newline>'' @
                 ''    \"generator\": \"Simple IFC2GLTF Converter v1.0 (Fixed)\"\<newline>'' @
                 ''  },\<newline>''))))))) @ ''}\<newline>''"
  unfolding WriteGltfJson_def Let_def by (rule refl)

lemma WriteGltfJsonForGlb_unfold:
  "WriteGltfJsonForGlb fmt st out =
     WriteMaterials (WriteBuffersForGlb st (WriteBufferViews (m_rootNode st)
       (WriteAccessors fmt (m_rootNode st)
          (WriteMeshes (m_rootNode st) (WriteNodes (m_rootNode st)
             (scene_head (m_rootNode st)
                (out @ ''{\<newline>'' @
                 ''  \"asset\": {\<newline>'' @
                 ''    \"version\": \"2.0\",\<newline>'' @
                 ''    \"generator\": \"Simple IFC2GLTF Converter v1.0 (GLB)\"\<newline>'' @
                 ''  },\<newline>''))))))) @ ''}''"
  unfolding WriteGltfJsonForGlb_def Let_def WriteNodesForGlb_def WriteMeshesForGlb_def
    WriteAccessorsForGlb_def WriteBufferViewsForGlb_def WriteMaterialsForGlb_def
  by (rule refl)

lemma WriteBuffersForGlb_prefix: "\<exists>s. WriteBuffersForGlb st out = out @ s"
  unfolding WriteBuffersForGlb_def by blast

lemma WriteGltfJsonForGlb_tail:
  "occurs_in t x \<Longrightarrow>
   occurs_in t (WriteMaterials (WriteBuffersForGlb st (WriteBufferViews r
      (WriteAccessors fmt r x))) @ e)"
  by (intro occurs_in_append_right occurs_in_keep [OF _ WriteMaterials_prefix]
        occurs_in_keep [OF _ WriteBuffersForGlb_prefix]
        occurs_in_keep [OF _ WriteBufferViews_prefix]
        occurs_in_keep [OF _ WriteAccessors_prefix])

section \<open>Facts about the result of a conversion\<close>

lemma extract_entity_args: "m_args (extract_entity cf mul lit entry st) = m_args st"
proof (cases entry)
  case None
  then show ?thesis by (simp add: extract_entity_def)
next
  case (Some shapeData)
  show ?thesis
  proof (cases "m_ifc_object_definition shapeData")
    case None
    then show ?thesis using Some by (simp add: extract_entity_def)
  next
    case (Some ifcObject)
    let ?node = "GltfNode (GetEntityName (Some ifcObject)) (GetEntityType (Some ifcObject))
                   [] [] (transform GltfNode_init)"
    have "m_args (fst (ExtractShapeData cf mul lit shapeData (st, ?node))) = m_args st"
      using ExtractShapeData_frame [of cf mul lit shapeData "(st, ?node)"] by simp
    then show ?thesis
      using \<open>entry = Some shapeData\<close> Some
      by (simp add: extract_entity_def Let_def case_prod_beta)
  qed
qed

lemma ExtractGeometryData_args: "m_args (ExtractGeometryData cf mul lit entries st) = m_args st"
  unfolding ExtractGeometryData_def
  by (rule fold_preserves [where P = "\<lambda>s. m_args s = m_args st"])
     (simp_all add: extract_entity_args)

lemma Log_frame [simp]:
  "cerr (LogInfo st m w) = cerr w" "files (LogInfo st m w) = files w"
  "cerr (LogWarning st m w) = cerr w" "files (LogWarning st m w) = files w"
  "cerr (LogError m w) = cerr w @ [''[ERROR] '' @ m]" "files (LogError m w) = files w"
  "cout (LogError m w) = cout w"
  "cerr (write_file fs p c w) = cerr w" "cout (write_file fs p c w) = cout w"
  by (simp_all add: LogInfo_def LogWarning_def LogError_def write_file_def)

lemma WriteBinaryData_cerr [simp]: "cerr (WriteBinaryData fb fs st w) = cerr w"
  by (simp add: WriteBinaryData_def Let_def)

lemma WriteOutputFile_result:
  "fst (WriteOutputFile fmt fb fs st w) = can_open fs (outputFile (m_args st)) \<and>
   cerr (snd (WriteOutputFile fmt fb fs st w)) =
     cerr w @ (if can_open fs (outputFile (m_args st)) then []
               else [''[ERROR] Cannot open output file: '' @ outputFile (m_args st)]) \<and>
   (\<not> can_open fs (outputFile (m_args st)) \<longrightarrow>
      files (snd (WriteOutputFile fmt fb fs st w)) = files w)"
  by (simp add: WriteOutputFile_def WriteGltfFile_def WriteGlbFile_def Let_def)

lemma Convert_result:
  "fst (Convert cf mul lit fmt fb fs loaded converted entries st w) =
     (loaded \<and> converted \<and> can_open fs (outputFile (m_args st)))"
proof -
  let ?st1 = "ExtractGeometryData cf mul lit entries st"
  let ?w1 = "LogInfo st (''Starting IFC to '' @
                 (if outputGlb (m_args st) then ''GLB'' else ''glTF'') @ '' conversion...'') w"
  have "fst (WriteOutputFile fmt fb fs ?st1 ?w1) = can_open fs (outputFile (m_args st))"
    using WriteOutputFile_result [of fmt fb fs ?st1 ?w1] by (simp add: ExtractGeometryData_args)
  then show ?thesis
    by (simp add: Convert_def Let_def case_prod_beta)
qed

lemma Convert_cerr:
  assumes "loaded" and "converted" and "\<not> can_open fs (outputFile (m_args st))"
  shows "cerr (snd (Convert cf mul lit fmt fb fs loaded converted entries st w)) =
           cerr w @ [''[ERROR] Cannot open output file: '' @ outputFile (m_args st),
                     ''[ERROR] Failed to write output file: '' @ outputFile (m_args st)] \<and>
         files (snd (Convert cf mul lit fmt fb fs loaded converted entries st w)) = files w"
proof -
  let ?st1 = "ExtractGeometryData cf mul lit entries st"
  let ?w1 = "LogInfo st (''Starting IFC to '' @
                 (if outputGlb (m_args st) then ''GLB'' else ''glTF'') @ '' conversion...'') w"
  have a: "m_args ?st1 = m_args st" by (rule ExtractGeometryData_args)
  note r = WriteOutputFile_result [of fmt fb fs ?st1 ?w1, unfolded a]
  show ?thesis
    using assms r by (simp add: Convert_def Let_def case_prod_beta a)
qed


lemma Convert_sidecar_unopened:
  assumes "loaded" and "converted" and "\<not> outputGlb (m_args st)"
    and "can_open fs (outputFile (m_args st))"
    and "\<not> can_open fs (WriteBinaryData_binFile (outputFile (m_args st)))"
  shows "cerr (snd (Convert cf mul lit fmt fb fs loaded converted entries st w)) = cerr w \<and>
         map fst (files (snd (Convert cf mul lit fmt fb fs loaded converted entries st w))) =
           map fst (files w) @ [outputFile (m_args st)]"
proof -
  let ?st1 = "ExtractGeometryData cf mul lit entries st"
  have a: "m_args ?st1 = m_args st" by (rule ExtractGeometryData_args)
  show ?thesis
    using assms
    by (simp add: Convert_def WriteOutputFile_def WriteGltfFile_def WriteBinaryData_def
          Let_def case_prod_beta a write_file_def)
qed

lemma fst_main_exit: "fst (main_exit r) = (if fst r then 0 else 1)"
  by (simp add: main_exit_def)

section \<open>Facts about the scale in single precision\<close>

lemma keeps_min_max_Fin: "0 < q \<Longrightarrow> keeps_min_max (Fin q)"
  by (simp add: keeps_min_max_def std_min_mul std_max_mul)

lemma finite_positive: "(0::binary32) < s \<Longrightarrow> s < PInf \<Longrightarrow> \<exists>q. s = Fin q \<and> 0 < q"
  by (cases s) (simp_all add: less_binary32_def zero_binary32_def)

lemma scene_geoms_scale_node:
  "scene_geoms (scale_node s rootNode) = map (scale_record s) (scene_geoms rootNode)"
  by (cases rootNode) (simp add: scene_geoms_def map_concat comp_def)

lemma fold_append_concat:
  "fold (\<lambda>x b. b @ f x) xs b0 = b0 @ concat (map f xs)"
  by (induction xs arbitrary: b0) simp_all

lemma concat_map_concat:
  "concat (map f (concat xss)) = concat (map (\<lambda>xs. concat (map f xs)) xss)"
  by (induction xss) simp_all

lemma CollectBinaryData_concat:
  "CollectBinaryData float_bytes st binaryData =
     binaryData @ concat (map (geom_bytes float_bytes) (scene_geoms (m_rootNode st)))"
proof -
  have inner: "\<And>node b. fold (\<lambda>geom b1. b1 @ geom_bytes float_bytes geom) (geometries node) b =
      b @ concat (map (geom_bytes float_bytes) (geometries node))"
    by (rule fold_append_concat)
  have outer: "fold (\<lambda>node b. b @ concat (map (geom_bytes float_bytes) (geometries node)))
          (children (m_rootNode st)) binaryData =
        binaryData @ concat (map (\<lambda>node. concat (map (geom_bytes float_bytes) (geometries node)))
          (children (m_rootNode st)))"
    by (rule fold_append_concat)
  show ?thesis
    unfolding CollectBinaryData_def inner outer scene_geoms_def concat_map_concat map_map comp_def
    by (rule refl)
qed

lemma tenth_scene_geoms:
  "scene_geoms (m_rootNode (ExtractGeometryData round32 shift_x round32 [Some tenth_shape]
      (SimpleIFC2GLTF (float_args\<lparr>scale := 1\<rparr>)))) =
     [\<lparr>vertices = [Fin 0, Fin 0, Fin 0, Fin (13421773 / 134217728), Fin 0, Fin 0,
                   Fin 0, Fin (13421773 / 134217728), Fin 0],
       normals = [Fin 0, Fin 0, Fin 1, Fin 0, Fin 0, Fin 1, Fin 0, Fin 0, Fin 1],
       texCoords = [Fin 0, Fin 0, Fin 0, Fin 0, Fin 0, Fin 0], indices = [0, 1, 2],
       materialId = ''default'',
       minBounds = (Fin 0, Fin 0, Fin 0),
       maxBounds = (Fin (13421773 / 134217728), Fin (13421773 / 134217728), Fin 0)\<rparr>]"
  by code_simp

lemma three_tenths:
  "scale_record (Fin 3)
     \<lparr>vertices = [Fin 0, Fin 0, Fin 0, Fin (13421773 / 134217728), Fin 0, Fin 0,
                   Fin 0, Fin (13421773 / 134217728), Fin 0],
       normals = [Fin 0, Fin 0, Fin 1, Fin 0, Fin 0, Fin 1, Fin 0, Fin 0, Fin 1],
       texCoords = [Fin 0, Fin 0, Fin 0, Fin 0, Fin 0, Fin 0], indices = [0, 1, 2],
       materialId = ''default'',
       minBounds = (Fin 0, Fin 0, Fin 0),
       maxBounds = (Fin (13421773 / 134217728), Fin (13421773 / 134217728), Fin 0)\<rparr> =
     \<lparr>vertices = [Fin 0, Fin 0, Fin 0, Fin (5033165 / 16777216), Fin 0, Fin 0,
                   Fin 0, Fin (5033165 / 16777216), Fin 0],
       normals = [Fin 0, Fin 0, Fin 1, Fin 0, Fin 0, Fin 1, Fin 0, Fin 0, Fin 1],
       texCoords = [Fin 0, Fin 0, Fin 0, Fin 0, Fin 0, Fin 0], indices = [0, 1, 2],
       materialId = ''default'',
       minBounds = (Fin 0, Fin 0, Fin 0),
       maxBounds = (Fin (5033165 / 16777216), Fin (5033165 / 16777216), Fin 0)\<rparr>"
  by code_simp

lemma float_triangle_scene_geoms:
  "scene_geoms (m_rootNode (ExtractGeometryData round32 shift_x round32 [Some triangle_shape]
      (SimpleIFC2GLTF (float_args\<lparr>scale := 1\<rparr>)))) =
     [\<lparr>vertices = [Fin 0, Fin 0, Fin 0, Fin 1, Fin 0, Fin 0, Fin 0, Fin 1, Fin 0],
       normals = [Fin 0, Fin 0, Fin 1, Fin 0, Fin 0, Fin 1, Fin 0, Fin 0, Fin 1],
       texCoords = [Fin 0, Fin 0, Fin 0, Fin 0, Fin 0, Fin 0], indices = [0, 1, 2],
       materialId = ''default'',
       minBounds = (Fin 0, Fin 0, Fin 0), maxBounds = (Fin 1, Fin 1, Fin 0)\<rparr>]"
  by code_simp

lemma one_thousandth:
  "round32 (1 / 1000) = Fin (8589935 / 8589934592)"
  "map maxBounds (map (scale_record (Fin (8589935 / 8589934592)))
     [\<lparr>vertices = [Fin 0, Fin 0, Fin 0, Fin 1, Fin 0, Fin 0, Fin 0, Fin 1, Fin 0],
       normals = [Fin 0, Fin 0, Fin 1, Fin 0, Fin 0, Fin 1, Fin 0, Fin 0, Fin 1],
       texCoords = [Fin 0, Fin 0, Fin 0, Fin 0, Fin 0, Fin 0], indices = [0, 1, 2],
       materialId = ''default'',
       minBounds = (Fin 0, Fin 0, Fin 0), maxBounds = (Fin 1, Fin 1, Fin 0)\<rparr>]) =
   [(Fin (8589935 / 8589934592), Fin (8589935 / 8589934592), Fin 0)]"
  by code_simp+
section \<open>The GLB container is framed as the format asks\<close>

text \<open>
  Claim C1, for a file below 4 GiB. When the length
  \<open>12 + 8 + alignedJsonLength + (0 or 8 + alignedBinaryLength)\<close> fits 32 bits, the
  output is the 12-byte header (magic, version 2, that length), the JSON chunk (its
  aligned length, the type, the text, spaces up to the aligned length) and, only for a
  non-empty blob, the binary chunk (its aligned length, the type, the blob, zero bytes
  up to the aligned length); the file has exactly the length the header gives, and both
  chunk lengths are multiples of 4.
\<close>

theorem glb_layout:
  assumes "spec_totalLength jsonString binaryData < 2 ^ 32"
  shows "glb_bytes jsonString binaryData =
           write_u32 0x46546C67 @ write_u32 2 @
           write_u32 (of_nat (spec_totalLength jsonString binaryData)) @
           write_u32 (of_nat (round_up4 (length jsonString))) @ write_u32 0x4E4F534A @
           map of_char jsonString @
           replicate (round_up4 (length jsonString) - length jsonString) 0x20 @
           (if binaryData = [] then []
            else write_u32 (of_nat (round_up4 (length binaryData))) @ write_u32 0x004E4942 @
                 binaryData @
                 replicate (round_up4 (length binaryData) - length binaryData) 0)
         \<and> length (glb_bytes jsonString binaryData) = spec_totalLength jsonString binaryData
         \<and> round_up4 (length jsonString) mod 4 = 0
         \<and> round_up4 (length binaryData) mod 4 = 0"
proof -
  have j: "length jsonString + 3 < 2 ^ 32"
    using assms round_up4_ge [of "length jsonString"]
    by (simp add: spec_totalLength_def split: if_splits)
  have b: "length binaryData + 3 < 2 ^ 32"
  proof (cases "binaryData = []")
    case True
    then show ?thesis by simp
  next
    case False
    then show ?thesis
      using assms round_up4_ge [of "length binaryData"]
      by (simp add: spec_totalLength_def)
  qed
  have aj: "align4 (length jsonString) = of_nat (round_up4 (length jsonString))"
    by (rule align4_small_word [OF j])
  have ab: "align4 (length binaryData) = of_nat (round_up4 (length binaryData))"
    by (rule align4_small_word [OF b])
  have uj: "unat (align4 (length jsonString)) = round_up4 (length jsonString)"
    by (rule align4_small [OF j])
  have ub: "unat (align4 (length binaryData)) = round_up4 (length binaryData)"
    by (rule align4_small [OF b])
  have tot: "glb_totalLength jsonString binaryData =
      of_nat (spec_totalLength jsonString binaryData)"
    by (simp add: glb_totalLength_def spec_totalLength_def aj ab)
  have bytes: "glb_bytes jsonString binaryData =
           write_u32 0x46546C67 @ write_u32 2 @
           write_u32 (of_nat (spec_totalLength jsonString binaryData)) @
           write_u32 (of_nat (round_up4 (length jsonString))) @ write_u32 0x4E4F534A @
           map of_char jsonString @
           replicate (round_up4 (length jsonString) - length jsonString) 0x20 @
           (if binaryData = [] then []
            else write_u32 (of_nat (round_up4 (length binaryData))) @ write_u32 0x004E4942 @
                 binaryData @
                 replicate (round_up4 (length binaryData) - length binaryData) 0)"
    unfolding glb_bytes_def WriteGlbHeader_def WriteGlbJsonChunk_def WriteGlbBinaryChunk_def
      Let_def tot uj ub put_padding_replicate
    by (simp add: aj ab)
  have len: "length (glb_bytes jsonString binaryData) = spec_totalLength jsonString binaryData"
    unfolding bytes
    using round_up4_ge [of "length jsonString"] round_up4_ge [of "length binaryData"]
    by (simp add: length_write_u32 spec_totalLength_def)
  show ?thesis
    using bytes len by (simp add: round_up4_mod4)
qed

text \<open>
  The theorem at a five-character JSON text and a five-byte blob: 44 bytes, three
  spaces after the text, three zero bytes after the blob.
\<close>

theorem glb_layout_witness:
  "spec_totalLength ''{\"a\"}'' [1, 2, 3, 4, 5] < 2 ^ 32 \<and>
   glb_bytes ''{\"a\"}'' [1, 2, 3, 4, 5] =
     [0x67, 0x6C, 0x54, 0x46,  2, 0, 0, 0,  44, 0, 0, 0,
      8, 0, 0, 0,  0x4A, 0x53, 0x4F, 0x4E,  0x7B, 0x22, 0x61, 0x22, 0x7D, 0x20, 0x20, 0x20,
      8, 0, 0, 0,  0x42, 0x49, 0x4E, 0,  1, 2, 3, 4, 5, 0, 0, 0]"
proof -
  have h: "spec_totalLength ''{\"a\"}'' [1, 2, 3, 4, 5] < 2 ^ 32"
    by (simp add: spec_totalLength_def round_up4_def)
  have r: "\<And>x::byte. replicate 3 x = [x, x, x]"
    by (simp add: numeral_3_eq_3)
  show ?thesis
    using h
    by (simp add: glb_layout [OF h] spec_totalLength_def round_up4_def write_u32_def r)
qed

text \<open>
  The claim as worded, for every scene, fails on a blob of 4 GiB: the 64-bit aligned
  length loses its high bits in the cast to \<^verbatim>\<open>uint32_t\<close>, so the binary chunk length
  written is 0 and the total length written is 32, where the aligned length is
  4294967296 and the worded total 4294967328.
\<close>

theorem glb_layout_counterexample:
  "unat (glb_totalLength ''{}'' (replicate 4294967296 0)) = 32 \<and>
   spec_totalLength ''{}'' (replicate 4294967296 0) = 4294967328 \<and>
   unat (align4 (length (replicate 4294967296 (0::byte)))) = 0 \<and>
   round_up4 (length (replicate 4294967296 (0::byte))) = 4294967296"
  by (simp add: glb_totalLength_def spec_totalLength_def align4_def round_up4_def)

section \<open>Every extracted record keeps the invariant\<close>

text \<open>
  Claim C4. A fresh record has the invariant of a geometry record (whole index triples,
  every index below the number of vertices, as many normal as vertex coordinates); each
  triangle append keeps it, and so do a whole mesh set, scaling and the bounds
  computation; and every record of the scene that extraction builds has it. The indices
  are 32-bit: an index that wraps is still below the number of vertices.
\<close>

theorem geometry_record_invariant:
  fixes g :: "('f::{zero,one,times,ord}) GeometryData"
  shows "geom_inv (GeometryData_init\<lparr>materialId := mid\<rparr> :: 'f GeometryData) \<and>
   (geom_inv g \<longrightarrow> geom_inv (add_triangle cf p0 p1 p2 normal g)) \<and>
   (geom_inv g \<longrightarrow> geom_inv (ExtractMeshSet cf mul meshset lt g)) \<and>
   (geom_inv g \<longrightarrow> geom_inv (ApplyScale g s) \<and> geom_inv (CalculateBounds g)) \<and>
   list_all geom_inv
     (scene_geoms (m_rootNode (ExtractGeometryData cf mul lit entries (SimpleIFC2GLTF args))))"
proof -
  have "list_all record_ok
     (scene_geoms (m_rootNode (ExtractGeometryData cf mul lit entries (SimpleIFC2GLTF args))))"
    by (rule ExtractGeometryData_ok) simp
  then have "list_all geom_inv
     (scene_geoms (m_rootNode (ExtractGeometryData cf mul lit entries (SimpleIFC2GLTF args))))"
    by (simp add: list_all_iff record_ok_def)
  then show ?thesis
    by (simp add: geom_inv_init geom_inv_add_triangle geom_inv_ExtractMeshSet
          geom_inv_ApplyScale geom_inv_CalculateBounds)
qed


text \<open>The theorem at a triangle, at a quadrilateral face scaled by 2, and at a scene.\<close>

theorem geometry_record_invariant_witness:
  "geom_inv (GeometryData_init :: rat GeometryData) \<and>
   geom_inv (add_triangle (\<lambda>x. x) (0, 0, 0) (1, 0, 0) (0, 1, 0) (0, 0, 1)
               (GeometryData_init :: rat GeometryData)) \<and>
   indices (add_triangle (\<lambda>x. x) (0, 0, 0) (1, 0, 0) (0, 1, 0) (0, 0, 1)
               (GeometryData_init :: rat GeometryData)) = [0, 1, 2] \<and>
   geom_inv (ExtractMeshSet (\<lambda>x. x) shift_x (Some [Some [Some quad_face]]) 10
               (GeometryData_init :: rat GeometryData)) \<and>
   geom_inv (CalculateBounds (ApplyScale
        (ExtractMeshSet (\<lambda>x. x) shift_x (Some [Some [Some quad_face]]) 10
               (GeometryData_init :: rat GeometryData)) 2)) \<and>
   list_all geom_inv
     (scene_geoms (m_rootNode (ExtractGeometryData (\<lambda>x. x) shift_x (\<lambda>q. q) [Some triangle_shape]
         (SimpleIFC2GLTF example_args))))"
proof -
  have i: "geom_inv (GeometryData_init :: rat GeometryData)"
    by (simp add: geom_inv_def GeometryData_init_def)
  have x: "indices (add_triangle (\<lambda>x. x) (0, 0, 0) (1, 0, 0) (0, 1, 0) (0, 0, 1)
               (GeometryData_init :: rat GeometryData)) = [0, 1, 2]"
    by (simp add: add_triangle_def GeometryData_init_def)
  let ?m = "ExtractMeshSet (\<lambda>x. x) shift_x (Some [Some [Some quad_face]]) 10
               (GeometryData_init :: rat GeometryData)"
  note t = geometry_record_invariant [where 'f = rat and cf = "\<lambda>x. x" and mul = shift_x and lit = "\<lambda>q. q"
      and args = example_args and entries = "[Some triangle_shape]" and mid = "[]"
      and ?p0.0 = "(0, 0, 0)" and ?p1.0 = "(1, 0, 0)" and ?p2.0 = "(0, 1, 0)"
      and normal = "(0, 0, 1)" and meshset = "Some [Some [Some quad_face]]" and lt = 10
      and s = 2]
  have a: "geom_inv (add_triangle (\<lambda>x. x) (0, 0, 0) (1, 0, 0) (0, 1, 0) (0, 0, 1)
               (GeometryData_init :: rat GeometryData))"
    using t [where g = GeometryData_init] i by blast
  have m: "geom_inv ?m"
    using t [where g = GeometryData_init] i by blast
  have s: "geom_inv (ApplyScale ?m 2)"
    using t [where g = ?m] m by blast
  have c: "geom_inv (CalculateBounds (ApplyScale ?m 2))"
    using t [where g = "ApplyScale ?m 2"] s by blast
  show ?thesis
    using i x a m c t [where g = GeometryData_init] by blast
qed

section \<open>A face becomes a fan of triangles\<close>




section \<open>The scale multiplies positions and bounds, not normals\<close>

text \<open>
  Claim C6, in the arithmetic of binary32, for a scale that is positive and finite. The
  scene extracted with scale \<open>s\<close> is the scene extracted with scale 1 with every record
  changed by \<open>scale_record s\<close>: the same nodes and records in the same order, every
  vertex coordinate the product of the coordinate and \<open>s\<close> as binary32 rounds it, both
  bounds the products of the bounds and \<open>s\<close>, and the normals, the indices and all else as
  they are; for the scale 1 the records are the same. What is emitted follows: the
  bytes that \<^verbatim>\<open>CollectBinaryData\<close> gathers are those of the changed records, and the
  accessors that \<^verbatim>\<open>WriteAccessors\<close> writes are those of the changed records, with their
  \<^verbatim>\<open>min\<close> and \<^verbatim>\<open>max\<close>.
\<close>

theorem scale_multiplies_positions:
  fixes s :: binary32 and cf :: "'d \<Rightarrow> binary32" and mul lit entries args
  defines "run \<equiv> \<lambda>x. ExtractGeometryData cf mul lit entries (SimpleIFC2GLTF (args\<lparr>scale := x\<rparr>))"
  assumes "0 < s" and "s < PInf"
  shows "m_rootNode (run s) = scale_node s (m_rootNode (run 1)) \<and>
         scene_geoms (m_rootNode (run s)) = map (scale_record s) (scene_geoms (m_rootNode (run 1))) \<and>
         vertices (scale_record s g) = (if s = 1 then vertices g else map (\<lambda>v. v * s) (vertices g)) \<and>
         normals (scale_record s g) = normals g \<and>
         indices (scale_record s g) = indices g \<and>
         minBounds (scale_record s g) = (if s = 1 then minBounds g else scale3 s (minBounds g)) \<and>
         maxBounds (scale_record s g) = (if s = 1 then maxBounds g else scale3 s (maxBounds g)) \<and>
         CollectBinaryData float_bytes (run s) [] =
           concat (map (\<lambda>g. geom_bytes float_bytes (scale_record s g))
                     (scene_geoms (m_rootNode (run 1)))) \<and>
         WriteAccessors fmt (m_rootNode (run s)) out =
           out @ json_array ''accessors''
                   (map (accessor_json fmt)
                      (accessors_from 0 (map (scale_record s) (scene_geoms (m_rootNode (run 1))))))"
proof -
  obtain q where q: "s = Fin q" "0 < q"
    using finite_positive [OF assms(2,3)] by blast
  have k: "keeps_min_max s"
    unfolding q(1) using q(2) by (rule keeps_min_max_Fin)
  have "scale (m_args (SimpleIFC2GLTF (args\<lparr>scale := 1\<rparr>))) = (1::binary32)"
    by (simp add: SimpleIFC2GLTF_def)
  then have "run s = scale_converter s (run 1)"
    unfolding run_def SimpleIFC2GLTF_scale [where args = args and s = s]
    by (rule ExtractGeometryData_scale [OF k])
  then have r: "m_rootNode (run s) = scale_node s (m_rootNode (run 1))"
    by (simp add: scale_converter_def)
  have g: "scene_geoms (m_rootNode (run s)) = map (scale_record s) (scene_geoms (m_rootNode (run 1)))"
    unfolding r by (rule scene_geoms_scale_node)
  have c: "CollectBinaryData float_bytes (run s) [] =
           concat (map (\<lambda>g. geom_bytes float_bytes (scale_record s g))
                     (scene_geoms (m_rootNode (run 1))))"
    by (simp add: CollectBinaryData_concat g comp_def)
  have w: "WriteAccessors fmt (m_rootNode (run s)) out =
           out @ json_array ''accessors''
                   (map (accessor_json fmt)
                      (accessors_from 0 (map (scale_record s) (scene_geoms (m_rootNode (run 1))))))"
    unfolding WriteAccessors_text g by (rule refl)
  show ?thesis
    using r g c w by (simp add: scale_record_def)
qed

text \<open>
  The theorem at a triangle with the coordinates 0 and 0.1 and the scale 3, where the
  product is rounded: 0.1 is 13421773/134217728 in binary32 and its product with 3 is
  5033165/16777216. And at the triangle with the coordinates 0 and 1 and the scale
  0.001, which is 8589935/8589934592 in binary32.
\<close>

theorem scale_multiplies_positions_witness:
  "(0::binary32) < Fin 3 \<and> Fin 3 < PInf \<and>
   scene_geoms (m_rootNode (ExtractGeometryData round32 shift_x round32 [Some tenth_shape]
      (SimpleIFC2GLTF (float_args\<lparr>scale := Fin 3\<rparr>)))) =
     [\<lparr>vertices = [Fin 0, Fin 0, Fin 0, Fin (5033165 / 16777216), Fin 0, Fin 0,
                   Fin 0, Fin (5033165 / 16777216), Fin 0],
       normals = [Fin 0, Fin 0, Fin 1, Fin 0, Fin 0, Fin 1, Fin 0, Fin 0, Fin 1],
       texCoords = [Fin 0, Fin 0, Fin 0, Fin 0, Fin 0, Fin 0], indices = [0, 1, 2],
       materialId = ''default'',
       minBounds = (Fin 0, Fin 0, Fin 0),
       maxBounds = (Fin (5033165 / 16777216), Fin (5033165 / 16777216), Fin 0)\<rparr>] \<and>
   0 < round32 (1 / 1000) \<and> round32 (1 / 1000) < PInf \<and>
   map maxBounds
     (scene_geoms (m_rootNode (ExtractGeometryData round32 shift_x round32 [Some triangle_shape]
        (SimpleIFC2GLTF (float_args\<lparr>scale := round32 (1 / 1000)\<rparr>))))) =
     [(Fin (8589935 / 8589934592), Fin (8589935 / 8589934592), Fin 0)]"
proof -
  have h': "(0::binary32) < round32 (1 / 1000)" "round32 (1 / 1000) < PInf"
    by (simp_all add: one_thousandth less_binary32_def zero_binary32_def)
  note t' = scale_multiplies_positions [OF h', where cf = round32 and mul = shift_x
      and lit = round32 and entries = "[Some triangle_shape]" and args = float_args]
  have m: "scene_geoms (m_rootNode (ExtractGeometryData round32 shift_x round32
      [Some triangle_shape] (SimpleIFC2GLTF (float_args\<lparr>scale := round32 (1 / 1000)\<rparr>)))) =
    map (scale_record (round32 (1 / 1000)))
      (scene_geoms (m_rootNode (ExtractGeometryData round32 shift_x round32 [Some triangle_shape]
         (SimpleIFC2GLTF (float_args\<lparr>scale := 1\<rparr>)))))"
    using t' by blast
  have m': "map maxBounds
     (scene_geoms (m_rootNode (ExtractGeometryData round32 shift_x round32 [Some triangle_shape]
        (SimpleIFC2GLTF (float_args\<lparr>scale := round32 (1 / 1000)\<rparr>))))) =
     [(Fin (8589935 / 8589934592), Fin (8589935 / 8589934592), Fin 0)]"
    by (simp only: m float_triangle_scene_geoms) (simp only: one_thousandth)
  have h: "(0::binary32) < Fin 3" "Fin 3 < PInf"
    by (simp_all add: less_binary32_def zero_binary32_def)
  note t = scale_multiplies_positions [OF h, where cf = round32 and mul = shift_x
      and lit = round32 and entries = "[Some tenth_shape]" and args = float_args]
  have "scene_geoms (m_rootNode (ExtractGeometryData round32 shift_x round32 [Some tenth_shape]
      (SimpleIFC2GLTF (float_args\<lparr>scale := Fin 3\<rparr>)))) =
    map (scale_record (Fin 3))
      (scene_geoms (m_rootNode (ExtractGeometryData round32 shift_x round32 [Some tenth_shape]
         (SimpleIFC2GLTF (float_args\<lparr>scale := 1\<rparr>)))))"
    using t by blast
  then show ?thesis
    using h h' m' by (simp add: tenth_scene_geoms three_tenths)
qed

text \<open>
  Claim C6 as it is worded, for every scale above 0, fails at the scale infinity, which
  \<^verbatim>\<open>ValidateArgs\<close> lets through. The product of 0 and infinity is NaN, and \<^verbatim>\<open>std::max\<close>
  keeps a NaN that it holds: the upper bound of the triangle becomes (NaN, NaN, NaN),
  where the upper bound (1, 1, 0) at scale 1 times the scale is (infinity, infinity,
  NaN).
\<close>

theorem infinite_scale_counterexample:
  "(0::binary32) < PInf \<and> ValidateArgs (float_args\<lparr>scale := PInf\<rparr>) \<and>
   map maxBounds
     (scene_geoms (m_rootNode (ExtractGeometryData round32 shift_x round32 [Some triangle_shape]
        (SimpleIFC2GLTF (float_args\<lparr>scale := 1\<rparr>))))) = [(Fin 1, Fin 1, Fin 0)] \<and>
   map maxBounds
     (scene_geoms (m_rootNode (ExtractGeometryData round32 shift_x round32 [Some triangle_shape]
        (SimpleIFC2GLTF (float_args\<lparr>scale := PInf\<rparr>))))) = [(NaN, NaN, NaN)] \<and>
   map vertices
     (scene_geoms (m_rootNode (ExtractGeometryData round32 shift_x round32 [Some triangle_shape]
        (SimpleIFC2GLTF (float_args\<lparr>scale := PInf\<rparr>))))) =
     [[NaN, NaN, NaN, PInf, NaN, NaN, NaN, PInf, NaN]] \<and>
   map (scale3 PInf) [(Fin 1, Fin 1, Fin 0)] = [(PInf, PInf, NaN)] \<and>
   map maxBounds
     (scene_geoms (m_rootNode (ExtractGeometryData round32 shift_x round32 [Some triangle_shape]
        (SimpleIFC2GLTF (float_args\<lparr>scale := PInf\<rparr>))))) \<noteq>
   map (scale3 PInf)
     (map maxBounds
        (scene_geoms (m_rootNode (ExtractGeometryData round32 shift_x round32
           [Some triangle_shape] (SimpleIFC2GLTF (float_args\<lparr>scale := 1\<rparr>))))))"
  by code_simp

section \<open>Each item is transformed by the shape data object that owns it\<close>

text \<open>
  Claim C7, amended. Extraction into a node runs over the items below the shape data
  object in order, each with the transform of the shape data object that owns it: the
  node's own transform for its own items and their child items, and for the items of a
  descendant shape data object that descendant's own transform.
\<close>

theorem each_item_meets_its_owner_transform:
  "ExtractShapeData cf mul lit shapeData s =
     fold (\<lambda>(localTransform, geometricItem).
             ExtractGeometricItems cf mul lit geometricItem localTransform)
       (items_with_transforms shapeData) s"
proof (induction cf mul lit shapeData s rule: ExtractShapeData.induct)
  case (1 cf mul lit object lt items childElements s)
  let ?E = "\<lambda>(localTransform, geometricItem).
             ExtractGeometricItems cf mul lit geometricItem localTransform"
  have c: "\<And>t. fold (\<lambda>child_object. ExtractShapeData cf mul lit child_object) childElements t =
        fold ?E (concat (map items_with_transforms childElements)) t"
    using 1 by (induction childElements) simp_all
  have i: "\<And>t. fold (\<lambda>geometricItem. ExtractGeometricItems cf mul lit geometricItem lt) items t =
        fold (\<lambda>i. ExtractGeometricItems cf mul lit i lt) (concat (map item_and_children items)) t"
  proof -
    fix t show "fold (\<lambda>geometricItem. ExtractGeometricItems cf mul lit geometricItem lt) items t =
        fold (\<lambda>i. ExtractGeometricItems cf mul lit i lt) (concat (map item_and_children items)) t"
      by (induction items arbitrary: t) (simp_all add: ExtractGeometricItems_flat [symmetric])
  qed
  show ?case
    by (simp add: c i fold_map comp_def)
qed

text \<open>
  The claim as worded fails on a shape data object with transform 0 whose child, with
  transform 5, owns a triangle: the code shifts the triangle by 5, the child's
  transform; one transform for the whole node would leave it where it is.
\<close>

theorem own_transform_counterexample:
  "map vertices (geometries (snd (ExtractShapeData (\<lambda>x. x) shift_x (\<lambda>q. q) nested_shape
      (SimpleIFC2GLTF example_args, fresh_node)))) = [[5, 0, 0,  6, 0, 0,  5, 1, 0]] \<and>
   map vertices (geometries (snd (ExtractShapeData_one_transform (\<lambda>x. x) shift_x (\<lambda>q. q) nested_shape
      (SimpleIFC2GLTF example_args, fresh_node)))) = [[0, 0, 0,  1, 0, 0,  0, 1, 0]]"
  by code_simp

section \<open>Three accessors and three buffer views for each record\<close>

text \<open>
  Claim C2. For the scene that extraction builds from any shape data, the text that
  \<^verbatim>\<open>WriteAccessors\<close> sends to the stream is the \<^verbatim>\<open>accessors\<close> array whose entries are the
  position, normal and index accessor of each record in the order of the scene, and
  their number is three times the number of records with vertices (every record of the
  scene has vertices). The same holds for \<^verbatim>\<open>WriteBufferViews\<close> and the \<^verbatim>\<open>bufferViews\<close>
  array, and the writers for GLB send the same text. An entry is one object with no
  object inside, so the entries can be counted in the text as its opening braces: in
  the buffer views as they are, and in the accessors when the number formatting of the
  stream prints no brace.
\<close>

theorem accessor_and_buffer_view_counts:
  fixes cf :: "'d \<Rightarrow> 'f::{zero,one,times,ord}" and mul lit entries args
  defines "rootNode \<equiv> m_rootNode (ExtractGeometryData cf mul lit entries (SimpleIFC2GLTF args))"
  defines "n \<equiv> length (filter (\<lambda>g. vertices g \<noteq> []) (scene_geoms rootNode))"
  shows "WriteAccessors fmt rootNode out =
           out @ json_array ''accessors''
                   (map (accessor_json fmt) (accessors_from 0 (scene_geoms rootNode))) \<and>
         length (accessors_from 0 (scene_geoms rootNode)) = 3 * n \<and>
         WriteBufferViews rootNode out =
           out @ json_array ''bufferViews''
                   (map buffer_view_json (buffer_views_from 0 (scene_geoms rootNode))) \<and>
         length (buffer_views_from 0 (scene_geoms rootNode)) = 3 * n \<and>
         WriteAccessorsForGlb fmt rootNode out = WriteAccessors fmt rootNode out \<and>
         WriteBufferViewsForGlb rootNode out = WriteBufferViews rootNode out \<and>
         count_list (WriteBufferViews rootNode []) CHR ''{'' = 3 * n \<and>
         ((\<forall>x. CHR ''{'' \<notin> set (fmt x)) \<longrightarrow>
            count_list (WriteAccessors fmt rootNode []) CHR ''{'' = 3 * n)"
proof -
  let ?gs = "scene_geoms rootNode"
  have "list_all record_ok ?gs"
    unfolding rootNode_def by (rule ExtractGeometryData_ok) simp
  then have "filter (\<lambda>g. vertices g \<noteq> []) ?gs = ?gs"
    by (rule filter_record_ok)
  then have n: "n = length ?gs"
    by (simp add: n_def)
  have bv: "count_list (WriteBufferViews rootNode []) CHR ''{'' = 3 * n"
  proof -
    have "sum_list (map (\<lambda>e. count_list e CHR ''{'')
            (map buffer_view_json (buffer_views_from 0 ?gs))) =
          length (buffer_views_from 0 ?gs)"
      unfolding map_map comp_def by (rule sum_list_ones) simp
    then show ?thesis
      unfolding WriteBufferViews_text n
      by (simp add: count_json_array length_buffer_views_from)
  qed
  have acc: "count_list (WriteAccessors fmt rootNode []) CHR ''{'' = 3 * n"
    if "\<forall>x. CHR ''{'' \<notin> set (fmt x)"
  proof -
    have "sum_list (map (\<lambda>e. count_list e CHR ''{'')
            (map (accessor_json fmt) (accessors_from 0 ?gs))) =
          length (accessors_from 0 ?gs)"
      unfolding map_map comp_def
      by (rule sum_list_ones) (rule count_accessor_json, use that in blast, assumption)
    then show ?thesis
      unfolding WriteAccessors_text n
      by (simp add: count_json_array length_accessors_from)
  qed
  show ?thesis
    using bv acc
    by (simp add: WriteAccessors_text WriteBufferViews_text n length_accessors_from
          length_buffer_views_from WriteAccessorsForGlb_def WriteBufferViewsForGlb_def)
qed

text \<open>
  The theorem at the one-triangle scene: one record, three opening braces in each
  array, and the text of the accessors.
\<close>

theorem accessor_and_buffer_view_counts_witness:
  "(\<forall>x. CHR ''{'' \<notin> set (fmt_int x)) \<and>
   length (filter (\<lambda>g. vertices g \<noteq> []) (scene_geoms (m_rootNode triangle_scene))) = 1 \<and>
   count_list (WriteAccessors fmt_int (m_rootNode triangle_scene) []) CHR ''{'' = 3 \<and>
   count_list (WriteBufferViews (m_rootNode triangle_scene) []) CHR ''{'' = 3 \<and>
   WriteAccessors fmt_int (m_rootNode triangle_scene) [] =
     ''  \"accessors\": [\<newline>'' @
     ''    {\<newline>'' @
     ''      \"bufferView\": 0,\<newline>'' @
     ''      \"componentType\": 5126,\<newline>'' @
     ''      \"count\": 3,\<newline>'' @
     ''      \"type\": \"VEC3\",\<newline>'' @
     ''      \"min\": [0, 0, 0],\<newline>'' @
     ''      \"max\": [1, 1, 0]\<newline>'' @
     ''    },\<newline>'' @
     ''    {\<newline>'' @
     ''      \"bufferView\": 1,\<newline>'' @
     ''      \"componentType\": 5126,\<newline>'' @
     ''      \"count\": 3,\<newline>'' @
     ''      \"type\": \"VEC3\"\<newline>'' @
     ''    },\<newline>'' @
     ''    {\<newline>'' @
     ''      \"bufferView\": 2,\<newline>'' @
     ''      \"componentType\": 5125,\<newline>'' @
     ''      \"count\": 3,\<newline>'' @
     ''      \"type\": \"SCALAR\"\<newline>'' @
     ''    }\<newline>'' @
     ''  ],\<newline>''"
proof -
  have h: "\<forall>x. CHR ''{'' \<notin> set (fmt_int x)"
    by (simp add: fmt_int_no_brace)
  have n: "length (filter (\<lambda>g. vertices g \<noteq> []) (scene_geoms (m_rootNode triangle_scene))) = 1"
    by (simp add: triangle_scene_geoms)
  note t = accessor_and_buffer_view_counts [where cf = "\<lambda>x::rat. x" and mul = shift_x and lit = "\<lambda>q. q"
      and entries = "[Some triangle_shape]" and args = example_args and fmt = fmt_int
      and out = "[]", folded triangle_scene_def]
  have a: "count_list (WriteAccessors fmt_int (m_rootNode triangle_scene) []) CHR ''{'' =
      3 * length (filter (\<lambda>g. vertices g \<noteq> []) (scene_geoms (m_rootNode triangle_scene)))"
    using t h by blast
  have b: "count_list (WriteBufferViews (m_rootNode triangle_scene) []) CHR ''{'' =
      3 * length (filter (\<lambda>g. vertices g \<noteq> []) (scene_geoms (m_rootNode triangle_scene)))"
    using t by blast
  have c: "WriteAccessors fmt_int (m_rootNode triangle_scene) [] =
      [] @ json_array ''accessors''
        (map (accessor_json fmt_int) (accessors_from 0 (scene_geoms (m_rootNode triangle_scene))))"
    using t by blast
  show ?thesis
    using h by (simp add: a b c n triangle_accessors_text)
qed

section \<open>Buffer views agree with their accessors\<close>

text \<open>
  Claim C3. For the scene that extraction builds, the two arrays sent to the stream are
  the texts of the accessors \<open>A\<close> and the buffer views \<open>B\<close>, where accessor \<open>k\<close> names
  buffer view \<open>k\<close>; the byte length of that view is the accessor's count times the size
  of its component type times the number of components of its type, the size being 4
  and the number 3 for the position and normal accessors and 1 for the index accessor;
  and the byte offset of each view is the sum of the byte lengths of the views before
  it.
\<close>

theorem buffer_views_match_accessors:
  fixes cf :: "'d \<Rightarrow> 'f::{zero,one,times,ord}" and mul lit entries args fmt out out'
  defines "rootNode \<equiv> m_rootNode (ExtractGeometryData cf mul lit entries (SimpleIFC2GLTF args))"
  defines "A \<equiv> accessors_from 0 (scene_geoms rootNode)"
  defines "B \<equiv> buffer_views_from 0 (scene_geoms rootNode)"
  shows "WriteAccessors fmt rootNode out =
           out @ json_array ''accessors'' (map (accessor_json fmt) A) \<and>
         WriteBufferViews rootNode out' =
           out' @ json_array ''bufferViews'' (map buffer_view_json B) \<and>
         length B = length A \<and>
         (\<forall>k < length A.
            acc_bufferView (A ! k) = k \<and>
            bv_byteLength (B ! k) =
              acc_count (A ! k) * component_size (acc_componentType (A ! k)) *
              components (acc_type (A ! k)) \<and>
            component_size (acc_componentType (A ! k)) = 4 \<and>
            components (acc_type (A ! k)) = (if k mod 3 = 2 then 1 else 3) \<and>
            bv_byteOffset (B ! k) = sum_list (map bv_byteLength (take k B)))"
proof -
  let ?gs = "scene_geoms rootNode"
  have ok: "list_all record_ok ?gs"
    unfolding rootNode_def by (rule ExtractGeometryData_ok) simp
  then have inv: "list_all geom_inv ?gs"
    by (simp add: list_all_iff record_ok_def)
  have len: "length B = length A"
    by (simp add: A_def B_def length_accessors_from length_buffer_views_from)
  have bytes: "map accessor_bytes A = map bv_byteLength B"
    unfolding A_def B_def by (rule accessor_bytes_match [OF inv])
  have views: "map acc_bufferView A = [0..<length A]"
    using bufferView_accessors_from [of 0 ?gs] by (simp add: A_def length_accessors_from)
  have offs: "offsets_from 0 B"
    unfolding B_def by (rule offsets_from_buffer_views_from)
  have kinds: "\<And>k. k < length A \<Longrightarrow>
      component_size (acc_componentType (A ! k)) = 4 \<and>
      components (acc_type (A ! k)) = (if k mod 3 = 2 then 1 else 3)"
    unfolding A_def by (rule accessors_from_kinds)
  show ?thesis
  proof (intro conjI allI impI)
    show "WriteAccessors fmt rootNode out =
        out @ json_array ''accessors'' (map (accessor_json fmt) A)"
      unfolding A_def by (rule WriteAccessors_text)
    show "WriteBufferViews rootNode out' =
        out' @ json_array ''bufferViews'' (map buffer_view_json B)"
      unfolding B_def by (rule WriteBufferViews_text)
    show "length B = length A" by (rule len)
  next
    fix k assume k: "k < length A"
    show "acc_bufferView (A ! k) = k"
      using arg_cong [OF views, of "\<lambda>xs. xs ! k"] k by simp
    have "accessor_bytes (A ! k) = bv_byteLength (B ! k)"
      using arg_cong [OF bytes, of "\<lambda>xs. xs ! k"] k len by simp
    then show "bv_byteLength (B ! k) =
        acc_count (A ! k) * component_size (acc_componentType (A ! k)) *
        components (acc_type (A ! k))"
      by (simp add: accessor_bytes_def)
    show "component_size (acc_componentType (A ! k)) = 4" using kinds [OF k] by simp
    show "components (acc_type (A ! k)) = (if k mod 3 = 2 then 1 else 3)"
      using kinds [OF k] by simp
    show "bv_byteOffset (B ! k) = sum_list (map bv_byteLength (take k B))"
      using offsets_from_nth [OF offs, of k] k len by simp
  qed
qed

text \<open>The theorem at the one-triangle scene: the text of both arrays.\<close>

theorem buffer_views_match_accessors_witness:
  "WriteAccessors fmt_int (m_rootNode triangle_scene) [] =
     ''  \"accessors\": [\<newline>'' @
     ''    {\<newline>'' @
     ''      \"bufferView\": 0,\<newline>'' @
     ''      \"componentType\": 5126,\<newline>'' @
     ''      \"count\": 3,\<newline>'' @
     ''      \"type\": \"VEC3\",\<newline>'' @
     ''      \"min\": [0, 0, 0],\<newline>'' @
     ''      \"max\": [1, 1, 0]\<newline>'' @
     ''    },\<newline>'' @
     ''    {\<newline>'' @
     ''      \"bufferView\": 1,\<newline>'' @
     ''      \"componentType\": 5126,\<newline>'' @
     ''      \"count\": 3,\<newline>'' @
     ''      \"type\": \"VEC3\"\<newline>'' @
     ''    },\<newline>'' @
     ''    {\<newline>'' @
     ''      \"bufferView\": 2,\<newline>'' @
     ''      \"componentType\": 5125,\<newline>'' @
     ''      \"count\": 3,\<newline>'' @
     ''      \"type\": \"SCALAR\"\<newline>'' @
     ''    }\<newline>'' @
     ''  ],\<newline>'' \<and>
   WriteBufferViews (m_rootNode triangle_scene) [] =
     ''  \"bufferViews\": [\<newline>'' @
     ''    {\<newline>'' @
     ''      \"buffer\": 0,\<newline>'' @
     ''      \"byteOffset\": 0,\<newline>'' @
     ''      \"byteLength\": 36,\<newline>'' @
     ''      \"target\": 34962\<newline>'' @
     ''    },\<newline>'' @
     ''    {\<newline>'' @
     ''      \"buffer\": 0,\<newline>'' @
     ''      \"byteOffset\": 36,\<newline>'' @
     ''      \"byteLength\": 36,\<newline>'' @
     ''      \"target\": 34962\<newline>'' @
     ''    },\<newline>'' @
     ''    {\<newline>'' @
     ''      \"buffer\": 0,\<newline>'' @
     ''      \"byteOffset\": 72,\<newline>'' @
     ''      \"byteLength\": 12,\<newline>'' @
     ''      \"target\": 34963\<newline>'' @
     ''    }\<newline>'' @
     ''  ],\<newline>'' \<and>
   3 * component_size 5126 * components ''VEC3'' = 36 \<and>
   3 * component_size 5125 * components ''SCALAR'' = 12"
proof -
  note t = buffer_views_match_accessors [where cf = "\<lambda>x::rat. x" and mul = shift_x and lit = "\<lambda>q. q"
      and entries = "[Some triangle_shape]" and args = example_args and fmt = fmt_int
      and out = "[]" and out' = "[]", folded triangle_scene_def]
  show ?thesis
    using t
    by (simp add: triangle_accessors_text triangle_buffer_views_text component_size_def
          components_def)
qed

section \<open>The sidecar file of an output path without a dot\<close>




section \<open>Names go into the JSON text as they are\<close>

text \<open>
  Claim C10. Whatever characters the names hold, the JSON text of both writers has the
  name of the scene between \<^verbatim>\<open>"name": "\<close> and \<^verbatim>\<open>",\<close>, the name of every node between
  \<^verbatim>\<open>"name": "\<close> and a quote, and for every node with geometry its name between
  \<^verbatim>\<open>"name": "\<close> and \<^verbatim>\<open>_Mesh",\<close>: the characters of the name are written as they are,
  with no escaping. The text is the characters sent to the stream.
\<close>

theorem names_written_verbatim:
  "occurs_in (''      \"name\": \"'' @ name (m_rootNode st) @ ''\",\<newline>'')
     (WriteGltfJson fmt st out) \<and>
   (\<forall>n \<in> set (children (m_rootNode st)).
      occurs_in (''      \"name\": \"'' @ name n @ ''\"'') (WriteGltfJson fmt st out) \<and>
      (geometries n \<noteq> [] \<longrightarrow>
       occurs_in (''      \"name\": \"'' @ name n @ ''_Mesh\",\<newline>'')
         (WriteGltfJson fmt st out))) \<and>
   occurs_in (''      \"name\": \"'' @ name (m_rootNode st) @ ''\",\<newline>'')
     (WriteGltfJsonForGlb fmt st out) \<and>
   (\<forall>n \<in> set (children (m_rootNode st)).
      occurs_in (''      \"name\": \"'' @ name n @ ''\"'') (WriteGltfJsonForGlb fmt st out) \<and>
      (geometries n \<noteq> [] \<longrightarrow>
       occurs_in (''      \"name\": \"'' @ name n @ ''_Mesh\",\<newline>'')
         (WriteGltfJsonForGlb fmt st out)))"
proof (intro conjI ballI impI)
  show "occurs_in (''      \"name\": \"'' @ name (m_rootNode st) @ ''\",\<newline>'')
     (WriteGltfJson fmt st out)"
    unfolding WriteGltfJson_unfold
    by (intro WriteGltfJson_tail occurs_in_keep [OF _ WriteMeshes_prefix]
          occurs_in_keep [OF _ WriteNodes_prefix] scene_head_name)
  show "occurs_in (''      \"name\": \"'' @ name (m_rootNode st) @ ''\",\<newline>'')
     (WriteGltfJsonForGlb fmt st out)"
    unfolding WriteGltfJsonForGlb_unfold
    by (intro WriteGltfJsonForGlb_tail occurs_in_keep [OF _ WriteMeshes_prefix]
          occurs_in_keep [OF _ WriteNodes_prefix] scene_head_name)
next
  fix n assume n: "n \<in> set (children (m_rootNode st))"
  show "occurs_in (''      \"name\": \"'' @ name n @ ''\"'') (WriteGltfJson fmt st out)"
    unfolding WriteGltfJson_unfold
    by (intro WriteGltfJson_tail occurs_in_keep [OF _ WriteMeshes_prefix] WriteNodes_name n)
  show "occurs_in (''      \"name\": \"'' @ name n @ ''\"'') (WriteGltfJsonForGlb fmt st out)"
    unfolding WriteGltfJsonForGlb_unfold
    by (intro WriteGltfJsonForGlb_tail occurs_in_keep [OF _ WriteMeshes_prefix]
          WriteNodes_name n)
  assume g: "geometries n \<noteq> []"
  show "occurs_in (''      \"name\": \"'' @ name n @ ''_Mesh\",\<newline>'')
         (WriteGltfJson fmt st out)"
    unfolding WriteGltfJson_unfold
    by (intro WriteGltfJson_tail WriteMeshes_name n g)
  show "occurs_in (''      \"name\": \"'' @ name n @ ''_Mesh\",\<newline>'')
         (WriteGltfJsonForGlb fmt st out)"
    unfolding WriteGltfJsonForGlb_unfold
    by (intro WriteGltfJsonForGlb_tail WriteMeshes_name n g)
qed


text \<open>The theorem at a node whose name holds a quote, a backslash and a line break.\<close>

theorem names_written_verbatim_witness:
  "occurs_in (''      \"name\": \"'' @ [CHR ''a'', CHR 0x22, CHR ''b'', CHR 0x5C, CHR ''c'', CHR 0x0A] @
              ''\"'')
     (WriteGltfJson fmt_int quoted_scene []) \<and>
   occurs_in (''      \"name\": \"'' @ [CHR ''a'', CHR 0x22, CHR ''b'', CHR 0x5C, CHR ''c'', CHR 0x0A] @
              ''_Mesh\",\<newline>'')
     (WriteGltfJson fmt_int quoted_scene []) \<and>
   occurs_in (''      \"name\": \"'' @ ''Scene'' @ ''\",\<newline>'')
     (WriteGltfJsonForGlb fmt_int quoted_scene [])"
proof -
  have n: "quoted_node \<in> set (children (m_rootNode quoted_scene))"
    by (simp add: quoted_scene_def)
  have nm: "name quoted_node = [CHR ''a'', CHR 0x22, CHR ''b'', CHR 0x5C, CHR ''c'', CHR 0x0A]"
    by (simp add: quoted_node_def)
  have g: "geometries quoted_node \<noteq> []"
    by (simp add: quoted_node_def)
  have r: "name (m_rootNode quoted_scene) = ''Scene''"
    by (simp add: quoted_scene_def)
  note t = names_written_verbatim [of quoted_scene fmt_int "[]"]
  from t n have a: "occurs_in (''      \"name\": \"'' @ name quoted_node @ ''\"'')
       (WriteGltfJson fmt_int quoted_scene [])"
    by blast
  from t n g have b: "occurs_in (''      \"name\": \"'' @ name quoted_node @ ''_Mesh\",\<newline>'')
       (WriteGltfJson fmt_int quoted_scene [])"
    by blast
  from t have c: "occurs_in (''      \"name\": \"'' @ name (m_rootNode quoted_scene) @ ''\",\<newline>'')
       (WriteGltfJsonForGlb fmt_int quoted_scene [])"
    by blast
  show ?thesis
    using a b c unfolding nm r by (intro conjI)
qed

section \<open>A conversion fails when its output file cannot be opened\<close>

text \<open>
  Claim C8, amended. When the output file itself, the \<^verbatim>\<open>.gltf\<close> or the \<^verbatim>\<open>.glb\<close> at the
  output path, cannot be opened, \<^verbatim>\<open>Convert\<close> returns false and \<^verbatim>\<open>main\<close> the status 1; if
  loading and geometry conversion had succeeded, standard error gets the two lines that
  name the file, and no file is written.
\<close>

theorem unopenable_output_fails:
  assumes "\<not> can_open fs (outputFile (m_args st))"
  shows "fst (Convert cf mul lit fmt fb fs loaded converted entries st w) = False \<and>
         fst (main_exit (Convert cf mul lit fmt fb fs loaded converted entries st w)) = 1 \<and>
         (loaded \<and> converted \<longrightarrow>
            cerr (snd (Convert cf mul lit fmt fb fs loaded converted entries st w)) =
              cerr w @ [''[ERROR] Cannot open output file: '' @ outputFile (m_args st),
                        ''[ERROR] Failed to write output file: '' @ outputFile (m_args st)] \<and>
            files (snd (Convert cf mul lit fmt fb fs loaded converted entries st w)) = files w)"
proof -
  have r: "fst (Convert cf mul lit fmt fb fs loaded converted entries st w) = False"
    using assms by (simp add: Convert_result)
  show ?thesis
    using r Convert_cerr [OF _ _ assms, of loaded converted cf mul lit fmt fb entries w]
    by (simp add: fst_main_exit)
qed

text \<open>The theorem at a file system where nothing can be opened.\<close>

theorem unopenable_output_fails_witness:
  "\<not> can_open fs_no_output (outputFile (m_args (SimpleIFC2GLTF example_args))) \<and>
   fst (Convert (\<lambda>x. x) shift_x (\<lambda>q. q) fmt_int four_zero_bytes fs_no_output True True
          [Some triangle_shape] (SimpleIFC2GLTF example_args) empty_world) = False \<and>
   fst (main_exit (Convert (\<lambda>x. x) shift_x (\<lambda>q. q) fmt_int four_zero_bytes fs_no_output True True
          [Some triangle_shape] (SimpleIFC2GLTF example_args) empty_world)) = 1 \<and>
   cerr (snd (Convert (\<lambda>x. x) shift_x (\<lambda>q. q) fmt_int four_zero_bytes fs_no_output True True
          [Some triangle_shape] (SimpleIFC2GLTF example_args) empty_world)) =
     [''[ERROR] Cannot open output file: out.gltf'',
      ''[ERROR] Failed to write output file: out.gltf'']"
proof -
  have h: "\<not> can_open fs_no_output (outputFile (m_args (SimpleIFC2GLTF example_args)))"
    by (simp add: fs_no_output_def)
  have o: "outputFile (m_args (SimpleIFC2GLTF example_args)) = ''out.gltf''"
    by (simp add: SimpleIFC2GLTF_def example_args_def)
  have e: "cerr empty_world = []"
    by (simp add: empty_world_def)
  note t = unopenable_output_fails [OF h, of "\<lambda>x. x" shift_x "\<lambda>q. q" fmt_int four_zero_bytes
      True True
      "[Some triangle_shape]" empty_world]
  show ?thesis
    using h t unfolding o e by simp
qed

text \<open>
  The claim as worded fails twice. Where \<^verbatim>\<open>out.gltf\<close> opens and \<^verbatim>\<open>out.bin\<close> does not,
  \<^verbatim>\<open>Convert\<close> returns true and \<^verbatim>\<open>main\<close> the status 0, nothing goes to standard error,
  and only \<^verbatim>\<open>out.gltf\<close> is written. Where every file opens and every write fails,
  \<^verbatim>\<open>Convert\<close> returns true as well.
\<close>

theorem unopenable_output_counterexample:
  "\<not> can_open fs_no_bin (WriteBinaryData_binFile (outputFile example_args)) \<and>
   fst (Convert (\<lambda>x. x) shift_x (\<lambda>q. q) fmt_int four_zero_bytes fs_no_bin True True
          [Some triangle_shape] (SimpleIFC2GLTF example_args) empty_world) = True \<and>
   fst (main_exit (Convert (\<lambda>x. x) shift_x (\<lambda>q. q) fmt_int four_zero_bytes fs_no_bin True True
          [Some triangle_shape] (SimpleIFC2GLTF example_args) empty_world)) = 0 \<and>
   cerr (snd (Convert (\<lambda>x. x) shift_x (\<lambda>q. q) fmt_int four_zero_bytes fs_no_bin True True
          [Some triangle_shape] (SimpleIFC2GLTF example_args) empty_world)) = [] \<and>
   map fst (files (snd (Convert (\<lambda>x. x) shift_x (\<lambda>q. q) fmt_int four_zero_bytes fs_no_bin True True
          [Some triangle_shape] (SimpleIFC2GLTF example_args) empty_world))) = [''out.gltf''] \<and>
   \<not> can_write fs_no_write (outputFile example_args) \<and>
   fst (Convert (\<lambda>x. x) shift_x (\<lambda>q. q) fmt_int four_zero_bytes fs_no_write True True
          [Some triangle_shape] (SimpleIFC2GLTF example_args) empty_world) = True"
proof -
  have b: "WriteBinaryData_binFile ''out.gltf'' = ''out.bin''"
    by code_simp
  have a: "m_args (SimpleIFC2GLTF example_args) = example_args"
    by (simp add: SimpleIFC2GLTF_def)
  have o: "outputFile example_args = ''out.gltf''" "\<not> outputGlb example_args"
    by (simp_all add: example_args_def)
  have nb: "\<not> can_open fs_no_bin (WriteBinaryData_binFile (outputFile example_args))"
    by (simp add: o b fs_no_bin_def)
  have ob: "can_open fs_no_bin (outputFile example_args)"
    by (simp add: o fs_no_bin_def)
  have s: "cerr (snd (Convert (\<lambda>x. x) shift_x (\<lambda>q. q) fmt_int four_zero_bytes fs_no_bin True True
          [Some triangle_shape] (SimpleIFC2GLTF example_args) empty_world)) = cerr empty_world \<and>
      map fst (files (snd (Convert (\<lambda>x. x) shift_x (\<lambda>q. q) fmt_int four_zero_bytes fs_no_bin True True
          [Some triangle_shape] (SimpleIFC2GLTF example_args) empty_world))) =
        map fst (files empty_world) @ [outputFile (m_args (SimpleIFC2GLTF example_args))]"
    using nb ob by (intro Convert_sidecar_unopened) (simp_all add: a o)
  have r1: "fst (Convert (\<lambda>x. x) shift_x (\<lambda>q. q) fmt_int four_zero_bytes fs_no_bin True True
          [Some triangle_shape] (SimpleIFC2GLTF example_args) empty_world) = True"
    by (simp add: Convert_result a ob)
  have r2: "fst (Convert (\<lambda>x. x) shift_x (\<lambda>q. q) fmt_int four_zero_bytes fs_no_write True True
          [Some triangle_shape] (SimpleIFC2GLTF example_args) empty_world) = True"
    by (simp add: Convert_result a fs_no_write_def)
  have nw: "\<not> can_write fs_no_write (outputFile example_args)"
    by (simp add: fs_no_write_def)
  show ?thesis
    using nb r1 r2 nw s by (simp add: fst_main_exit a o empty_world_def)
qed

end
